(* ===== verification/Prelude.thy ===== *)
theory Prelude
  imports Main
begin

text \<open>
  Shared vocabulary of the development.
  \<^item> The result type \<open>'a py\<close> of a Python computation: \<open>None\<close> is a computation
    that does not return (unbounded recursion), \<open>Raise e\<close> one that raises the
    exception \<open>e\<close>, \<open>Return v\<close> one that returns \<open>v\<close>; \<open>py_bind\<close> sequences two
    statements and propagates an exception, as the interpreter does.
  \<^item> Python's dictionary and list subscripts, \<open>dict_get\<close> (KeyError) and
    \<open>list_get\<close> (IndexError); an insertion-ordered dictionary as an association
    list with \<open>dict_store\<close> and \<open>dict_del\<close>; \<open>ljust\<close>, the format
    \<^verbatim>\<open>{s:n}\<close> of a string. \<open>OperationalError\<close> is the exception of
    \<^verbatim>\<open>sqlite3\<close> for a failing statement, \<open>DatabaseError\<close> the one
    \<^verbatim>\<open>pandas.read_sql\<close> raises in its place.
  \<^item> Undirected connectivity \<open>conn E\<close> of an edge set, the abstract specification
    of the connected-components labeler, with the lemma that describes how one more
    edge merges two classes.
\<close>

named_theorems py_simps "evaluation rules of the Python result type"

section \<open>Python results\<close>

datatype pyerr =
    IndexError
  | KeyError
  | TypeError
  | ValueError
  | AttributeError
  | OperationalError string
  | DatabaseError string
  | AssertionError
  | FileNotFoundError string
  | ProgrammingError string
  | Exception string

type_synonym 'a py = "(pyerr + 'a) option"

abbreviation Return :: "'a \<Rightarrow> 'a py" where
  "Return x \<equiv> Some (Inr x)"

abbreviation Raise :: "pyerr \<Rightarrow> 'a py" where
  "Raise e \<equiv> Some (Inl e)"

definition py_bind :: "'a py \<Rightarrow> ('a \<Rightarrow> 'b py) \<Rightarrow> 'b py" where
  "py_bind m f = (case m of None \<Rightarrow> None | Some (Inl e) \<Rightarrow> Some (Inl e) | Some (Inr x) \<Rightarrow> f x)"

definition dict_get :: "('k \<rightharpoonup> 'v) \<Rightarrow> 'k \<Rightarrow> 'v py" where
  "dict_get m k = (case m k of None \<Rightarrow> Raise KeyError | Some v \<Rightarrow> Return v)"

definition list_get :: "'a list \<Rightarrow> nat \<Rightarrow> 'a py" where
  "list_get xs i = (if i < length xs then Return (xs ! i) else Raise IndexError)"

definition list_set :: "'a list \<Rightarrow> nat \<Rightarrow> 'a \<Rightarrow> 'a list py" where
  "list_set xs i v = (if i < length xs then Return (xs[i := v]) else Raise IndexError)"

text \<open>
  A Python dictionary iterates in insertion order: an association list whose
  \<^verbatim>\<open>d[k] = v\<close> updates a present key in place and appends a new one, and whose
  \<^verbatim>\<open>del d[k]\<close> raises KeyError for an absent key.
\<close>

fun dict_store :: "('k \<times> 'v) list \<Rightarrow> 'k \<Rightarrow> 'v \<Rightarrow> ('k \<times> 'v) list" where
  "dict_store [] k v = [(k, v)]"
| "dict_store ((k', v') # kvs) k v =
     (if k' = k then (k, v) # kvs else (k', v') # dict_store kvs k v)"

definition dict_del :: "('k \<times> 'v) list \<Rightarrow> 'k \<Rightarrow> ('k \<times> 'v) list py" where
  "dict_del kvs k = (if k \<in> fst ` set kvs then Return (filter (\<lambda>(k', _). k' \<noteq> k) kvs) else Raise KeyError)"

text \<open>\<^verbatim>\<open>xs.remove(x)\<close>: removes the first occurrence, ValueError when there is none.\<close>

fun list_remove :: "'a list \<Rightarrow> 'a \<Rightarrow> 'a list py" where
  "list_remove [] x = Raise ValueError"
| "list_remove (y # ys) x = (if y = x then Return ys else py_bind (list_remove ys x) (\<lambda>ys'. Return (y # ys')))"

text \<open>\<^verbatim>\<open>f'{s:n}'\<close> for a string \<open>s\<close>: left-justified, padded with spaces to width \<open>n\<close>.\<close>

definition ljust :: "nat \<Rightarrow> string \<Rightarrow> string" where
  "ljust n s = s @ replicate (n - length s) CHR '' ''"

lemma py_bind_simps [simp, py_simps]:
  "py_bind None f = None"
  "py_bind (Raise e) f = Raise e"
  "py_bind (Return x) f = f x"
  by (simp_all add: py_bind_def)

lemma py_bind_Return_iff [py_simps]:
  "py_bind m f = Return y \<longleftrightarrow> (\<exists>x. m = Return x \<and> f x = Return y)"
  by (auto simp: py_bind_def split: option.splits sum.splits)

lemma py_bind_Raise_iff [py_simps]:
  "py_bind m f = Raise e \<longleftrightarrow> m = Raise e \<or> (\<exists>x. m = Return x \<and> f x = Raise e)"
  by (auto simp: py_bind_def split: option.splits sum.splits)

lemma py_bind_not_None:
  "m \<noteq> None \<Longrightarrow> (\<And>x. m = Return x \<Longrightarrow> f x \<noteq> None) \<Longrightarrow> py_bind m f \<noteq> None"
  by (auto simp: py_bind_def split: option.splits sum.splits)

text \<open>A run that evaluates to a returned value: the form in which concrete runs are checked.\<close>

lemma py_returns:
  "(case m of Some (Inr v) \<Rightarrow> True | _ \<Rightarrow> False) \<Longrightarrow> \<exists>v. m = Return v"
  by (auto split: option.splits sum.splits)

lemma dict_get_simps [simp, py_simps]:
  "m k = Some v \<Longrightarrow> dict_get m k = Return v"
  "m k = None \<Longrightarrow> dict_get m k = Raise KeyError"
  by (simp_all add: dict_get_def)

lemma list_set_simps [simp, py_simps]:
  "i < length xs \<Longrightarrow> list_set xs i v = Return (xs[i := v])"
  "length xs \<le> i \<Longrightarrow> list_set xs i v = Raise IndexError"
  by (simp_all add: list_set_def)

text \<open>
  \<open>py_bind\<close> is monotone, so that a recursive function whose recursive call is
  sequenced by it can be defined with \<^theory_text>\<open>partial_function (option)\<close>.
\<close>

lemma py_bind_as_bind:
  "py_bind m g = Option.bind m (\<lambda>r. case r of Inl e \<Rightarrow> Raise e | Inr x \<Rightarrow> g x)"
  by (simp add: py_bind_def split: option.split sum.split)

lemma py_bind_mono [partial_function_mono]:
  assumes mf: "mono_option B" and mg: "\<And>y. mono_option (\<lambda>f. C y f)"
  shows "mono_option (\<lambda>f. py_bind (B f) (\<lambda>y. C y f))"
  unfolding py_bind_as_bind
proof (rule bind_mono [OF mf])
  fix r
  show "mono_option (\<lambda>f. case r of Inl e \<Rightarrow> Raise e | Inr x \<Rightarrow> C x f)"
    by (cases r) (simp_all add: mg option.const_mono)
qed

lemma list_get_simps [simp, py_simps]:
  "i < length xs \<Longrightarrow> list_get xs i = Return (xs ! i)"
  "length xs \<le> i \<Longrightarrow> list_get xs i = Raise IndexError"
  by (simp_all add: list_get_def)

lemma dict_store_keys: "map fst (dict_store kvs k v) =
    (if k \<in> set (map fst kvs) then map fst kvs else map fst kvs @ [k])"
  by (induction kvs) force+

text \<open>What follows a separator found by \<open>dropWhile\<close> is shorter: the measure of scanners.\<close>

lemma dropWhile_Cons_length: "dropWhile P xs = y # ys \<Longrightarrow> length ys < length xs"
  by (metis Suc_le_lessD length_Cons length_dropWhile_le)

lemma find_append_None: "find P xs = None \<Longrightarrow> find P (xs @ ys) = find P ys"
  by (induction xs) (auto split: if_splits)

lemma dict_store_new: "k \<notin> fst ` set kvs \<Longrightarrow> dict_store kvs k v = kvs @ [(k, v)]"
  by (induction kvs) auto

lemma del_filter_nth: "map (\<lambda>i. xs ! i) (filter (\<lambda>i. P (xs ! i)) [0..<length xs]) = filter P xs"
proof -
  have "filter P (map (\<lambda>i. xs ! i) [0..<length xs]) = map (\<lambda>i. xs ! i) (filter (\<lambda>i. P (xs ! i)) [0..<length xs])"
    by (simp add: filter_map comp_def)
  then show ?thesis by (simp add: map_nth)
qed

lemma dict_store_lookup: "map_of (dict_store kvs k v) = (map_of kvs)(k \<mapsto> v)"
  by (induction kvs) (auto simp: fun_upd_twist)

lemma list_remove_Return: "x \<in> set xs \<Longrightarrow> list_remove xs x = Return (remove1 x xs)"
  by (induction xs) auto

lemma list_remove_Raise: "x \<notin> set xs \<Longrightarrow> list_remove xs x = Raise ValueError"
  by (induction xs) auto

lemma list_remove_distinct:
  "distinct xs \<Longrightarrow> x \<in> set xs \<Longrightarrow> list_remove xs x = Return (filter (\<lambda>y. y \<noteq> x) xs)"
proof (induction xs)
  case (Cons y ys)
  then show ?case by (cases "y = x") (auto intro: filter_True [symmetric])
qed simp

lemma ljust_length [simp]: "length (ljust n s) = max n (length s)"
  by (simp add: ljust_def)

lemma ljust_prefix: "take (length s) (ljust n s) = s"
  by (simp add: ljust_def)

section \<open>Undirected connectivity\<close>

text \<open>
  Two keys are connected by an edge list when a path of edges, each used in either
  direction, joins them. \<open>nodes\<close> is the set of keys that occur in some edge.
\<close>

definition conn :: "('k \<times> 'k) set \<Rightarrow> ('k \<times> 'k) set" where
  "conn E = (E \<union> E\<inverse>)\<^sup>*"

definition nodes :: "('k \<times> 'k) list \<Rightarrow> 'k set" where
  "nodes es = fst ` set es \<union> snd ` set es"

lemma conn_refl [simp, intro]: "(x, x) \<in> conn E"
  by (simp add: conn_def)

lemma conn_sym: "(x, y) \<in> conn E \<Longrightarrow> (y, x) \<in> conn E"
  unfolding conn_def by (metis converse_Un converse_converse rtrancl_converseI sup_commute)

lemma conn_sym_iff: "(x, y) \<in> conn E \<longleftrightarrow> (y, x) \<in> conn E"
  by (blast intro: conn_sym)

lemma conn_trans: "(x, y) \<in> conn E \<Longrightarrow> (y, z) \<in> conn E \<Longrightarrow> (x, z) \<in> conn E"
  unfolding conn_def by (rule rtrancl_trans)

lemma conn_edge: "(a, b) \<in> E \<Longrightarrow> (a, b) \<in> conn E"
  unfolding conn_def by blast

lemma conn_mono: "E \<subseteq> F \<Longrightarrow> (x, y) \<in> conn E \<Longrightarrow> (x, y) \<in> conn F"
  unfolding conn_def by (metis Un_mono converse_mono rtrancl_mono subsetD)

text \<open>
  One more edge \<open>(a, b)\<close> joins the class of \<open>a\<close> with the class of \<open>b\<close> and
  changes nothing else: the abstract counterpart of a union.
\<close>

lemma conn_insert:
  "(x, y) \<in> conn (insert (a, b) E) \<longleftrightarrow>
     (x, y) \<in> conn E \<or> ((x, a) \<in> conn E \<and> (y, b) \<in> conn E) \<or>
     ((x, b) \<in> conn E \<and> (y, a) \<in> conn E)"
    (is "?l \<longleftrightarrow> ?r x y")
proof
  assume "?l"
  then have "(x, y) \<in> (insert (a, b) E \<union> (insert (a, b) E)\<inverse>)\<^sup>*"
    by (simp add: conn_def)
  then show "?r x y"
  proof (induction rule: rtrancl_induct)
    case base
    then show ?case by simp
  next
    case (step y z)
    from step.hyps(2) consider "(y, z) \<in> E \<union> E\<inverse>" | "(y, z) = (a, b)" | "(y, z) = (b, a)"
      by blast
    then show ?case
    proof cases
      case 1
      then have yz: "(y, z) \<in> conn E" by (auto simp: conn_def)
      with step.IH show ?thesis by (meson conn_sym conn_trans)
    next
      case 2
      with step.IH show ?thesis by (auto intro: conn_sym)
    next
      case 3
      with step.IH show ?thesis by (auto intro: conn_sym)
    qed
  qed
next
  have E: "conn E \<subseteq> conn (insert (a, b) E)"
    by (auto intro: conn_mono)
  have ab: "(a, b) \<in> conn (insert (a, b) E)"
    by (simp add: conn_edge)
  assume "?r x y"
  then show "?l"
    using E ab by (meson conn_sym conn_trans subsetD)
qed

text \<open>A set closed under the edges contains every key connected to one of its members.\<close>

lemma conn_closed:
  assumes "\<forall>(a, b)\<in>E. a \<in> S \<longleftrightarrow> b \<in> S" "(x, y) \<in> conn E"
  shows "x \<in> S \<longleftrightarrow> y \<in> S"
proof -
  from assms(2) have "(x, y) \<in> (E \<union> E\<inverse>)\<^sup>*" by (simp add: conn_def)
  then show ?thesis
    by (induction rule: rtrancl_induct) (use assms(1) in auto)
qed

lemma conn_insert_loop [simp]: "conn (insert (a, a) E) = conn E"
proof (rule set_eqI)
  fix p :: "'a \<times> 'a"
  obtain x y where p: "p = (x, y)" by fastforce
  show "p \<in> conn (insert (a, a) E) \<longleftrightarrow> p \<in> conn E"
    unfolding p conn_insert by (meson conn_sym conn_trans)
qed

text \<open>Self-loops are inert: connectivity ignores the reflexive part of the edge set.\<close>

lemma conn_diff_Id: "conn (E - Id) = conn E"
proof -
  have "(E - Id) \<union> (E - Id)\<inverse> = (E \<union> E\<inverse>) - Id" by auto
  then show ?thesis by (simp add: conn_def rtrancl_r_diff_Id)
qed

end
