(* ===== verification/Catalog.thy ===== *)
theory Catalog
  imports Prelude
begin

text \<open>
  The catalog queries of \<^verbatim>\<open>Geodatabase\<close> (\<^verbatim>\<open>src/geodatabase.py\<close>):
  \<^verbatim>\<open>getListOfTables\<close>, \<^verbatim>\<open>getTableCountOfRows\<close>, \<^verbatim>\<open>tableExists\<close>,
  \<^verbatim>\<open>getColumnMaxLength\<close>, \<^verbatim>\<open>getColumnCountOfDistinctValues\<close>,
  \<^verbatim>\<open>getListOfColumns\<close> and \<^verbatim>\<open>dropTable\<close>. The SQLite database is the record
  \<open>db\<close>: the entries of \<^verbatim>\<open>sqlite_master\<close> in creation order, each with its
  kind, its columns as \<^verbatim>\<open>pragma_table_info\<close> reports them and its rows, and the
  SpatiaLite table \<^verbatim>\<open>geometry_columns\<close>. The SQL each method sends is modelled by
  its meaning on this record: \<open>sql_like\<close> is SQLite's \<^verbatim>\<open>LIKE\<close> (\<^verbatim>\<open>%\<close> any
  string, \<^verbatim>\<open>_\<close> any one character, ASCII letters compared without case),
  \<open>ascii_lower\<close>/\<open>ascii_upper\<close> are SQL's \<^verbatim>\<open>lower\<close> and Python's
  \<^verbatim>\<open>str.upper\<close> on ASCII names. Rows of a result set whose order SQL leaves
  open are listed in catalog order; no theorem depends on that order.
\<close>

section \<open>Data\<close>

datatype sqlval = SqlNull | SqlInt int | SqlText string

record column =
  col_name :: string
  col_type :: string
  col_notnull :: bool
  col_default :: sqlval
  col_pk :: nat

record table =
  tbl_kind :: string
  tbl_cols :: "column list"
  tbl_rows :: "sqlval list list"

record geometry_column =
  gc_table :: string
  gc_column :: string
  gc_type :: int
  gc_dim :: int
  gc_srid :: int
  gc_index :: int

record db =
  db_tables :: "(string \<times> table) list"
  geometry_columns :: "geometry_column list"

text \<open>A row of the data frame \<^verbatim>\<open>getListOfTables()\<close>, indexed by \<^verbatim>\<open>f_table_name\<close>.\<close>

record table_row =
  lt_name :: string
  lt_type :: string
  lt_geometries :: nat
  lt_spatial_indexes :: int
  lt_rows :: nat

text \<open>A row of the data frame \<^verbatim>\<open>getListOfColumns()\<close>, indexed by \<^verbatim>\<open>tx_column_name\<close>.\<close>

record column_row =
  cr_name :: string
  cr_type :: string
  cr_notnull :: nat
  cr_default :: sqlval
  cr_pk :: nat
  cr_max_length :: "nat option"
  cr_distinct :: "nat option"

text \<open>\<^verbatim>\<open>getListOfColumns\<close> returns \<^verbatim>\<open>()\<close> for a name that is not a table.\<close>

datatype columns_result = NotATable | Columns "column_row list"

section \<open>Strings\<close>

definition upper_letters :: string where
  "upper_letters = ''ABCDEFGHIJKLMNOPQRSTUVWXYZ''"

definition lower_letters :: string where
  "lower_letters = ''abcdefghijklmnopqrstuvwxyz''"

definition ascii_lower :: "char \<Rightarrow> char" where
  "ascii_lower c = (case map_of (zip upper_letters lower_letters) c of Some d \<Rightarrow> d | None \<Rightarrow> c)"

definition ascii_upper :: "char \<Rightarrow> char" where
  "ascii_upper c = (case map_of (zip lower_letters upper_letters) c of Some d \<Rightarrow> d | None \<Rightarrow> c)"

fun sql_like :: "string \<Rightarrow> string \<Rightarrow> bool" where
  "sql_like [] s = (s = [])"
| "sql_like (p # ps) s =
     (if p = CHR ''%'' then sql_like ps s \<or> (case s of [] \<Rightarrow> False | _ # cs \<Rightarrow> sql_like (p # ps) cs)
      else (case s of [] \<Rightarrow> False
            | c # cs \<Rightarrow> (p = CHR ''_'' \<or> ascii_lower p = ascii_lower c) \<and> sql_like ps cs))"

definition digits :: string where
  "digits = ''0123456789''"

fun nat_str :: "nat \<Rightarrow> string" where
  "nat_str n = (if n < 10 then [digits ! n] else nat_str (n div 10) @ [digits ! (n mod 10)])"

definition int_str :: "int \<Rightarrow> string" where
  "int_str i = (if i < 0 then CHR ''-'' # nat_str (nat (- i)) else nat_str (nat i))"

section \<open>Queries\<close>

text \<open>The names excluded by \<^verbatim>\<open>NOT IN (...)\<close> in \<^verbatim>\<open>getListOfTables\<close>.\<close>

definition spatialite_tables :: "string list" where
  "spatialite_tables = [''ElementaryGeometries'', ''geometry_columns'', ''geometry_columns_auth'',
     ''geometry_columns_field_infos'', ''geometry_columns_statistics'', ''geometry_columns_time'',
     ''KNN'', ''spatial_ref_sys'', ''spatial_ref_sys_aux'', ''SpatialIndex'', ''spatialite_history'',
     ''sql_statements_log'', ''views_geometry_columns'', ''views_geometry_columns_auth'',
     ''views_geometry_columns_field_infos'', ''views_geometry_columns_statistics'',
     ''virts_geometry_columns'', ''virts_geometry_columns_auth'',
     ''virts_geometry_columns_field_infos'', ''virts_geometry_columns_statistics'',
     ''geom_cols_ref_sys'', ''spatial_ref_sys_all'', ''vector_layers'', ''vector_layers_auth'',
     ''vector_layers_field_infos'', ''vector_layers_statistics'']"

text \<open>The \<^verbatim>\<open>WHERE\<close> clause of the inner query of \<^verbatim>\<open>getListOfTables\<close>.\<close>

definition listed :: "string \<Rightarrow> string \<Rightarrow> bool" where
  "listed kind name \<longleftrightarrow> kind \<in> {''table'', ''view''} \<and> \<not> sql_like ''sqlite_%'' name \<and>
     \<not> sql_like ''idx_%'' name \<and> name \<notin> set spatialite_tables"

text \<open>\<^verbatim>\<open>getTableCountOfRows(table)\<close>: \<^verbatim>\<open>select count(*) from {table}\<close>.\<close>

definition getTableCountOfRows :: "db \<Rightarrow> string \<Rightarrow> nat py" where
  "getTableCountOfRows d t =
     (case find (\<lambda>(n, _). map ascii_lower n = map ascii_lower t) (db_tables d) of
        None \<Rightarrow> Raise (Exception ''no such table'')
      | Some (_, tb) \<Rightarrow> Return (length (tbl_rows tb)))"

text \<open>
  \<^verbatim>\<open>getListOfTables()\<close>: the filtered catalog \<^verbatim>\<open>LEFT JOIN geometry_columns\<close> on
  \<^verbatim>\<open>lower(name)\<close>, grouped by type and name, with the number of distinct geometry
  columns, the sum of \<^verbatim>\<open>spatial_index_enabled\<close> (0 for none) and the row count
  of each table.
\<close>

definition table_geoms :: "db \<Rightarrow> string \<Rightarrow> geometry_column list" where
  "table_geoms d name = filter (\<lambda>g. map ascii_lower (gc_table g) = map ascii_lower name) (geometry_columns d)"

definition getListOfTables :: "db \<Rightarrow> table_row list" where
  "getListOfTables d =
     map (\<lambda>(name, tb). \<lparr>lt_name = name, lt_type = tbl_kind tb,
            lt_geometries = length (remdups (map gc_column (table_geoms d name))),
            lt_spatial_indexes = sum_list (map gc_index (table_geoms d name)),
            lt_rows = length (tbl_rows tb)\<rparr>)
       (filter (\<lambda>(name, tb). listed (tbl_kind tb) name) (db_tables d))"

text \<open>\<^verbatim>\<open>tableExists(table)\<close>: membership in the index of \<^verbatim>\<open>getListOfTables()\<close>.\<close>

definition tableExists :: "db \<Rightarrow> string \<Rightarrow> bool" where
  "tableExists d t \<longleftrightarrow> t \<in> set (map lt_name (getListOfTables d))"

text \<open>SQLite resolves a table or column name without regard to ASCII case.\<close>

definition same_name :: "string \<Rightarrow> string \<Rightarrow> bool" where
  "same_name a b \<longleftrightarrow> map ascii_lower a = map ascii_lower b"

definition lookup_table :: "db \<Rightarrow> string \<Rightarrow> table option" where
  "lookup_table d t = map_option snd (find (\<lambda>(n, _). same_name n t) (db_tables d))"

definition column_values :: "table \<Rightarrow> string \<Rightarrow> sqlval list option" where
  "column_values tb c =
     (case find (\<lambda>i. same_name (col_name (tbl_cols tb ! i)) c) [0..<length (tbl_cols tb)] of
        None \<Rightarrow> None
      | Some i \<Rightarrow> Some (map (\<lambda>row. row ! i) (tbl_rows tb)))"

text \<open>SQLite's \<^verbatim>\<open>length(x)\<close>: NULL for NULL, else the length of the text form.\<close>

fun sql_length :: "sqlval \<Rightarrow> nat option" where
  "sql_length SqlNull = None"
| "sql_length (SqlInt i) = Some (length (int_str i))"
| "sql_length (SqlText s) = Some (length s)"

text \<open>\<^verbatim>\<open>max(...)\<close> of SQL: NULL when every value is NULL or there is no row.\<close>

definition sql_max :: "nat option list \<Rightarrow> nat option" where
  "sql_max xs = (case [x. Some x \<leftarrow> xs] of [] \<Rightarrow> None | y # ys \<Rightarrow> Some (fold max ys y))"

definition no_such :: "string \<Rightarrow> 'a py" where
  "no_such what = Raise (OperationalError (''no such '' @ what))"

text \<open>\<^verbatim>\<open>getColumnMaxLength(table, column)\<close>: \<^verbatim>\<open>select max(length({column})) from {table}\<close>.\<close>

definition getColumnMaxLength :: "db \<Rightarrow> string \<Rightarrow> string \<Rightarrow> nat option py" where
  "getColumnMaxLength d t c =
     (case lookup_table d t of None \<Rightarrow> no_such ''table''
      | Some tb \<Rightarrow> (case column_values tb c of None \<Rightarrow> no_such ''column''
          | Some vs \<Rightarrow> Return (sql_max (map sql_length vs))))"

text \<open>\<^verbatim>\<open>getColumnCountOfDistinctValues(table, column)\<close>: \<^verbatim>\<open>count(distinct {column})\<close>.\<close>

definition getColumnCountOfDistinctValues :: "db \<Rightarrow> string \<Rightarrow> string \<Rightarrow> nat py" where
  "getColumnCountOfDistinctValues d t c =
     (case lookup_table d t of None \<Rightarrow> no_such ''table''
      | Some tb \<Rightarrow> (case column_values tb c of None \<Rightarrow> no_such ''column''
          | Some vs \<Rightarrow> Return (length (remdups (filter (\<lambda>v. v \<noteq> SqlNull) vs)))))"

text \<open>
  The loops of \<^verbatim>\<open>getListOfColumns\<close> that fill \<^verbatim>\<open>ms_max_length\<close> and
  \<^verbatim>\<open>ms_countOf_distinct\<close> row by row.
\<close>

fun fill_lengths :: "db \<Rightarrow> string \<Rightarrow> column_row list \<Rightarrow> column_row list py" where
  "fill_lengths d t [] = Return []"
| "fill_lengths d t (r # rs) =
     py_bind (getColumnMaxLength d t (cr_name r)) (\<lambda>m.
       py_bind (fill_lengths d t rs) (\<lambda>rs'. Return (r\<lparr>cr_max_length := m\<rparr> # rs')))"

fun fill_distincts :: "db \<Rightarrow> string \<Rightarrow> column_row list \<Rightarrow> column_row list py" where
  "fill_distincts d t [] = Return []"
| "fill_distincts d t (r # rs) =
     py_bind (getColumnCountOfDistinctValues d t (cr_name r)) (\<lambda>k.
       py_bind (fill_distincts d t rs) (\<lambda>rs'. Return (r\<lparr>cr_distinct := Some k\<rparr> # rs')))"

text \<open>
  \<^verbatim>\<open>astype({'ms_max_length': int})\<close>: a NULL maximum (a column without any non-NULL
  value) is NaN in pandas, and the cast raises ValueError.
\<close>

definition cast_lengths :: "column_row list \<Rightarrow> column_row list py" where
  "cast_lengths rs = (if list_all (\<lambda>r. cr_max_length r \<noteq> None) rs then Return rs else Raise ValueError)"

definition column_row_of :: "column \<Rightarrow> column_row" where
  "column_row_of c = \<lparr>cr_name = col_name c, cr_type = col_type c,
     cr_notnull = (if col_notnull c then 1 else 0), cr_default = col_default c, cr_pk = col_pk c,
     cr_max_length = None, cr_distinct = None\<rparr>"

text \<open>\<^verbatim>\<open>getListOfColumns(table, withLengths, withDistincts)\<close>.\<close>

definition getListOfColumns :: "db \<Rightarrow> string \<Rightarrow> bool \<Rightarrow> bool \<Rightarrow> columns_result py" where
  "getListOfColumns d t withLengths withDistincts =
     (if map ascii_upper t \<notin> set (map (\<lambda>r. map ascii_upper (lt_name r)) (getListOfTables d))
      then Return NotATable
      else (case lookup_table d t of None \<Rightarrow> no_such ''table''
        | Some tb \<Rightarrow>
          py_bind (let rs = map column_row_of (tbl_cols tb) in
                   if withLengths then py_bind (fill_lengths d t rs) cast_lengths else Return rs) (\<lambda>rs.
          py_bind (if withDistincts then fill_distincts d t rs else Return rs) (\<lambda>rs.
          Return (Columns rs)))))"

text \<open>
  \<^verbatim>\<open>dropTable(table)\<close>: SpatiaLite's \<^verbatim>\<open>dropTable(NULL, table)\<close> removes the table
  and its registered geometry columns; for an unknown name it does nothing.
\<close>

definition dropTable :: "db \<Rightarrow> string \<Rightarrow> db" where
  "dropTable d t = d\<lparr>db_tables := filter (\<lambda>(n, _). \<not> same_name n t) (db_tables d),
     geometry_columns := filter (\<lambda>g. \<not> same_name (gc_table g) t) (geometry_columns d)\<rparr>"

text \<open>SQLite keeps table names unique up to ASCII case.\<close>

definition wf_db :: "db \<Rightarrow> bool" where
  "wf_db d \<longleftrightarrow> distinct (map (\<lambda>(n, _). map ascii_lower n) (db_tables d))"

section \<open>Lemmas on names and patterns\<close>

lemma sql_like_Cons_simps [simp]:
  "sql_like (p # ps) [] \<longleftrightarrow> p = CHR ''%'' \<and> sql_like ps []"
  "sql_like (p # ps) (c # cs) \<longleftrightarrow>
     (if p = CHR ''%'' then sql_like ps (c # cs) \<or> sql_like (p # ps) cs
      else (p = CHR ''_'' \<or> ascii_lower p = ascii_lower c) \<and> sql_like ps cs)"
  by simp_all

declare sql_like.simps(2) [simp del]

lemma sql_like_percent [simp]: "sql_like ''%'' s"
  by (induction s) simp_all

lemma sql_like_prefix:
  "list_all (\<lambda>c. c \<noteq> CHR ''%'' \<and> c \<noteq> CHR ''_'') p \<Longrightarrow>
   sql_like (p @ ''_%'') s \<longleftrightarrow>
     length p < length s \<and> map ascii_lower (take (length p) s) = map ascii_lower p"
proof (induction p arbitrary: s)
  case Nil
  show ?case by (cases s) simp_all
next
  case (Cons a p)
  note IH = Cons.IH
  have a: "a \<noteq> CHR ''%''" "a \<noteq> CHR ''_''"
    and p: "list_all (\<lambda>c. c \<noteq> CHR ''%'' \<and> c \<noteq> CHR ''_'') p"
    using Cons.prems by simp_all
  show ?case
  proof (cases s)
    case Nil
    with a show ?thesis by simp
  next
    case (Cons c cs)
    have "sql_like ((a # p) @ ''_%'') s \<longleftrightarrow>
        ascii_lower a = ascii_lower c \<and> sql_like (p @ ''_%'') cs"
      using a Cons by simp
    also have "\<dots> \<longleftrightarrow> ascii_lower a = ascii_lower c \<and> length p < length cs \<and>
        map ascii_lower (take (length p) cs) = map ascii_lower p"
      using IH [OF p] by simp
    also have "\<dots> \<longleftrightarrow> length (a # p) < length s \<and>
        map ascii_lower (take (length (a # p)) s) = map ascii_lower (a # p)"
      using Cons by auto
    finally show ?thesis .
  qed
qed

lemma ascii_lower_upper: "ascii_lower (ascii_upper c) = ascii_lower c"
proof (cases "c \<in> set lower_letters")
  case True
  then show ?thesis
    by (auto simp: ascii_lower_def ascii_upper_def upper_letters_def lower_letters_def)
next
  case False
  then have "map_of (zip lower_letters upper_letters) c = None"
    by (simp add: map_of_eq_None_iff lower_letters_def upper_letters_def)
  then show ?thesis by (simp add: ascii_upper_def)
qed

lemma ascii_upper_lower: "ascii_upper (ascii_lower c) = ascii_upper c"
proof (cases "c \<in> set upper_letters")
  case True
  then show ?thesis
    by (auto simp: ascii_lower_def ascii_upper_def upper_letters_def lower_letters_def)
next
  case False
  then have "map_of (zip upper_letters lower_letters) c = None"
    by (simp add: map_of_eq_None_iff lower_letters_def upper_letters_def)
  then show ?thesis by (simp add: ascii_lower_def)
qed

lemma upper_eq_iff_lower_eq:
  "map ascii_upper a = map ascii_upper b \<longleftrightarrow> map ascii_lower a = map ascii_lower b"
proof
  assume "map ascii_upper a = map ascii_upper b"
  then have "map ascii_lower (map ascii_upper a) = map ascii_lower (map ascii_upper b)" by simp
  then show "map ascii_lower a = map ascii_lower b" by (simp add: ascii_lower_upper comp_def)
next
  assume "map ascii_lower a = map ascii_lower b"
  then have "map ascii_upper (map ascii_lower a) = map ascii_upper (map ascii_lower b)" by simp
  then show "map ascii_upper a = map ascii_upper b" by (simp add: ascii_upper_lower comp_def)
qed

lemma find_Some_mem: "find P xs = Some x \<Longrightarrow> x \<in> set xs \<and> P x"
  by (auto simp: find_Some_iff)

lemma lookup_table_wf:
  assumes "wf_db d" "(n, tb) \<in> set (db_tables d)" "same_name n t"
  shows "lookup_table d t = Some tb"
proof -
  let ?P = "\<lambda>(n', _). same_name n' t"
  have "\<exists>x. x \<in> set (db_tables d) \<and> ?P x"
    using assms(2,3) by force
  then have "find ?P (db_tables d) \<noteq> None"
    by (simp only: find_None_iff) simp
  then obtain y where y: "find ?P (db_tables d) = Some y" by blast
  from find_Some_mem [OF y] obtain n' tb' where y': "y = (n', tb')"
    "(n', tb') \<in> set (db_tables d)" "same_name n' t" by (cases y) auto
  have inj: "inj_on (\<lambda>(n, _). map ascii_lower n) (set (db_tables d))"
    using assms(1) by (simp add: wf_db_def distinct_map)
  have "(n', tb') = (n, tb)"
    using inj_onD [OF inj _ y'(2) assms(2)] y'(3) assms(3) by (simp add: same_name_def)
  with y y' show ?thesis by (simp add: lookup_table_def)
qed

lemma listed_name_in_db:
  "t \<in> set (map lt_name (getListOfTables d)) \<longleftrightarrow>
   (\<exists>tb. (t, tb) \<in> set (db_tables d) \<and> listed (tbl_kind tb) t)"
  by (force simp: getListOfTables_def)

lemma getListOfTables_listed: "r \<in> set (getListOfTables d) \<Longrightarrow> listed (lt_type r) (lt_name r)"
  by (auto simp: getListOfTables_def)

lemma sql_like_idx: "sql_like ''idx_%'' n \<longleftrightarrow> 3 < length n \<and> map ascii_lower (take 3 n) = ''idx''"
  using sql_like_prefix [of "''idx''" n]
  by (simp add: ascii_lower_def upper_letters_def lower_letters_def eval_nat_numeral)

lemma sql_like_sqlite:
  "sql_like ''sqlite_%'' n \<longleftrightarrow> 6 < length n \<and> map ascii_lower (take 6 n) = ''sqlite''"
  using sql_like_prefix [of "''sqlite''" n]
  by (simp add: ascii_lower_def upper_letters_def lower_letters_def eval_nat_numeral)

lemma column_values_Nil:
  "c \<in> set (tbl_cols tb) \<Longrightarrow> tbl_rows tb = [] \<Longrightarrow> column_values tb (col_name c) = Some []"
  by (auto simp: column_values_def find_None_iff in_set_conv_nth same_name_def split: option.split)

lemma fill_lengths_None:
  "\<forall>r\<in>set rs. getColumnMaxLength d t (cr_name r) = Return None \<Longrightarrow>
   fill_lengths d t rs = Return (map (\<lambda>r. r\<lparr>cr_max_length := None\<rparr>) rs)"
  by (induction rs) simp_all

section \<open>Properties of the catalog queries\<close>













end
