(* ===== verification/GeomOps.thy ===== *)
theory GeomOps
  imports Catalog
begin

text \<open>
  The constructor, \<^verbatim>\<open>loadShp\<close>, \<^verbatim>\<open>getGeometriesMetadata\<close> and the
  geometry maintenance methods of \<^verbatim>\<open>Geodatabase\<close>: \<^verbatim>\<open>checksForTable\<close>,
  \<^verbatim>\<open>correctGeometry\<close>, \<^verbatim>\<open>createSpatialIndex\<close>, \<^verbatim>\<open>geometryCountOfErrors\<close>,
  \<^verbatim>\<open>inspectGeometry\<close>, \<^verbatim>\<open>recoverGeometry\<close> and \<^verbatim>\<open>recoverSpatialIndex\<close>, with the
  table \<^verbatim>\<open>geom_types\<close>. Each sends one SpatiaLite function call and branches on its
  answer. SpatiaLite is an external collaborator: its functions are the fields of the
  record \<open>engine\<close>, so every theorem holds for every engine (its field
  \<open>st_transform\<close> serves \<^verbatim>\<open>reproject\<close> in \<open>Transform\<close>); an SQL integer answer is
  an \<open>int option\<close> (\<open>None\<close> for NULL) tested with Python's truth value
  \<open>truthy\<close>. The object is the record \<open>gdb\<close> of \<^verbatim>\<open>self.database\<close> and
  \<^verbatim>\<open>self.srid\<close>. An exception is a \<open>Raise\<close> value; the model does not carry the
  database state past an exception (no caller in the repository uses it).
\<close>

section \<open>State and engine\<close>

record gdb =
  database :: db
  srid :: int

record engine =
  inspect_geometry :: "db \<Rightarrow> string \<Rightarrow> string \<Rightarrow> (string option \<times> int \<times> string \<times> nat) list"
  recover_geometry_column :: "db \<Rightarrow> string \<Rightarrow> string \<Rightarrow> int \<Rightarrow> string \<Rightarrow> string \<Rightarrow> int option \<times> db"
  create_spatial_index :: "db \<Rightarrow> string \<Rightarrow> string \<Rightarrow> int option \<times> db"
  recover_spatial_index :: "db \<Rightarrow> string \<Rightarrow> string \<Rightarrow> int option \<times> db"
  check_shadowed_rowid :: "db \<Rightarrow> string \<Rightarrow> int option"
  check_without_rowid :: "db \<Rightarrow> string \<Rightarrow> int option"
  count_invalid :: "db \<Rightarrow> string \<Rightarrow> string \<Rightarrow> nat"
  make_valid :: "db \<Rightarrow> string \<Rightarrow> string \<Rightarrow> db"
  st_transform :: "sqlval \<Rightarrow> int \<Rightarrow> sqlval"
  import_shp :: "db \<Rightarrow> string \<Rightarrow> string \<Rightarrow> string \<Rightarrow> int \<Rightarrow> db"
  init_spatial_metadata :: "db \<Rightarrow> db"

text \<open>Python's truth value of an SQL integer fetched through \<^verbatim>\<open>sqlite3\<close>.\<close>

fun truthy :: "int option \<Rightarrow> bool" where
  "truthy None = False"
| "truthy (Some n) = (n \<noteq> 0)"

text \<open>The module-level dictionary \<^verbatim>\<open>geom_types\<close>, in the source's order.\<close>

definition geom_types :: "(int \<times> string) list" where
  "geom_types = [(1, ''POINT''), (2, ''LINESTRING''), (3, ''POLYGON''), (4, ''MULTIPOINT''),
     (5, ''MULTILINESTRING''), (6, ''MULTIPOLYGON''), (7, ''GEOMETRYCOLLECTION''),
     (1001, ''POINT Z''), (1002, ''LINESTRING Z''), (1003, ''POLYGON Z''), (1004, ''MULTIPOINT Z''),
     (1005, ''MULTILINESTRING Z''), (1006, ''MULTIPOLYGON Z''), (1007, ''GEOMETRYCOLLECTION Z''),
     (2001, ''POINT M''), (2002, ''LINESTRING M''), (2003, ''POLYGON M''), (2004, ''MULTIPOINT M''),
     (2005, ''MULTILINESTRING M''), (2006, ''MULTIPOLYGON M''), (2007, ''GEOMETRYCOLLECTION M''),
     (3001, ''POINT ZM''), (3002, ''LINESTRING ZM''), (3003, ''POLYGON ZM''), (3004, ''MULTIPOINT ZM''),
     (3005, ''MULTILINESTRING ZM''), (3006, ''MULTIPOLYGON ZM''), (3007, ''GEOMETRYCOLLECTION ZM''),
     (1000002, ''COMPRESSED LINESTRING''), (1000003, ''COMPRESSED POLYGON''),
     (1001002, ''COMPRESSED LINESTRING Z''), (1001003, ''COMPRESSED POLYGON Z''),
     (1002002, ''COMPRESSED LINESTRING M''), (1002003, ''COMPRESSED POLYGON M''),
     (1003002, ''COMPRESSED LINESTRING ZM''), (1003003, ''COMPRESSED POLYGON ZM'')]"

text \<open>\<^verbatim>\<open>str.replace(' ', '')\<close>.\<close>

definition remove_spaces :: "string \<Rightarrow> string" where
  "remove_spaces s = filter (\<lambda>c. c \<noteq> CHR '' '') s"

section \<open>Operations\<close>

definition checksForTable :: "engine \<Rightarrow> gdb \<Rightarrow> string \<Rightarrow> bool py" where
  "checksForTable e g table =
     (if truthy (check_shadowed_rowid e (database g) table)
      then Raise (Exception (''Table '' @ table @ '' has a physical column named rowid''))
      else if truthy (check_without_rowid e (database g) table)
      then Raise (Exception (''Table '' @ table @ '' was created WITHOUT ROWID''))
      else Return True)"

definition geometryCountOfErrors :: "engine \<Rightarrow> gdb \<Rightarrow> string \<Rightarrow> string \<Rightarrow> nat" where
  "geometryCountOfErrors e g table geometry = count_invalid e (database g) table geometry"

text \<open>
  \<^verbatim>\<open>correctGeometry(table, geometry)\<close>: the \<^verbatim>\<open>UPDATE ... st_makeValid\<close> runs only
  when the count of invalid geometries is positive; the second count is only logged.
\<close>

definition correctGeometry :: "engine \<Rightarrow> gdb \<Rightarrow> string \<Rightarrow> string \<Rightarrow> gdb" where
  "correctGeometry e g table geometry =
     (let before = geometryCountOfErrors e g table geometry
      in if 0 < before then g\<lparr>database := make_valid e (database g) table geometry\<rparr> else g)"

definition createSpatialIndex :: "engine \<Rightarrow> gdb \<Rightarrow> string \<Rightarrow> string \<Rightarrow> gdb py" where
  "createSpatialIndex e g table geometry =
     (case create_spatial_index e (database g) table geometry of (r, d') \<Rightarrow>
        if truthy r then Return (g\<lparr>database := d'\<rparr>)
        else Raise (Exception (''Creation of spatial index for '' @ table @ ''.'' @ geometry @ '' failed'')))"

definition recoverSpatialIndex :: "engine \<Rightarrow> gdb \<Rightarrow> string \<Rightarrow> string \<Rightarrow> gdb py" where
  "recoverSpatialIndex e g table geometry =
     (case recover_spatial_index e (database g) table geometry of (r, d') \<Rightarrow>
        if truthy r then Return (g\<lparr>database := d'\<rparr>)
        else Raise (Exception (''Spatial index '' @ table @ ''.'' @ geometry @ '' is inconsistent'')))"

definition inspectGeometry :: "engine \<Rightarrow> gdb \<Rightarrow> string \<Rightarrow> string \<Rightarrow> (string option \<times> int \<times> string \<times> nat) list" where
  "inspectGeometry e g table geometry = inspect_geometry e (database g) table geometry"

text \<open>
  \<^verbatim>\<open>recoverGeometry(table, geometry)\<close>: more than one row of \<^verbatim>\<open>inspectGeometry\<close>
  raises; \<^verbatim>\<open>inspection[0]\<close> raises IndexError on an empty inspection; a type that is
  not a value of \<^verbatim>\<open>geom_types\<close> (NULL included) raises; a non-positive SRID is
  replaced by \<^verbatim>\<open>self.srid\<close>; the spaces are removed from type and dimension before
  \<^verbatim>\<open>recoverGeometryColumn\<close> is called, whose falsy answer raises.
\<close>

definition recoverGeometry :: "engine \<Rightarrow> gdb \<Rightarrow> string \<Rightarrow> string \<Rightarrow> gdb py" where
  "recoverGeometry e g table geometry =
     (let inspection = inspectGeometry e g table geometry;
          failed = ''Recovery of '' @ table @ ''.'' @ geometry @ '' failed''
      in if 1 < length inspection then Raise (Exception (failed @ '':More than 1 geometry type''))
      else py_bind (list_get inspection 0) (\<lambda>(geomType, s, coordDimension, rows).
        case geomType of
          None \<Rightarrow> Raise (Exception (failed @ '':Not a geometry''))
        | Some gt \<Rightarrow>
          if gt \<notin> set (map snd geom_types) then Raise (Exception (failed @ '':Not a geometry''))
          else
            (let s' = (if s \<le> 0 then srid g else s)
             in case recover_geometry_column e (database g) table geometry s'
                       (remove_spaces gt) (remove_spaces coordDimension) of (r, d') \<Rightarrow>
                  if truthy r then Return (g\<lparr>database := d'\<rparr>) else Raise (Exception failed))))"

section \<open>Construction, loading and metadata\<close>

text \<open>
  \<^verbatim>\<open>Geodatabase(db, srid=31370, recreate=False)\<close>: \<open>stored\<close> is the database in
  the file \<^verbatim>\<open>db\<close> when \<open>dbExists\<close> (\<^verbatim>\<open>os.path.exists(db)\<close>). With
  \<^verbatim>\<open>recreate\<close> the file is removed first; a new file is an empty database, which
  gets SpatiaLite's metadata (\<^verbatim>\<open>InitSpatialMetaData(1)\<close>); then
  \<^verbatim>\<open>drop table if exists data_licenses\<close>. \<^verbatim>\<open>UpdateLayerStatistics()\<close>
  only refreshes statistics and is not modelled.
\<close>

definition empty_db :: db where
  "empty_db = \<lparr>db_tables = [], geometry_columns = []\<rparr>"

definition drop_if_exists :: "db \<Rightarrow> string \<Rightarrow> db" where
  "drop_if_exists d t = d\<lparr>db_tables := filter (\<lambda>(n, _). \<not> same_name n t) (db_tables d)\<rparr>"

definition geodatabase_init :: "engine \<Rightarrow> db \<Rightarrow> bool \<Rightarrow> bool \<Rightarrow> int \<Rightarrow> gdb" where
  "geodatabase_init e stored dbExists recreate s =
     (let d0 = (if dbExists \<and> \<not> recreate then stored else empty_db);
          d1 = (if \<not> dbExists \<or> recreate then init_spatial_metadata e d0 else d0)
      in \<lparr>database = drop_if_exists d1 ''data_licenses'', srid = s\<rparr>)"

text \<open>
  \<^verbatim>\<open>loadShp(shapeFile, table, encoding='CP1252', srid=None)\<close>: a falsy
  \<^verbatim>\<open>srid\<close> (\<^verbatim>\<open>None\<close> or 0) is replaced by \<^verbatim>\<open>self.srid\<close>, then SpatiaLite's
  \<^verbatim>\<open>ImportSHP\<close>. The call to \<^verbatim>\<open>createSpatialIndex\<close> is commented out in the source.
\<close>

definition loadShp :: "engine \<Rightarrow> gdb \<Rightarrow> string \<Rightarrow> string \<Rightarrow> string \<Rightarrow> int option \<Rightarrow> gdb" where
  "loadShp e g shapeFile table encoding s =
     (let s' = (case s of None \<Rightarrow> srid g | Some x \<Rightarrow> if x = 0 then srid g else x)
      in g\<lparr>database := import_shp e (database g) shapeFile table encoding s'\<rparr>)"

text \<open>
  \<^verbatim>\<open>getGeometriesMetadata()\<close>: the rows of \<^verbatim>\<open>geometry_columns\<close> as
  (f_table_name, f_geometry_column, geometry_type, coord_dimension, srid,
  spatial_index_enabled).
\<close>

definition getGeometriesMetadata :: "gdb \<Rightarrow> (string \<times> string \<times> int \<times> int \<times> int \<times> int) list" where
  "getGeometriesMetadata g =
     map (\<lambda>c. (gc_table c, gc_column c, gc_type c, gc_dim c, gc_srid c, gc_index c)) (geometry_columns (database g))"

text \<open>
  An engine whose every call succeeds and leaves the database unchanged, the
  collaborator of the concrete examples below and in the theories that build on
  this one.
\<close>

definition inert_engine :: engine where
  "inert_engine = \<lparr>inspect_geometry = \<lambda>d t c. [(Some ''POINT'', 0, ''XY'', 1)],
      recover_geometry_column = \<lambda>d t c s ty cd. (Some 1, d),
      create_spatial_index = \<lambda>d t c. (Some 1, d), recover_spatial_index = \<lambda>d t c. (Some 1, d),
      check_shadowed_rowid = \<lambda>d t. Some 0, check_without_rowid = \<lambda>d t. Some 0,
      count_invalid = \<lambda>d t c. 0, make_valid = \<lambda>d t c. d, st_transform = \<lambda>v s. v,
      import_shp = \<lambda>d f t enc s. d, init_spatial_metadata = \<lambda>d. d\<rparr>"

section \<open>Lemmas\<close>

lemma recoverGeometry_Return:
  assumes "recoverGeometry e g t c = Return g'"
  obtains gt s cd n where "inspectGeometry e g t c = [(Some gt, s, cd, n)]"
    "gt \<in> set (map snd geom_types)"
    "truthy (fst (recover_geometry_column e (database g) t c (if s \<le> 0 then srid g else s)
        (remove_spaces gt) (remove_spaces cd)))"
    "g' = g\<lparr>database := snd (recover_geometry_column e (database g) t c (if s \<le> 0 then srid g else s)
        (remove_spaces gt) (remove_spaces cd))\<rparr>"
proof -
  obtain x xs where i: "inspectGeometry e g t c = x # xs"
    using assms by (cases "inspectGeometry e g t c") (simp_all add: recoverGeometry_def)
  have xs: "xs = []"
    using assms i by (cases xs) (simp_all add: recoverGeometry_def)
  obtain gt0 s cd n where x: "x = (gt0, s, cd, n)" by (cases x) blast
  obtain gt where gt: "gt0 = Some gt"
    using assms i xs x by (cases gt0) (simp_all add: recoverGeometry_def)
  show ?thesis
  proof (rule that [of gt s cd n])
    show "inspectGeometry e g t c = [(Some gt, s, cd, n)]" using i xs x gt by simp
  qed (use assms i xs x gt in \<open>auto simp: recoverGeometry_def Let_def split: prod.splits if_splits\<close>)
qed

lemma checksForTable_null_answers:
  "check_shadowed_rowid e (database g) t = None \<Longrightarrow> check_without_rowid e (database g) t = None \<Longrightarrow>
   checksForTable e g t = Return True"
  by (simp add: checksForTable_def)

section \<open>Properties of the geometry operations\<close>

text \<open>
  C12. The contract of \<^verbatim>\<open>recoverGeometry\<close> with SpatiaLite: when it returns, the
  inspection found exactly one geometry type, \<^verbatim>\<open>recoverGeometryColumn\<close> was called
  with a positive SRID (the object's default standing in for an unknown one) and with
  one of the types of \<^verbatim>\<open>geom_types\<close> written without spaces, it answered true, and
  the new database is the one that call produced.
\<close>

theorem recoverGeometry_engine_contract:
  assumes "0 < srid g" "recoverGeometry e g t c = Return g'"
  shows "\<exists>gt s cd n s'. inspectGeometry e g t c = [(Some gt, s, cd, n)] \<and> 0 < s' \<and>
    remove_spaces gt \<in> set (map (remove_spaces \<circ> snd) geom_types) \<and>
    truthy (fst (recover_geometry_column e (database g) t c s' (remove_spaces gt) (remove_spaces cd))) \<and>
    g' = g\<lparr>database := snd (recover_geometry_column e (database g) t c s' (remove_spaces gt) (remove_spaces cd))\<rparr>"
proof -
  obtain gt s cd n where i: "inspectGeometry e g t c = [(Some gt, s, cd, n)]"
    and ty: "gt \<in> set (map snd geom_types)"
    and r: "truthy (fst (recover_geometry_column e (database g) t c (if s \<le> 0 then srid g else s)
        (remove_spaces gt) (remove_spaces cd)))"
    and g': "g' = g\<lparr>database := snd (recover_geometry_column e (database g) t c (if s \<le> 0 then srid g else s)
        (remove_spaces gt) (remove_spaces cd))\<rparr>"
    by (rule recoverGeometry_Return [OF assms(2)])
  have "0 < (if s \<le> 0 then srid g else s)" using assms(1) by simp
  moreover have "remove_spaces gt \<in> set (map (remove_spaces \<circ> snd) geom_types)" using ty by auto
  ultimately show ?thesis using i r g' by blast
qed

text \<open>
  C13. \<^verbatim>\<open>recoverGeometry\<close> on a column without any non-NULL geometry (an empty
  inspection) raises IndexError from \<^verbatim>\<open>inspection[0]\<close>, not the documented
  "Recovery failed" exception.
\<close>

theorem recoverGeometry_no_geometry:
  "inspectGeometry e g t c = [] \<Longrightarrow> recoverGeometry e g t c = Raise IndexError"
  by (simp add: recoverGeometry_def)

theorem recoverGeometry_engine_contract_witness:
  "let e = \<lparr>inspect_geometry = \<lambda>d t c. [(Some ''POINT Z'', 0, ''XYZ'', 3)],
      recover_geometry_column = \<lambda>d t c s ty cd. (if 0 < s \<and> ty = ''POINTZ'' then Some 1 else Some 0, d),
      create_spatial_index = \<lambda>d t c. (Some 1, d), recover_spatial_index = \<lambda>d t c. (Some 1, d),
      check_shadowed_rowid = \<lambda>d t. None, check_without_rowid = \<lambda>d t. None,
      count_invalid = \<lambda>d t c. 0, make_valid = \<lambda>d t c. d, st_transform = \<lambda>v s. v,
      import_shp = \<lambda>d f t enc s. d, init_spatial_metadata = \<lambda>d. d\<rparr>;
     g = \<lparr>database = \<lparr>db_tables = [], geometry_columns = []\<rparr>, srid = 31370\<rparr>
   in 0 < srid g \<and> recoverGeometry e g ''t01'' ''geometry'' = Return g \<and>
      (\<exists>gt s cd n s'. inspectGeometry e g ''t01'' ''geometry'' = [(Some gt, s, cd, n)] \<and> 0 < s' \<and>
        remove_spaces gt \<in> set (map (remove_spaces \<circ> snd) geom_types) \<and>
        truthy (fst (recover_geometry_column e (database g) ''t01'' ''geometry'' s' (remove_spaces gt) (remove_spaces cd))) \<and>
        g = g\<lparr>database := snd (recover_geometry_column e (database g) ''t01'' ''geometry'' s' (remove_spaces gt) (remove_spaces cd))\<rparr>)"
proof -
  have r: "recoverGeometry
     \<lparr>inspect_geometry = \<lambda>d t c. [(Some ''POINT Z'', 0, ''XYZ'', 3)],
      recover_geometry_column = \<lambda>d t c s ty cd. (if 0 < s \<and> ty = ''POINTZ'' then Some 1 else Some 0, d),
      create_spatial_index = \<lambda>d t c. (Some 1, d), recover_spatial_index = \<lambda>d t c. (Some 1, d),
      check_shadowed_rowid = \<lambda>d t. None, check_without_rowid = \<lambda>d t. None,
      count_invalid = \<lambda>d t c. 0, make_valid = \<lambda>d t c. d, st_transform = \<lambda>v s. v,
      import_shp = \<lambda>d f t enc s. d, init_spatial_metadata = \<lambda>d. d\<rparr>
     \<lparr>database = \<lparr>db_tables = [], geometry_columns = []\<rparr>, srid = 31370\<rparr> ''t01'' ''geometry'' =
     Return \<lparr>database = \<lparr>db_tables = [], geometry_columns = []\<rparr>, srid = 31370\<rparr>"
    by (simp add: recoverGeometry_def inspectGeometry_def geom_types_def remove_spaces_def)
  have h: "0 < srid \<lparr>database = \<lparr>db_tables = [], geometry_columns = []\<rparr>, srid = (31370::int)\<rparr>"
    by simp
  show ?thesis unfolding Let_def by (intro conjI h r recoverGeometry_engine_contract [OF h r])
qed

theorem recoverGeometry_no_geometry_witness:
  "let e = \<lparr>inspect_geometry = \<lambda>d t c. [],
      recover_geometry_column = \<lambda>d t c s ty cd. (Some 1, d),
      create_spatial_index = \<lambda>d t c. (Some 1, d), recover_spatial_index = \<lambda>d t c. (Some 1, d),
      check_shadowed_rowid = \<lambda>d t. None, check_without_rowid = \<lambda>d t. None,
      count_invalid = \<lambda>d t c. 0, make_valid = \<lambda>d t c. d, st_transform = \<lambda>v s. v,
      import_shp = \<lambda>d f t enc s. d, init_spatial_metadata = \<lambda>d. d\<rparr>;
     g = \<lparr>database = \<lparr>db_tables = [], geometry_columns = []\<rparr>, srid = 31370\<rparr>
   in inspectGeometry e g ''t01'' ''geometry'' = [] \<and>
      recoverGeometry e g ''t01'' ''geometry'' = Raise IndexError"
proof -
  have i: "inspectGeometry \<lparr>inspect_geometry = \<lambda>d t c. [],
      recover_geometry_column = \<lambda>d t c s ty cd. (Some 1, d),
      create_spatial_index = \<lambda>d t c. (Some 1, d), recover_spatial_index = \<lambda>d t c. (Some 1, d),
      check_shadowed_rowid = \<lambda>d t. None, check_without_rowid = \<lambda>d t. None,
      count_invalid = \<lambda>d t c. 0, make_valid = \<lambda>d t c. d, st_transform = \<lambda>v s. v,
      import_shp = \<lambda>d f t enc s. d, init_spatial_metadata = \<lambda>d. d\<rparr>
      \<lparr>database = \<lparr>db_tables = [], geometry_columns = []\<rparr>, srid = 31370\<rparr> ''t01'' ''geometry'' = []"
    by (simp add: inspectGeometry_def)
  show ?thesis unfolding Let_def by (intro conjI i recoverGeometry_no_geometry [OF i])
qed

end
