(* ===== verification/Transform.thy ===== *)
theory Transform
  imports GeomOps
begin

text \<open>
  \<^verbatim>\<open>Geodatabase.reproject\<close> and the SQL statements that create tables. It composes
  the catalog queries of \<open>Catalog\<close> and the SpatiaLite calls of \<open>GeomOps\<close>.
  A statement is modelled by its effect on the record \<open>db\<close>:
  \<^verbatim>\<open>CREATE TABLE ... AS SELECT\<close> with SQLite's rules for the declared types of the
  new columns, and the failure of \<^verbatim>\<open>CREATE TABLE\<close> on a name that exists in any
  case.
\<close>

section \<open>SQL statements\<close>

text \<open>\<open>p\<close> occurs in \<open>s\<close>, as SQLite's affinity rules test a declared type.\<close>

definition has_infix :: "string \<Rightarrow> string \<Rightarrow> bool" where
  "has_infix p s \<longleftrightarrow> list_ex (\<lambda>i. take (length p) (drop i s) = p) [0..<Suc (length s)]"

text \<open>
  The declared type SQLite gives a column of \<^verbatim>\<open>CREATE TABLE ... AS SELECT\<close> that
  copies a column declared \<open>ty\<close>: the name of the affinity of \<open>ty\<close>
  (rules 1 to 5 of section 3.1 of SQLite's "Datatypes" document).
\<close>

definition affinity_type :: "string \<Rightarrow> string" where
  "affinity_type ty =
     (let u = map ascii_upper ty
      in if has_infix ''INT'' u then ''INT''
         else if has_infix ''CHAR'' u \<or> has_infix ''CLOB'' u \<or> has_infix ''TEXT'' u then ''TEXT''
         else if has_infix ''BLOB'' u \<or> u = [] then ''''
         else if has_infix ''REAL'' u \<or> has_infix ''FLOA'' u \<or> has_infix ''DOUB'' u then ''REAL''
         else ''NUM'')"

definition table_exists_sql :: "db \<Rightarrow> string \<Rightarrow> bool" where
  "table_exists_sql d t \<longleftrightarrow> list_ex (\<lambda>(n, _). same_name n t) (db_tables d)"

definition add_table :: "db \<Rightarrow> string \<Rightarrow> table \<Rightarrow> db py" where
  "add_table d t tb =
     (if table_exists_sql d t then Raise (OperationalError (''table '' @ t @ '' already exists''))
      else Return (d\<lparr>db_tables := db_tables d @ [(t, tb)]\<rparr>))"

text \<open>The index of the column named \<open>c\<close>, as SQLite resolves it.\<close>

definition column_index :: "table \<Rightarrow> string \<Rightarrow> nat option" where
  "column_index tb c = find (\<lambda>i. same_name (col_name (tbl_cols tb ! i)) c) [0..<length (tbl_cols tb)]"

definition plain_column :: "string \<Rightarrow> string \<Rightarrow> column" where
  "plain_column n ty = \<lparr>col_name = n, col_type = ty, col_notnull = False, col_default = SqlNull, col_pk = 0\<rparr>"

text \<open>
  The statement of \<^verbatim>\<open>reproject\<close>:
  \<^verbatim>\<open>create table {out} as select {','.join(l)},st_transform(geometry,{srid}) as geometry from {inp}\<close>.
  An empty \<open>l\<close> leaves \<^verbatim>\<open>select ,st_transform(...)\<close>, a syntax error. The
  columns of \<open>l\<close> keep their names and take the affinity names of their declared
  types; the function result has no affinity, so \<open>geometry\<close> is declared with the
  empty type. SQLite reports an output name that exists (in any case) when it
  parses \<^verbatim>\<open>CREATE TABLE\<close>, before it resolves the names of the \<^verbatim>\<open>SELECT\<close>.
\<close>

definition create_transformed :: "engine \<Rightarrow> db \<Rightarrow> string \<Rightarrow> string \<Rightarrow> string list \<Rightarrow> int \<Rightarrow> db py" where
  "create_transformed e d out inp l s =
     (if l = [] then Raise (OperationalError ''near \",\": syntax error'')
      else if table_exists_sql d out then Raise (OperationalError (''table '' @ out @ '' already exists''))
      else case lookup_table d inp of
        None \<Rightarrow> no_such ''table''
      | Some tb \<Rightarrow>
          (case (those (map (column_index tb) l), column_index tb ''geometry'') of
             (Some is, Some gi) \<Rightarrow>
               Return (d\<lparr>db_tables := db_tables d @ [(out,
                 \<lparr>tbl_kind = ''table'',
                  tbl_cols = map (\<lambda>i. plain_column (col_name (tbl_cols tb ! i))
                                        (affinity_type (col_type (tbl_cols tb ! i)))) is
                             @ [plain_column ''geometry'' ''''],
                  tbl_rows = map (\<lambda>row. map (\<lambda>i. row ! i) is @ [st_transform e (row ! gi) s]) (tbl_rows tb)\<rparr>)]\<rparr>)
           | _ \<Rightarrow> no_such ''column''))"

section \<open>reproject\<close>

text \<open>
  \<^verbatim>\<open>reproject(inputTable, srid, outputTable=None, if_exists='fail')\<close>, in three
  stages. The default output name is \<^verbatim>\<open>f'{inputTable}_{srid}'\<close> when
  \<^verbatim>\<open>outputTable\<close> is \<^verbatim>\<open>None\<close> or empty.
\<close>

definition default_output :: "string \<Rightarrow> int \<Rightarrow> string option \<Rightarrow> string" where
  "default_output inp s out =
     (case out of None \<Rightarrow> inp @ ''_'' @ int_str s | Some t \<Rightarrow> if t = [] then inp @ ''_'' @ int_str s else t)"

text \<open>The \<^verbatim>\<open>if self.tableExists(outputTable)\<close> block.\<close>

definition reproject_clear :: "gdb \<Rightarrow> string \<Rightarrow> string \<Rightarrow> gdb py" where
  "reproject_clear g out if_exists =
     (if tableExists (database g) out then
        (if if_exists = ''fail'' then Raise (Exception (out @ '' already exists !''))
         else if if_exists = ''replace'' then Return (g\<lparr>database := dropTable (database g) out\<rparr>)
         else Return g)
      else Return g)"

text \<open>
  \<^verbatim>\<open>l=list(self.getListOfColumns(inputTable).index)\<close>, \<^verbatim>\<open>l.remove('geometry')\<close>
  and the \<^verbatim>\<open>create table\<close>. For a name that is not a table,
  \<^verbatim>\<open>getListOfColumns\<close> returns \<^verbatim>\<open>()\<close>, whose \<^verbatim>\<open>index\<close> is a method:
  \<^verbatim>\<open>list\<close> of it raises TypeError.
\<close>

definition reproject_create :: "engine \<Rightarrow> gdb \<Rightarrow> string \<Rightarrow> int \<Rightarrow> string \<Rightarrow> gdb py" where
  "reproject_create e g inp s out =
     py_bind (getListOfColumns (database g) inp False False) (\<lambda>r.
       case r of
         NotATable \<Rightarrow> Raise TypeError
       | Columns rs \<Rightarrow>
           py_bind (list_remove (map cr_name rs) ''geometry'') (\<lambda>l.
           py_bind (create_transformed e (database g) out inp l s) (\<lambda>d.
           Return (g\<lparr>database := d\<rparr>))))"

definition reproject :: "engine \<Rightarrow> gdb \<Rightarrow> string \<Rightarrow> int \<Rightarrow> string option \<Rightarrow> string \<Rightarrow> gdb py" where
  "reproject e g inp s outputTable if_exists =
     (let out = default_output inp s outputTable
      in py_bind (reproject_clear g out if_exists) (\<lambda>g1.
         py_bind (reproject_create e g1 inp s out) (\<lambda>g2.
         py_bind (recoverGeometry e g2 out ''geometry'') (\<lambda>g3.
         createSpatialIndex e g3 out ''geometry''))))"

text \<open>
  SQLite keeps table names unique up to ASCII case (\<open>wf_db\<close>) and the column names
  of each table as well.
\<close>

definition wf_catalog :: "db \<Rightarrow> bool" where
  "wf_catalog d \<longleftrightarrow> wf_db d \<and>
     list_all (\<lambda>(n, tb). distinct (map (\<lambda>c. map ascii_lower (col_name c)) (tbl_cols tb))) (db_tables d)"

text \<open>
  What \<^verbatim>\<open>reproject\<close> needs of SpatiaLite: \<^verbatim>\<open>recoverGeometryColumn\<close> and
  \<^verbatim>\<open>CreateSpatialIndex\<close> leave every existing table as it is (they register metadata
  and may add index tables).
\<close>

definition keeps_tables :: "engine \<Rightarrow> bool" where
  "keeps_tables e \<longleftrightarrow>
     (\<forall>d t c s ty cd x tb. lookup_table d x = Some tb \<longrightarrow>
        lookup_table (snd (recover_geometry_column e d t c s ty cd)) x = Some tb) \<and>
     (\<forall>d t c x tb. lookup_table d x = Some tb \<longrightarrow> lookup_table (snd (create_spatial_index e d t c)) x = Some tb)"

section \<open>Lemmas on the statements\<close>

lemma getListOfColumns_unlisted:
  assumes "\<forall>(n, tb)\<in>set (db_tables d). listed (tbl_kind tb) n \<longrightarrow> \<not> same_name n t"
  shows "getListOfColumns d t wl wd = Return NotATable"
proof -
  have "map ascii_upper t \<notin> set (map (\<lambda>r. map ascii_upper (lt_name r)) (getListOfTables d))"
    using assms by (force simp: getListOfTables_def upper_eq_iff_lower_eq same_name_def)
  then show ?thesis by (simp add: getListOfColumns_def)
qed

lemma dropTable_gone: "(n, tb) \<in> set (db_tables (dropTable d t)) \<Longrightarrow> \<not> same_name n t"
  by (auto simp: dropTable_def)

lemma lookup_table_dropTable: "lookup_table (dropTable d t) t = None"
  by (auto simp: lookup_table_def find_None_iff dest: dropTable_gone)

lemma tableExists_listed:
  assumes "tableExists d t"
  shows "table_exists_sql d t"
proof -
  obtain tb where "(t, tb) \<in> set (db_tables d)"
    using assms listed_name_in_db by (auto simp: tableExists_def)
  then show ?thesis by (auto simp: table_exists_sql_def list_ex_iff same_name_def)
qed

lemma reproject_clear_unlisted: "\<not> tableExists (database g) out \<Longrightarrow> reproject_clear g out ie = Return g"
  by (simp add: reproject_clear_def)

lemma create_transformed_exists:
  assumes "table_exists_sql d out"
  shows "\<exists>m. create_transformed e d out inp l s = Raise (OperationalError m)"
  using assms
  by (auto simp: create_transformed_def add_table_def no_such_def split: option.split prod.split)

lemma lookup_table_fresh:
  assumes "\<forall>(n, tb)\<in>set ts. \<not> same_name n t"
  shows "lookup_table (d\<lparr>db_tables := ts @ [(t, tb)]\<rparr>) t = Some tb"
proof -
  have "find (\<lambda>(n, _). same_name n t) ts = None"
    using assms by (auto simp: find_None_iff)
  then show ?thesis by (simp add: lookup_table_def find_append_None same_name_def)
qed

lemma lookup_table_sub:
  assumes "wf_db d" "set (db_tables d') \<subseteq> set (db_tables d)" "lookup_table d' t = Some tb"
  shows "lookup_table d t = Some tb"
proof -
  obtain n where "(n, tb) \<in> set (db_tables d')" "same_name n t"
    using assms(3) by (auto simp: lookup_table_def dest!: find_Some_mem)
  then show ?thesis using lookup_table_wf [OF assms(1)] assms(2) by (auto simp: same_name_def)
qed

lemma reproject_clear_sub:
  "reproject_clear g out ie = Return g1 \<Longrightarrow> set (db_tables (database g1)) \<subseteq> set (db_tables (database g))"
  by (auto simp: reproject_clear_def dropTable_def split: if_splits)

lemma createSpatialIndex_Return:
  "createSpatialIndex e g t c = Return g' \<Longrightarrow> database g' = snd (create_spatial_index e (database g) t c)"
  by (auto simp: createSpatialIndex_def split: prod.splits if_splits)

lemma those_Some:
  "those (map f xs) = Some ys \<Longrightarrow> length ys = length xs \<and> (\<forall>i<length xs. f (xs ! i) = Some (ys ! i))"
proof (induction xs arbitrary: ys)
  case (Cons x xs)
  then obtain y ys' where "f x = Some y" "those (map f xs) = Some ys'" "ys = y # ys'"
    by (auto split: option.splits)
  with Cons.IH show ?case by (auto simp: nth_Cons split: nat.split)
qed simp

lemma column_index_Some:
  "column_index tb n = Some i \<Longrightarrow> i < length (tbl_cols tb) \<and> same_name (col_name (tbl_cols tb ! i)) n"
  by (auto simp: column_index_def dest!: find_Some_mem)

text \<open>In a table whose column names are unique up to case, a name resolves to its own column.\<close>

lemma column_index_own:
  assumes "distinct (map (\<lambda>c. map ascii_lower (col_name c)) (tbl_cols tb))"
    "n \<in> set (map col_name (tbl_cols tb))" "column_index tb n = Some i"
  shows "col_name (tbl_cols tb ! i) = n"
proof -
  obtain j where j: "j < length (tbl_cols tb)" "col_name (tbl_cols tb ! j) = n"
    using assms(2) by (auto simp: in_set_conv_nth)
  have i: "i < length (tbl_cols tb)" "same_name (col_name (tbl_cols tb ! i)) n"
    using column_index_Some [OF assms(3)] by auto
  then have "i = j"
    using assms(1) j by (auto simp: same_name_def distinct_conv_nth)
  then show ?thesis using j by simp
qed

lemma getListOfColumns_plain_Return:
  assumes "getListOfColumns d t False False = Return (Columns rs)"
  shows "\<exists>tb. lookup_table d t = Some tb \<and> rs = map column_row_of (tbl_cols tb)"
  using assms by (auto simp: getListOfColumns_def no_such_def split: if_splits option.splits)

lemma reproject_create_Return:
  assumes "reproject_create e g1 inp s out = Return g2"
  obtains tb0 ixs gi where "lookup_table (database g1) inp = Some tb0"
    "those (map (column_index tb0) (remove1 ''geometry'' (map col_name (tbl_cols tb0)))) = Some ixs"
    "column_index tb0 ''geometry'' = Some gi" "\<not> table_exists_sql (database g1) out"
    "database g2 = (database g1)\<lparr>db_tables := db_tables (database g1) @ [(out,
       \<lparr>tbl_kind = ''table'',
        tbl_cols = map (\<lambda>i. plain_column (col_name (tbl_cols tb0 ! i))
                              (affinity_type (col_type (tbl_cols tb0 ! i)))) ixs
                   @ [plain_column ''geometry'' ''''],
        tbl_rows = map (\<lambda>row. map (\<lambda>i. row ! i) ixs @ [st_transform e (row ! gi) s]) (tbl_rows tb0)\<rparr>)]\<rparr>"
proof -
  obtain r where r: "getListOfColumns (database g1) inp False False = Return r"
    and rest: "(case r of NotATable \<Rightarrow> Raise TypeError
       | Columns rs \<Rightarrow> py_bind (list_remove (map cr_name rs) ''geometry'') (\<lambda>l.
           py_bind (create_transformed e (database g1) out inp l s) (\<lambda>d. Return (g1\<lparr>database := d\<rparr>)))) =
       Return g2"
    using assms unfolding reproject_create_def py_bind_Return_iff by blast
  obtain rs where rs: "r = Columns rs" using rest by (cases r) auto
  obtain tb0 where tb0: "lookup_table (database g1) inp = Some tb0" "rs = map column_row_of (tbl_cols tb0)"
    using getListOfColumns_plain_Return r rs by blast
  have names: "map cr_name rs = map col_name (tbl_cols tb0)" using tb0(2) by (simp add: column_row_of_def)
  obtain l where l: "list_remove (map col_name (tbl_cols tb0)) ''geometry'' = Return l"
    and c: "create_transformed e (database g1) out inp l s = Return (database g2)"
    using rest rs names by (auto simp: py_bind_Return_iff)
  have geo: "''geometry'' \<in> set (map col_name (tbl_cols tb0))"
    using l list_remove_Raise by fastforce
  have l': "l = remove1 ''geometry'' (map col_name (tbl_cols tb0))" using l list_remove_Return [OF geo] by simp
  let ?new = "\<lambda>ixs gi. \<lparr>tbl_kind = ''table'',
        tbl_cols = map (\<lambda>i. plain_column (col_name (tbl_cols tb0 ! i))
                              (affinity_type (col_type (tbl_cols tb0 ! i)))) ixs
                   @ [plain_column ''geometry'' []],
        tbl_rows = map (\<lambda>row. map (\<lambda>i. row ! i) ixs @ [st_transform e (row ! gi) s]) (tbl_rows tb0)\<rparr>"
  have nt: "\<not> table_exists_sql (database g1) out"
    using c by (auto simp: create_transformed_def split: if_splits)
  have c': "(case (those (map (column_index tb0) l), column_index tb0 ''geometry'') of
      (Some ixs, Some gi) \<Rightarrow> Return ((database g1)\<lparr>db_tables := db_tables (database g1) @ [(out, ?new ixs gi)]\<rparr>)
      | _ \<Rightarrow> no_such ''column'') = Return (database g2)"
    using c tb0(1) nt by (simp add: create_transformed_def split: if_splits)
  then obtain ixs gi where hi: "those (map (column_index tb0) l) = Some ixs"
    and gi: "column_index tb0 ''geometry'' = Some gi"
    by (auto simp: no_such_def split: option.splits)
  with c' nt have "\<not> table_exists_sql (database g1) out"
    "(database g1)\<lparr>db_tables := db_tables (database g1) @ [(out, ?new ixs gi)]\<rparr> = database g2"
    by simp_all
  then show ?thesis using that [OF tb0(1) _ gi] hi unfolding l' by (metis (no_types, lifting))
qed

lemma recoverGeometry_keeps:
  "keeps_tables e \<Longrightarrow> recoverGeometry e g t c = Return g' \<Longrightarrow> lookup_table (database g) x = Some tb \<Longrightarrow>
   lookup_table (database g') x = Some tb"
  by (erule recoverGeometry_Return) (simp add: keeps_tables_def)

lemma createSpatialIndex_keeps:
  "keeps_tables e \<Longrightarrow> createSpatialIndex e g t c = Return g' \<Longrightarrow> lookup_table (database g) x = Some tb \<Longrightarrow>
   lookup_table (database g') x = Some tb"
  by (drule createSpatialIndex_Return) (simp add: keeps_tables_def)

lemma resolved_names:
  assumes "distinct (map (\<lambda>c. map ascii_lower (col_name c)) (tbl_cols tb))"
    "set l \<subseteq> set (map col_name (tbl_cols tb))" "those (map (column_index tb) l) = Some ixs"
  shows "map (\<lambda>i. col_name (tbl_cols tb ! i)) ixs = l"
proof -
  have len: "length ixs = length l" and ix: "\<forall>k<length l. column_index tb (l ! k) = Some (ixs ! k)"
    using those_Some [OF assms(3)] by auto
  show ?thesis
  proof (rule nth_equalityI)
    show "length (map (\<lambda>i. col_name (tbl_cols tb ! i)) ixs) = length l" using len by simp
    fix k assume "k < length (map (\<lambda>i. col_name (tbl_cols tb ! i)) ixs)"
    then have k: "k < length l" using len by simp
    then have "l ! k \<in> set (map col_name (tbl_cols tb))" using assms(2) nth_mem by blast
    then show "map (\<lambda>i. col_name (tbl_cols tb ! i)) ixs ! k = l ! k"
      using column_index_own [OF assms(1) _ ix [rule_format, OF k]] k len by simp
  qed
qed

lemma wf_catalog_table:
  "wf_catalog d \<Longrightarrow> lookup_table d t = Some tb \<Longrightarrow>
   distinct (map (\<lambda>c. map ascii_lower (col_name c)) (tbl_cols tb))"
  by (auto simp: wf_catalog_def lookup_table_def list_all_iff dest!: find_Some_mem)

section \<open>Properties of reproject\<close>


text \<open>
  C15. \<^verbatim>\<open>reproject(..., outputTable=out, if_exists='replace')\<close> when the database
  holds a table whose name is \<open>out\<close> in another case: \<^verbatim>\<open>tableExists\<close> does not
  see it, nothing is dropped, and the \<^verbatim>\<open>create table\<close> fails with
  \<^verbatim>\<open>sqlite3.OperationalError\<close>, although \<^verbatim>\<open>'replace'\<close> was asked for.
\<close>

theorem reproject_replace_case_variant:
  assumes "\<not> tableExists (database g) out" "table_exists_sql (database g) out" "out \<noteq> []"
    "getListOfColumns (database g) inp False False = Return (Columns rs)"
    "''geometry'' \<in> set (map cr_name rs)"
  shows "\<exists>m. reproject e g inp s (Some out) ''replace'' = Raise (OperationalError m)"
proof -
  obtain m where m: "create_transformed e (database g) out inp (remove1 ''geometry'' (map cr_name rs)) s =
      Raise (OperationalError m)"
    using create_transformed_exists [OF assms(2)] by blast
  have "reproject_create e g inp s out = Raise (OperationalError m)"
    using assms(4,5) m by (simp add: reproject_create_def list_remove_Return)
  then show ?thesis
    using assms(1,3) by (simp add: reproject_def default_output_def reproject_clear_unlisted)
qed

text \<open>
  C25. What a successful \<^verbatim>\<open>reproject\<close> produces, for every SpatiaLite that leaves
  existing tables alone: the output table (named \<^verbatim>\<open>{inputTable}_{srid}\<close> by
  default) has the input's columns in their order without \<^verbatim>\<open>geometry\<close>, then
  \<^verbatim>\<open>geometry\<close> last, one row per input row, and its last column holds
  \<^verbatim>\<open>st_transform\<close> of the input geometry to the target SRID.
\<close>

theorem reproject_result:
  assumes run: "reproject e g inp s outT ie = Return g'" and ke: "keeps_tables e"
    and wf: "wf_catalog (database g)"
  shows "\<exists>tb0 tb gi. lookup_table (database g) inp = Some tb0 \<and>
    lookup_table (database g') (default_output inp s outT) = Some tb \<and>
    map col_name (tbl_cols tb) = remove1 ''geometry'' (map col_name (tbl_cols tb0)) @ [''geometry''] \<and>
    column_index tb0 ''geometry'' = Some gi \<and>
    map last (tbl_rows tb) = map (\<lambda>row. st_transform e (row ! gi) s) (tbl_rows tb0)"
proof -
  let ?out = "default_output inp s outT"
  obtain g1 g2 g3 where c1: "reproject_clear g ?out ie = Return g1"
    and c2: "reproject_create e g1 inp s ?out = Return g2"
    and c3: "recoverGeometry e g2 ?out ''geometry'' = Return g3"
    and c4: "createSpatialIndex e g3 ?out ''geometry'' = Return g'"
    using run unfolding reproject_def Let_def py_bind_Return_iff by blast
  obtain tb0 ixs gi where lk1: "lookup_table (database g1) inp = Some tb0"
    and hi: "those (map (column_index tb0) (remove1 ''geometry'' (map col_name (tbl_cols tb0)))) = Some ixs"
    and gi: "column_index tb0 ''geometry'' = Some gi"
    and nt: "\<not> table_exists_sql (database g1) ?out"
    and d2: "database g2 = (database g1)\<lparr>db_tables := db_tables (database g1) @ [(?out,
       \<lparr>tbl_kind = ''table'',
        tbl_cols = map (\<lambda>i. plain_column (col_name (tbl_cols tb0 ! i))
                              (affinity_type (col_type (tbl_cols tb0 ! i)))) ixs
                   @ [plain_column ''geometry'' []],
        tbl_rows = map (\<lambda>row. map (\<lambda>i. row ! i) ixs @ [st_transform e (row ! gi) s]) (tbl_rows tb0)\<rparr>)]\<rparr>"
    by (rule reproject_create_Return [OF c2])
  let ?tb = "\<lparr>tbl_kind = ''table'',
        tbl_cols = map (\<lambda>i. plain_column (col_name (tbl_cols tb0 ! i))
                              (affinity_type (col_type (tbl_cols tb0 ! i)))) ixs
                   @ [plain_column ''geometry'' []],
        tbl_rows = map (\<lambda>row. map (\<lambda>i. row ! i) ixs @ [st_transform e (row ! gi) s]) (tbl_rows tb0)\<rparr>"
  have wfdb: "wf_db (database g)" using wf by (simp add: wf_catalog_def)
  have lk0: "lookup_table (database g) inp = Some tb0"
    by (rule lookup_table_sub [OF wfdb reproject_clear_sub [OF c1] lk1])
  have "\<forall>(n, tb)\<in>set (db_tables (database g1)). \<not> same_name n ?out"
    using nt by (auto simp: table_exists_sql_def list_ex_iff)
  then have "lookup_table (database g2) ?out = Some ?tb"
    unfolding d2 by (rule lookup_table_fresh)
  then have lk: "lookup_table (database g') ?out = Some ?tb"
    using recoverGeometry_keeps [OF ke c3] createSpatialIndex_keeps [OF ke c4] by blast
  have "map (\<lambda>i. col_name (tbl_cols tb0 ! i)) ixs = remove1 ''geometry'' (map col_name (tbl_cols tb0))"
    using resolved_names [OF wf_catalog_table [OF wf lk0] set_remove1_subset hi] .
  then have names: "map col_name (tbl_cols ?tb) = remove1 ''geometry'' (map col_name (tbl_cols tb0)) @ [''geometry'']"
    by (simp add: plain_column_def comp_def)
  have "map last (tbl_rows ?tb) = map (\<lambda>row. st_transform e (row ! gi) s) (tbl_rows tb0)" by simp
  then show ?thesis using lk0 lk names gi by blast
qed


theorem reproject_replace_case_variant_witness:
  "let g = \<lparr>database = \<lparr>db_tables = [(''roads'', \<lparr>tbl_kind = ''table'',
             tbl_cols = [plain_column ''id'' ''INTEGER'', plain_column ''geometry'' ''LINESTRING''],
             tbl_rows = [[SqlInt 1, SqlText ''blob'']]\<rparr>),
           (''T01'', \<lparr>tbl_kind = ''table'', tbl_cols = [plain_column ''x'' ''TEXT''], tbl_rows = []\<rparr>)],
           geometry_columns = []\<rparr>, srid = 31370\<rparr>;
       rs = map column_row_of [plain_column ''id'' ''INTEGER'', plain_column ''geometry'' ''LINESTRING'']
   in \<not> tableExists (database g) ''t01'' \<and> table_exists_sql (database g) ''t01'' \<and> ''t01'' \<noteq> [] \<and>
      getListOfColumns (database g) ''roads'' False False = Return (Columns rs) \<and>
      ''geometry'' \<in> set (map cr_name rs) \<and>
      (\<exists>m. reproject inert_engine g ''roads'' 31370 (Some ''t01'') ''replace'' = Raise (OperationalError m))"
proof -
  let ?g = "\<lparr>database = \<lparr>db_tables = [(''roads'', \<lparr>tbl_kind = ''table'',
             tbl_cols = [plain_column ''id'' ''INTEGER'', plain_column ''geometry'' ''LINESTRING''],
             tbl_rows = [[SqlInt 1, SqlText ''blob'']]\<rparr>),
           (''T01'', \<lparr>tbl_kind = ''table'', tbl_cols = [plain_column ''x'' ''TEXT''], tbl_rows = []\<rparr>)],
           geometry_columns = []\<rparr>, srid = 31370\<rparr>"
  let ?rs = "map column_row_of [plain_column ''id'' ''INTEGER'', plain_column ''geometry'' ''LINESTRING'']"
  have h1: "\<not> tableExists (database ?g) ''t01''"
    by (simp add: tableExists_def getListOfTables_def listed_def spatialite_tables_def
        ascii_lower_def upper_letters_def lower_letters_def)
  have h2: "table_exists_sql (database ?g) ''t01''"
    by (simp add: table_exists_sql_def same_name_def ascii_lower_def upper_letters_def lower_letters_def)
  have h3: "''t01'' \<noteq> []" by simp
  have h4: "getListOfColumns (database ?g) ''roads'' False False = Return (Columns ?rs)"
    by (simp add: getListOfColumns_def getListOfTables_def listed_def spatialite_tables_def
        lookup_table_def same_name_def ascii_upper_def ascii_lower_def upper_letters_def lower_letters_def)
  have h5: "''geometry'' \<in> set (map cr_name ?rs)"
    by (simp add: column_row_of_def plain_column_def)
  note c = reproject_replace_case_variant [OF h1 h2 h3 h4 h5, of inert_engine 31370]
  show ?thesis unfolding Let_def using h1 h2 h3 h4 h5 c by blast
qed

theorem reproject_result_witness:
  "let g = \<lparr>database = \<lparr>db_tables = [(''roads'', \<lparr>tbl_kind = ''table'',
             tbl_cols = [plain_column ''id'' ''INTEGER'', plain_column ''geometry'' ''LINESTRING''],
             tbl_rows = [[SqlInt 1, SqlText ''blob'']]\<rparr>)], geometry_columns = []\<rparr>, srid = 31370\<rparr>
   in \<exists>g'. reproject inert_engine g ''roads'' 4326 None ''replace'' = Return g' \<and>
      keeps_tables inert_engine \<and> wf_catalog (database g) \<and>
      (\<exists>tb0 tb gi. lookup_table (database g) ''roads'' = Some tb0 \<and>
        lookup_table (database g') (default_output ''roads'' 4326 None) = Some tb \<and>
        map col_name (tbl_cols tb) = remove1 ''geometry'' (map col_name (tbl_cols tb0)) @ [''geometry''] \<and>
        column_index tb0 ''geometry'' = Some gi \<and>
        map last (tbl_rows tb) = map (\<lambda>row. st_transform inert_engine (row ! gi) 4326) (tbl_rows tb0))"
proof -
  let ?g = "\<lparr>database = \<lparr>db_tables = [(''roads'', \<lparr>tbl_kind = ''table'',
             tbl_cols = [plain_column ''id'' ''INTEGER'', plain_column ''geometry'' ''LINESTRING''],
             tbl_rows = [[SqlInt 1, SqlText ''blob'']]\<rparr>)], geometry_columns = []\<rparr>, srid = 31370\<rparr>"
  have "case reproject inert_engine ?g ''roads'' 4326 None ''replace'' of Some (Inr g') \<Rightarrow> True | _ \<Rightarrow> False"
    by code_simp
  then obtain g' where h1: "reproject inert_engine ?g ''roads'' 4326 None ''replace'' = Return g'"
    by (auto split: option.splits sum.splits)
  have h2: "keeps_tables inert_engine" by (simp add: keeps_tables_def inert_engine_def)
  have h3: "wf_catalog (database ?g)"
    by (simp add: wf_catalog_def wf_db_def plain_column_def)
  note c = reproject_result [OF h1 h2 h3]
  show ?thesis unfolding Let_def using h1 h2 h3 c by blast
qed

end
