(* ===== verification/Exports.thy ===== *)
theory Exports
  imports Transform
begin

text \<open>
  The exports of \<^verbatim>\<open>Geodatabase\<close>: \<^verbatim>\<open>toCsv\<close> and \<^verbatim>\<open>toSas\<close>. A file written
  is a value: its path and its content (the SAS program), or its path, archive member,
  separator, header and rows (the CSV export, whose rendering of values by pandas is
  not modelled). The SAS program is meant to read the CSV export of the same table;
  the theorems check that it does.
\<close>

section \<open>Exports: toCsv and toSas\<close>

text \<open>\<^verbatim>\<open>if not archive_name: archive_name=table\<close>.\<close>

definition archive_of :: "string option \<Rightarrow> string \<Rightarrow> string" where
  "archive_of archive table = (case archive of None \<Rightarrow> table | Some a \<Rightarrow> if a = [] then table else a)"

text \<open>\<^verbatim>\<open>pd.read_sql(f'select * from {table}', ...)\<close>: the column names and the rows.\<close>

definition select_all :: "db \<Rightarrow> string \<Rightarrow> (string list \<times> sqlval list list) py" where
  "select_all d t =
     (case lookup_table d t of
        None \<Rightarrow> Raise (DatabaseError (''no such table: '' @ t))
      | Some tb \<Rightarrow> Return (map col_name (tbl_cols tb), tbl_rows tb))"

text \<open>
  The file \<^verbatim>\<open>toCsv\<close> writes: a zip archive at \<open>csv_path\<close> whose member
  \<open>csv_member\<close> holds the header \<open>csv_header\<close> and the rows \<open>csv_rows\<close>,
  separated by \<open>csv_sep\<close>, written in mode \<open>csv_mode\<close>.
\<close>

record csv_export =
  csv_path :: string
  csv_member :: string
  csv_mode :: string
  csv_sep :: char
  csv_header :: "string list"
  csv_rows :: "sqlval list list"

text \<open>
  \<^verbatim>\<open>toCsv(table, archive_name=None, mode='w', outputDirectory='.',
  columnsToExclude=['geometry'])\<close>: the columns of \<^verbatim>\<open>select *\<close> that are not
  excluded, in table order, as \<^verbatim>\<open>df.loc[:, columnsToExport]\<close> selects them.
\<close>

definition toCsv :: "gdb \<Rightarrow> string \<Rightarrow> string option \<Rightarrow> string \<Rightarrow> string \<Rightarrow> string list \<Rightarrow> csv_export py" where
  "toCsv g table archive mode outputDirectory columnsToExclude =
     (let archive_name = archive_of archive table
      in py_bind (select_all (database g) table) (\<lambda>(cols, rows).
         let keep = [i \<leftarrow> [0..<length cols]. cols ! i \<notin> set columnsToExclude]
         in Return \<lparr>csv_path = outputDirectory @ ''/'' @ archive_name @ ''.zip'',
                    csv_member = table @ ''.csv'', csv_mode = mode, csv_sep = CHR ''|'',
                    csv_header = map (\<lambda>i. cols ! i) keep,
                    csv_rows = map (\<lambda>row. map (\<lambda>i. row ! i) keep) rows\<rparr>))"

text \<open>The SAS length of a column of \<^verbatim>\<open>getListOfColumns(table, withLengths=True)\<close>.\<close>

definition sas_format :: "column_row \<Rightarrow> string" where
  "sas_format r =
     (if cr_type r \<in> set [''TEXT'', ''BLOB'', []] then
        CHR ''$'' # (case cr_max_length r of None \<Rightarrow> ''nan'' | Some n \<Rightarrow> nat_str n)
      else if cr_type r \<in> set [''INTEGER'', ''DOUBLE'', ''REAL'', ''INT'', ''NUM''] then ''8''
      else ''Unknown'')"

text \<open>The first loop of \<^verbatim>\<open>toSas\<close>, filling the dictionary \<^verbatim>\<open>structure\<close>.\<close>

definition sas_structure :: "column_row list \<Rightarrow> (string \<times> string) list" where
  "sas_structure rs = fold (\<lambda>r st. dict_store st (cr_name r) (sas_format r)) rs []"

text \<open>\<^verbatim>\<open>for d in [c for c in structure.keys() if c in columnsToExclude]: del(structure[d])\<close>.\<close>

fun del_keys :: "(string \<times> string) list \<Rightarrow> string list \<Rightarrow> (string \<times> string) list py" where
  "del_keys st [] = Return st"
| "del_keys st (k # ks) = py_bind (dict_del st k) (\<lambda>st'. del_keys st' ks)"

definition sas_exclude :: "(string \<times> string) list \<Rightarrow> string list \<Rightarrow> (string \<times> string) list py" where
  "sas_exclude st columnsToExclude = del_keys st [c \<leftarrow> map fst st. c \<in> set columnsToExclude]"

definition nl :: string where
  "nl = [CHR 0x0A]"

definition sq :: string where
  "sq = [CHR 0x27]"

definition indent :: string where
  "indent = replicate 8 CHR '' ''"

text \<open>The text of the SAS program, write by write.\<close>

definition sas_program :: "string \<Rightarrow> string \<Rightarrow> (string \<times> string) list \<Rightarrow> string" where
  "sas_program archive_name table st =
     ''filename myZip ZIP '' @ sq @ archive_name @ ''.zip'' @ sq @ '';'' @ nl @
     ''data '' @ table @ ''(compress=YES);'' @ nl @
     ''length '' @ nl @
     concat (map (\<lambda>(v, f). indent @ ljust 40 v @ ''    '' @ ljust 10 f @ nl) st) @
     indent @ '';'' @ nl @
     ''infile myZip('' @ table @ ''.csv) dsd delimiter='' @ sq @ ''|'' @ sq @ '' encoding='' @ sq @
       ''utf8'' @ sq @ '' firstobs=2 missover lrecl=10000;'' @ nl @
     ''input'' @ nl @
     concat (map (\<lambda>(v, f). indent @ ljust 40 v @ nl) st) @
     indent @ '';'' @ nl @
     ''run;'' @ nl"

text \<open>
  \<^verbatim>\<open>toSas(table, archive_name=None, outputDirectory='.', columnsToExclude=['geometry'])\<close>:
  the path and the content of the file written. For a name that is not a table,
  \<^verbatim>\<open>getListOfColumns\<close> returns \<^verbatim>\<open>()\<close> and \<^verbatim>\<open>().itertuples()\<close> raises
  AttributeError.
\<close>

definition toSas :: "gdb \<Rightarrow> string \<Rightarrow> string option \<Rightarrow> string \<Rightarrow> string list \<Rightarrow> (string \<times> string) py" where
  "toSas g table archive outputDirectory columnsToExclude =
     (let archive_name = archive_of archive table
      in py_bind (getListOfColumns (database g) table True False) (\<lambda>r.
         case r of
           NotATable \<Rightarrow> Raise AttributeError
         | Columns rs \<Rightarrow>
             py_bind (sas_exclude (sas_structure rs) columnsToExclude) (\<lambda>st.
             Return (outputDirectory @ ''/'' @ table @ ''.sas'', sas_program archive_name table st))))"

section \<open>Lemmas\<close>

lemma fill_lengths_Return:
  "fill_lengths d t rs = Return rs' \<Longrightarrow> map cr_name rs' = map cr_name rs \<and> map cr_type rs' = map cr_type rs"
proof (induction rs arbitrary: rs')
  case (Cons r rs)
  then show ?case by (auto simp: py_bind_Return_iff)
qed simp

lemma getListOfColumns_lengths_Return:
  assumes "getListOfColumns d t True False = Return (Columns rs)" "lookup_table d t = Some tb"
  shows "map cr_name rs = map col_name (tbl_cols tb) \<and> map cr_type rs = map col_type (tbl_cols tb)"
proof -
  obtain rs0 where f: "fill_lengths d t (map column_row_of (tbl_cols tb)) = Return rs0"
    and c: "cast_lengths rs0 = Return rs"
    using assms by (auto simp: getListOfColumns_def py_bind_Return_iff split: if_splits)
  have "rs = rs0" using c by (simp add: cast_lengths_def split: if_splits)
  with fill_lengths_Return [OF f] show ?thesis by (simp add: comp_def column_row_of_def)
qed

lemma sas_structure_fold:
  "distinct (map cr_name rs) \<Longrightarrow> set (map cr_name rs) \<inter> fst ` set acc = {} \<Longrightarrow>
   fold (\<lambda>r st. dict_store st (cr_name r) (sas_format r)) rs acc = acc @ map (\<lambda>r. (cr_name r, sas_format r)) rs"
proof (induction rs arbitrary: acc)
  case (Cons r rs)
  then show ?case by (simp add: dict_store_new)
qed simp

lemma sas_structure_distinct:
  "distinct (map cr_name rs) \<Longrightarrow> sas_structure rs = map (\<lambda>r. (cr_name r, sas_format r)) rs"
  using sas_structure_fold [of rs "[]"] by (simp add: sas_structure_def)

lemma del_keys_filter:
  "distinct ks \<Longrightarrow> set ks \<subseteq> fst ` set st \<Longrightarrow> del_keys st ks = Return (filter (\<lambda>(c, _). c \<notin> set ks) st)"
proof (induction ks arbitrary: st)
  case (Cons k ks)
  have del: "dict_del st k = Return (filter (\<lambda>(c, _). c \<noteq> k) st)"
    using Cons.prems by (simp add: dict_del_def)
  have "set ks \<subseteq> fst ` set (filter (\<lambda>(c, _). c \<noteq> k) st)"
    using Cons.prems by force
  then have "del_keys (filter (\<lambda>(c, _). c \<noteq> k) st) ks =
      Return (filter (\<lambda>(c, _). c \<notin> set ks) (filter (\<lambda>(c, _). c \<noteq> k) st))"
    using Cons.IH Cons.prems by simp
  then show ?case using del by (simp add: case_prod_unfold conj_commute)
qed simp

lemma sas_exclude_filter:
  assumes "distinct (map fst st)"
  shows "sas_exclude st excl = Return (filter (\<lambda>(c, _). c \<notin> set excl) st)"
proof -
  have "del_keys st [c \<leftarrow> map fst st. c \<in> set excl] =
      Return (filter (\<lambda>(c, _). c \<notin> set [c \<leftarrow> map fst st. c \<in> set excl]) st)"
  proof (rule del_keys_filter)
    show "distinct [c \<leftarrow> map fst st. c \<in> set excl]" using assms by simp
    show "set [c \<leftarrow> map fst st. c \<in> set excl] \<subseteq> fst ` set st" by auto
  qed
  moreover have "filter (\<lambda>(c, _). c \<notin> set [c \<leftarrow> map fst st. c \<in> set excl]) st =
      filter (\<lambda>(c, _). c \<notin> set excl) st"
    by (rule filter_cong) (auto intro: rev_image_eqI)
  ultimately show ?thesis by (simp add: sas_exclude_def)
qed

lemma toSas_Return:
  assumes "toSas g t arch dir excl = Return (p, txt)" "lookup_table (database g) t = Some tb"
    "distinct (map col_name (tbl_cols tb))"
  obtains rs where "p = dir @ ''/'' @ t @ ''.sas''"
    "txt = sas_program (archive_of arch t) t
       (filter (\<lambda>(c, _). c \<notin> set excl) (map (\<lambda>r. (cr_name r, sas_format r)) rs))"
    "map cr_name rs = map col_name (tbl_cols tb)" "map cr_type rs = map col_type (tbl_cols tb)"
proof -
  obtain r where r: "getListOfColumns (database g) t True False = Return r"
    and rest: "(case r of NotATable \<Rightarrow> Raise AttributeError
         | Columns rs \<Rightarrow> py_bind (sas_exclude (sas_structure rs) excl) (\<lambda>st.
             Return (dir @ ''/'' @ t @ ''.sas'', sas_program (archive_of arch t) t st))) = Return (p, txt)"
    using assms(1) unfolding toSas_def Let_def py_bind_Return_iff by blast
  obtain rs where rs: "r = Columns rs" using rest by (cases r) auto
  have names: "map cr_name rs = map col_name (tbl_cols tb) \<and> map cr_type rs = map col_type (tbl_cols tb)"
    using getListOfColumns_lengths_Return [OF r [unfolded rs] assms(2)] .
  then have "distinct (map cr_name rs)" using assms(3) by simp
  then have "sas_exclude (sas_structure rs) excl =
      Return (filter (\<lambda>(c, _). c \<notin> set excl) (map (\<lambda>r. (cr_name r, sas_format r)) rs))"
    by (simp add: sas_structure_distinct sas_exclude_filter comp_def)
  then show ?thesis using rest rs names that by auto
qed

lemma toCsv_Return:
  assumes "toCsv g t arch mode dir excl = Return x"
  obtains tb where "lookup_table (database g) t = Some tb"
    "x = \<lparr>csv_path = dir @ ''/'' @ archive_of arch t @ ''.zip'', csv_member = t @ ''.csv'', csv_mode = mode,
          csv_sep = CHR ''|'', csv_header = filter (\<lambda>c. c \<notin> set excl) (map col_name (tbl_cols tb)),
          csv_rows = map (\<lambda>row. map (\<lambda>i. row ! i)
            (filter (\<lambda>i. map col_name (tbl_cols tb) ! i \<notin> set excl) [0..<length (tbl_cols tb)])) (tbl_rows tb)\<rparr>"
proof -
  obtain tb where tb: "lookup_table (database g) t = Some tb"
    using assms by (cases "lookup_table (database g) t") (auto simp: toCsv_def select_all_def)
  have h: "map (\<lambda>i. map col_name (tbl_cols tb) ! i)
      (filter (\<lambda>i. map col_name (tbl_cols tb) ! i \<notin> set excl) [0..<length (tbl_cols tb)]) =
      filter (\<lambda>c. c \<notin> set excl) (map col_name (tbl_cols tb))"
    using del_filter_nth [of "map col_name (tbl_cols tb)" "\<lambda>c. c \<notin> set excl"] by simp
  show ?thesis using assms tb h by (intro that [OF tb]) (auto simp: toCsv_def select_all_def)
qed

lemma concat_map_infix:
  assumes "x \<in> set xs"
  shows "\<exists>a b. concat (map g xs) = a @ g x @ b"
proof -
  obtain ys zs where "xs = ys @ x # zs" using assms by (meson split_list)
  then show ?thesis by (intro exI [of _ "concat (map g ys)"] exI [of _ "concat (map g zs)"]) simp
qed

text \<open>Every entry of the structure has its line in the \<^verbatim>\<open>length\<close> statement.\<close>

lemma sas_program_length_line:
  assumes "(v, f) \<in> set st"
  shows "\<exists>a b. sas_program arch t st = a @ indent @ ljust 40 v @ ''    '' @ ljust 10 f @ nl @ b"
proof -
  define line where "line = (\<lambda>(v, f). indent @ ljust 40 v @ ''    '' @ ljust 10 f @ nl)"
  define P where "P = ''filename myZip ZIP '' @ sq @ arch @ ''.zip'' @ sq @ '';'' @ nl @
     ''data '' @ t @ ''(compress=YES);'' @ nl @ ''length '' @ nl"
  define Q where "Q = indent @ '';'' @ nl @
     ''infile myZip('' @ t @ ''.csv) dsd delimiter='' @ sq @ ''|'' @ sq @ '' encoding='' @ sq @
       ''utf8'' @ sq @ '' firstobs=2 missover lrecl=10000;'' @ nl @
     ''input'' @ nl @ concat (map (\<lambda>(v, f). indent @ ljust 40 v @ nl) st) @
     indent @ '';'' @ nl @ ''run;'' @ nl"
  have split: "sas_program arch t st = P @ concat (map line st) @ Q"
    by (simp add: sas_program_def P_def Q_def line_def)
  obtain a b where ab: "concat (map line st) = a @ line (v, f) @ b"
    using concat_map_infix [OF assms] by blast
  show ?thesis unfolding split ab
    by (intro exI [of _ "P @ a"] exI [of _ "b @ Q"]) (simp add: line_def)
qed

section \<open>Properties of the exports\<close>

text \<open>
  C16. The SAS program that \<^verbatim>\<open>toSas\<close> writes reads the file that \<^verbatim>\<open>toCsv\<close>
  writes for the same table, archive name, directory and excluded columns: the
  program names the archive and the member \<^verbatim>\<open>{table}.csv\<close> that \<^verbatim>\<open>toCsv\<close>
  creates, with the delimiter \<^verbatim>\<open>|\<close> it uses, and its \<^verbatim>\<open>length\<close> and
  \<^verbatim>\<open>input\<close> statements list exactly the columns of the CSV header, in the same order.
\<close>

theorem toSas_reads_toCsv:
  assumes "toSas g t arch dir excl = Return (p, txt)" "toCsv g t arch mode dir excl = Return x"
    "lookup_table (database g) t = Some tb" "distinct (map col_name (tbl_cols tb))"
  shows "\<exists>st. txt = sas_program (archive_of arch t) t st \<and> map fst st = csv_header x \<and>
    csv_member x = t @ ''.csv'' \<and> csv_sep x = CHR ''|'' \<and>
    csv_path x = dir @ ''/'' @ archive_of arch t @ ''.zip''"
proof -
  obtain rs where prog: "txt = sas_program (archive_of arch t) t
       (filter (\<lambda>(c, _). c \<notin> set excl) (map (\<lambda>r. (cr_name r, sas_format r)) rs))"
    and names: "map cr_name rs = map col_name (tbl_cols tb)"
    by (rule toSas_Return [OF assms(1,3,4)])
  obtain tb' where "lookup_table (database g) t = Some tb'"
    and x: "x = \<lparr>csv_path = dir @ ''/'' @ archive_of arch t @ ''.zip'', csv_member = t @ ''.csv'',
          csv_mode = mode, csv_sep = CHR ''|'',
          csv_header = filter (\<lambda>c. c \<notin> set excl) (map col_name (tbl_cols tb')),
          csv_rows = map (\<lambda>row. map (\<lambda>i. row ! i)
            (filter (\<lambda>i. map col_name (tbl_cols tb') ! i \<notin> set excl) [0..<length (tbl_cols tb')])) (tbl_rows tb')\<rparr>"
    by (rule toCsv_Return [OF assms(2)])
  then have tb': "tb' = tb" using assms(3) by simp
  have "map fst (filter (\<lambda>(c, _). c \<notin> set excl) (map (\<lambda>r. (cr_name r, sas_format r)) rs)) =
      filter (\<lambda>c. c \<notin> set excl) (map cr_name rs)"
    by (simp add: filter_map comp_def)
  then show ?thesis using prog x tb' names by auto
qed

text \<open>
  C17. \<^verbatim>\<open>toSas\<close> tests the declared type of a column against the exact strings
  \<^verbatim>\<open>'TEXT'\<close>, \<^verbatim>\<open>'BLOB'\<close>, \<^verbatim>\<open>''\<close> and \<^verbatim>\<open>'INTEGER'\<close>, \<^verbatim>\<open>'DOUBLE'\<close>,
  \<^verbatim>\<open>'REAL'\<close>, \<^verbatim>\<open>'INT'\<close>, \<^verbatim>\<open>'NUM'\<close>. Any other declared type (\<^verbatim>\<open>integer\<close>
  in lower case, \<^verbatim>\<open>VARCHAR(20)\<close>, \<^verbatim>\<open>FLOAT\<close>, \<^verbatim>\<open>DATE\<close>) of a column that is not
  excluded gets the line \<^verbatim>\<open>Unknown\<close> in the \<^verbatim>\<open>length\<close> statement of the program,
  which is not a SAS length.
\<close>

theorem toSas_unknown_type:
  assumes "toSas g t arch dir excl = Return (p, txt)" "lookup_table (database g) t = Some tb"
    "distinct (map col_name (tbl_cols tb))" "c \<in> set (tbl_cols tb)" "col_name c \<notin> set excl"
    "col_type c \<notin> set [''TEXT'', ''BLOB'', [], ''INTEGER'', ''DOUBLE'', ''REAL'', ''INT'', ''NUM'']"
  shows "\<exists>a b. txt = a @ indent @ ljust 40 (col_name c) @ ''    '' @ ljust 10 ''Unknown'' @ nl @ b"
proof -
  obtain rs where prog: "txt = sas_program (archive_of arch t) t
       (filter (\<lambda>(c, _). c \<notin> set excl) (map (\<lambda>r. (cr_name r, sas_format r)) rs))"
    and names: "map cr_name rs = map col_name (tbl_cols tb)"
    and types: "map cr_type rs = map col_type (tbl_cols tb)"
    by (rule toSas_Return [OF assms(1,2,3)])
  obtain i where i: "i < length (tbl_cols tb)" "tbl_cols tb ! i = c"
    using assms(4) by (auto simp: in_set_conv_nth)
  have len: "length rs = length (tbl_cols tb)" using names by (metis length_map)
  have r: "rs ! i \<in> set rs" "cr_name (rs ! i) = col_name c" "cr_type (rs ! i) = col_type c"
    using i len nth_map [of i rs cr_name] nth_map [of i rs cr_type] names types by auto
  have "sas_format (rs ! i) = ''Unknown''"
    using r(3) assms(6) by (simp add: sas_format_def)
  then have "(col_name c, ''Unknown'') \<in> set (filter (\<lambda>(c, _). c \<notin> set excl) (map (\<lambda>r. (cr_name r, sas_format r)) rs))"
    using r assms(5) by force
  then show ?thesis unfolding prog by (rule sas_program_length_line)
qed

theorem toSas_reads_toCsv_witness:
  "let g = \<lparr>database = \<lparr>db_tables = [(''t01'', \<lparr>tbl_kind = ''table'',
             tbl_cols = [plain_column ''name'' ''TEXT'', plain_column ''geometry'' ''POINT''],
             tbl_rows = [[SqlText ''abc'', SqlText ''g'']]\<rparr>)], geometry_columns = []\<rparr>, srid = 31370\<rparr>;
       tb = \<lparr>tbl_kind = ''table'', tbl_cols = [plain_column ''name'' ''TEXT'', plain_column ''geometry'' ''POINT''],
             tbl_rows = [[SqlText ''abc'', SqlText ''g'']]\<rparr>
   in toSas g ''t01'' None ''.'' [''geometry''] =
        Return (''./t01.sas'', sas_program ''t01'' ''t01'' [(''name'', ''$3'')]) \<and>
      toCsv g ''t01'' None ''w'' ''.'' [''geometry''] =
        Return \<lparr>csv_path = ''./t01.zip'', csv_member = ''t01.csv'', csv_mode = ''w'', csv_sep = CHR ''|'',
                csv_header = [''name''], csv_rows = [[SqlText ''abc'']]\<rparr> \<and>
      lookup_table (database g) ''t01'' = Some tb \<and> distinct (map col_name (tbl_cols tb)) \<and>
      (\<exists>st. sas_program ''t01'' ''t01'' [(''name'', ''$3'')] = sas_program (archive_of None ''t01'') ''t01'' st \<and>
         map fst st = [''name''])"
proof -
  let ?tb = "\<lparr>tbl_kind = ''table'', tbl_cols = [plain_column ''name'' ''TEXT'', plain_column ''geometry'' ''POINT''],
             tbl_rows = [[SqlText ''abc'', SqlText ''g'']]\<rparr>"
  let ?g = "\<lparr>database = \<lparr>db_tables = [(''t01'', ?tb)], geometry_columns = []\<rparr>, srid = 31370\<rparr>"
  have h1: "toSas ?g ''t01'' None ''.'' [''geometry''] =
        Return (''./t01.sas'', sas_program ''t01'' ''t01'' [(''name'', ''$3'')])"
    by code_simp
  have h2: "toCsv ?g ''t01'' None ''w'' ''.'' [''geometry''] =
        Return \<lparr>csv_path = ''./t01.zip'', csv_member = ''t01.csv'', csv_mode = ''w'', csv_sep = CHR ''|'',
                csv_header = [''name''], csv_rows = [[SqlText ''abc'']]\<rparr>"
    by code_simp
  have h3: "lookup_table (database ?g) ''t01'' = Some ?tb"
    by (simp add: lookup_table_def same_name_def)
  have h4: "distinct (map col_name (tbl_cols ?tb))" by (simp add: plain_column_def)
  note c = toSas_reads_toCsv [OF h1 h2 h3 h4]
  have e: "\<exists>st. sas_program ''t01'' ''t01'' [(''name'', ''$3'')] = sas_program (archive_of None ''t01'') ''t01'' st \<and>
      map fst st = [''name'']"
    using c by (simp only: csv_export.select_convs) (elim exE conjE, intro exI conjI, assumption+)
  show ?thesis unfolding Let_def using h1 h2 h3 h4 e by blast
qed

theorem toSas_unknown_type_witness:
  "let tb = \<lparr>tbl_kind = ''table'', tbl_cols = [plain_column ''n'' ''integer''], tbl_rows = [[SqlText ''7'']]\<rparr>;
       g = \<lparr>database = \<lparr>db_tables = [(''t01'', tb)], geometry_columns = []\<rparr>, srid = 31370\<rparr>
   in toSas g ''t01'' None ''.'' [''geometry''] = Return (''./t01.sas'', sas_program ''t01'' ''t01'' [(''n'', ''Unknown'')]) \<and>
      lookup_table (database g) ''t01'' = Some tb \<and> distinct (map col_name (tbl_cols tb)) \<and>
      plain_column ''n'' ''integer'' \<in> set (tbl_cols tb) \<and> ''n'' \<notin> set [''geometry''] \<and>
      ''integer'' \<notin> set [''TEXT'', ''BLOB'', [], ''INTEGER'', ''DOUBLE'', ''REAL'', ''INT'', ''NUM''] \<and>
      (\<exists>a b. sas_program ''t01'' ''t01'' [(''n'', ''Unknown'')] =
         a @ indent @ ljust 40 ''n'' @ ''    '' @ ljust 10 ''Unknown'' @ nl @ b)"
proof -
  let ?tb = "\<lparr>tbl_kind = ''table'', tbl_cols = [plain_column ''n'' ''integer''], tbl_rows = [[SqlText ''7'']]\<rparr>"
  let ?g = "\<lparr>database = \<lparr>db_tables = [(''t01'', ?tb)], geometry_columns = []\<rparr>, srid = 31370\<rparr>"
  have h1: "toSas ?g ''t01'' None ''.'' [''geometry''] =
      Return (''./t01.sas'', sas_program ''t01'' ''t01'' [(''n'', ''Unknown'')])"
    by code_simp
  have h2: "lookup_table (database ?g) ''t01'' = Some ?tb"
    by (simp add: lookup_table_def same_name_def)
  have h3: "distinct (map col_name (tbl_cols ?tb))" by simp
  have h4: "plain_column ''n'' ''integer'' \<in> set (tbl_cols ?tb)" by simp
  have h5: "col_name (plain_column ''n'' ''integer'') \<notin> set [''geometry'']" by (simp add: plain_column_def)
  have h6: "col_type (plain_column ''n'' ''integer'') \<notin>
      set [''TEXT'', ''BLOB'', [], ''INTEGER'', ''DOUBLE'', ''REAL'', ''INT'', ''NUM'']"
    by (simp add: plain_column_def)
  note c = toSas_unknown_type [OF h1 h2 h3 h4 h5 h6]
  show ?thesis unfolding Let_def using h1 h2 h3 h4 h5 h6 c by (simp add: plain_column_def)
qed

end
