(* ===== verification/Functions.thy ===== *)
theory Functions
  imports Prelude
begin

text \<open>
  \<^verbatim>\<open>download\<close> of \<^verbatim>\<open>src/functions.py\<close>. The file system is the record
  \<open>fs\<close> of file contents by path; whether \<^verbatim>\<open>open(destination, 'w')\<close> succeeds is
  the predicate \<open>writable\<close> (an IOError otherwise), and \<^verbatim>\<open>requests.get\<close> is the
  function \<open>get\<close> from the URL and the proxies (\<open>None\<close> when none are passed) to
  the status code and the content, or to an exception, which \<^verbatim>\<open>download\<close> does not
  catch. \<^verbatim>\<open>unzip\<close> and \<^verbatim>\<open>getLogger\<close> only call \<^verbatim>\<open>zipfile\<close> and
  \<^verbatim>\<open>logging\<close> and are not modelled.
\<close>

record fs =
  files :: "string \<rightharpoonup> string"

text \<open>
  \<^verbatim>\<open>download(url, destination, if_exists='exit', proxies=None)\<close>. The proxies are
  a list of (scheme, proxy) pairs, empty for \<^verbatim>\<open>None\<close> or \<^verbatim>\<open>{}\<close> (both
  falsy). Opening the destination for writing creates it or empties it, before the
  request is sent.
\<close>

definition download ::
  "(string \<Rightarrow> (string \<times> string) list option \<Rightarrow> (nat \<times> string) py) \<Rightarrow> (string \<Rightarrow> bool) \<Rightarrow> fs \<Rightarrow>
   string \<Rightarrow> string \<Rightarrow> string \<Rightarrow> (string \<times> string) list \<Rightarrow> (fs \<times> bool) py" where
  "download get writable s url destination if_exists proxies =
     (if destination \<in> dom (files s) \<and> if_exists = ''exit'' then Return (s, False)
      else if \<not> writable destination then Return (s, False)
      else
        (let s1 = s\<lparr>files := (files s)(destination \<mapsto> [])\<rparr>
         in py_bind (if proxies \<noteq> [] then get url (Some proxies) else get url None) (\<lambda>(status, content).
              if status \<noteq> 200 then Return (s1, False)
              else Return (s1\<lparr>files := (files s1)(destination \<mapsto> content)\<rparr>, True))))"

text \<open>The request \<^verbatim>\<open>download\<close> sends.\<close>

definition request :: "(string \<Rightarrow> (string \<times> string) list option \<Rightarrow> (nat \<times> string) py) \<Rightarrow>
    string \<Rightarrow> (string \<times> string) list \<Rightarrow> (nat \<times> string) py" where
  "request get url proxies = (if proxies \<noteq> [] then get url (Some proxies) else get url None)"

lemma write_after_truncate:
  "(s\<lparr>files := (files s)(d \<mapsto> [])\<rparr>)\<lparr>files := (files (s\<lparr>files := (files s)(d \<mapsto> [])\<rparr>))(d \<mapsto> c)\<rparr> =
   s\<lparr>files := (files s)(d \<mapsto> c)\<rparr>"
  by simp

lemma download_request:
  "\<not> (destination \<in> dom (files s) \<and> if_exists = ''exit'') \<Longrightarrow> writable destination \<Longrightarrow>
   download get writable s url destination if_exists proxies =
     py_bind (request get url proxies) (\<lambda>(status, content).
       if status \<noteq> 200 then Return (s\<lparr>files := (files s)(destination \<mapsto> [])\<rparr>, False)
       else Return (s\<lparr>files := (files s)(destination \<mapsto> content)\<rparr>, True))"
  by (cases "destination \<in> dom (files s)") (simp_all only: download_def request_def Let_def write_after_truncate, simp_all)

section \<open>Properties of download\<close>

text \<open>
  C20. \<^verbatim>\<open>download\<close> writes at most the destination, and it returns True exactly
  when it was allowed to start, the destination could be opened and the server
  answered 200, in which case the destination holds the content served.
\<close>

theorem download_frame:
  assumes "download get writable s url destination if_exists proxies = Return (s', ok)"
  shows "(\<forall>p. p \<noteq> destination \<longrightarrow> files s' p = files s p) \<and>
    (ok \<longleftrightarrow> \<not> (destination \<in> dom (files s) \<and> if_exists = ''exit'') \<and> writable destination \<and>
       (\<exists>content. request get url proxies = Return (200, content) \<and> files s' destination = Some content))"
proof (cases "\<not> (destination \<in> dom (files s) \<and> if_exists = ''exit'') \<and> writable destination")
  case True
  then obtain status content where r: "request get url proxies = Return (status, content)"
    and s': "(if status \<noteq> 200 then Return (s\<lparr>files := (files s)(destination \<mapsto> [])\<rparr>, False)
       else Return (s\<lparr>files := (files s)(destination \<mapsto> content)\<rparr>, True)) = Return (s', ok)"
    using assms by (auto simp: download_request py_bind_Return_iff)
  then show ?thesis using True by (auto split: if_splits)
next
  case False
  then show ?thesis using assms by (auto simp: download_def split: if_splits)
qed

text \<open>
  C21. When the server answers another status, \<^verbatim>\<open>download\<close> returns False but the
  destination has already been opened for writing: it is left empty, and a file that
  existed before (with \<^verbatim>\<open>if_exists='replace'\<close>) has lost its content.
\<close>

theorem download_failure_truncates:
  assumes "destination \<in> dom (files s)" "writable destination"
    "request get url proxies = Return (status, content)" "status \<noteq> 200"
  shows "download get writable s url destination ''replace'' proxies =
    Return (s\<lparr>files := (files s)(destination \<mapsto> [])\<rparr>, False)"
  using assms by (simp add: download_request)

theorem download_frame_witness:
  "download (\<lambda>u p. Return (200, ''PK'')) (\<lambda>p. True) \<lparr>files = [''old.txt'' \<mapsto> ''x'']\<rparr> ''http://x'' ''data.zip''
     ''exit'' [] = Return (\<lparr>files = [''old.txt'' \<mapsto> ''x'', ''data.zip'' \<mapsto> ''PK'']\<rparr>, True) \<and>
   files \<lparr>files = [''old.txt'' \<mapsto> ''x'', ''data.zip'' \<mapsto> ''PK'']\<rparr> ''old.txt'' = Some ''x'' \<and>
   (\<exists>content. request (\<lambda>u p. Return (200, ''PK'')) ''http://x'' [] = Return (200, content) \<and>
      files \<lparr>files = [''old.txt'' \<mapsto> ''x'', ''data.zip'' \<mapsto> ''PK'']\<rparr> ''data.zip'' = Some content)"
proof -
  have h: "download (\<lambda>u p. Return (200, ''PK'')) (\<lambda>p. True) \<lparr>files = [''old.txt'' \<mapsto> ''x'']\<rparr> ''http://x'' ''data.zip''
     ''exit'' [] = Return (\<lparr>files = [''old.txt'' \<mapsto> ''x'', ''data.zip'' \<mapsto> ''PK'']\<rparr>, True)"
    by (simp add: download_def)
  note c = download_frame [OF h]
  show ?thesis using h c by simp
qed

theorem download_failure_truncates_witness:
  "''data.zip'' \<in> dom (files \<lparr>files = [''data.zip'' \<mapsto> ''old'']\<rparr>) \<and> (\<lambda>p. True) ''data.zip'' \<and>
   request (\<lambda>u p. Return (404, [])) ''http://x'' [] = Return (404, []) \<and> (404::nat) \<noteq> 200 \<and>
   download (\<lambda>u p. Return (404, [])) (\<lambda>p. True) \<lparr>files = [''data.zip'' \<mapsto> ''old'']\<rparr> ''http://x'' ''data.zip''
     ''replace'' [] = Return (\<lparr>files = [''data.zip'' \<mapsto> []]\<rparr>, False)"
proof -
  have h1: "''data.zip'' \<in> dom (files \<lparr>files = [''data.zip'' \<mapsto> ''old'']\<rparr>)" by simp
  have h2: "(\<lambda>p. True) ''data.zip''" by simp
  have h3: "request (\<lambda>u p. Return (404, [])) ''http://x'' [] = Return (404, [])"
    by (simp add: request_def)
  have h4: "(404::nat) \<noteq> 200" by simp
  show ?thesis using h1 h2 h3 h4 download_failure_truncates [OF h1, of "\<lambda>p. True", OF h2 h3 h4] by simp
qed

end
