(* ===== verification/Forest.thy ===== *)
theory Forest
  imports Prelude
begin

text \<open>
  The disjoint-set forest of \<^verbatim>\<open>src/graph.py\<close>: the list
  \<^verbatim>\<open>connectedComponentsLabeler.forest\<close> of parent indices and the three methods
  that work on it. \<open>connectedComponentIdentifier\<close> is the recursive find with path
  compression, \<open>link\<close> the union that hangs the root of the first node under the root
  of the second, \<open>simplifyForest\<close> the final pass that points every node at its root.
  The abstraction is \<open>rep_path f i r\<close>, "following parents from \<open>i\<close> in \<open>f\<close> ends at
  the root \<open>r\<close>", with its executable counterpart \<open>rep_opt\<close>; the invariant
  \<open>uf_invar\<close> says that every index reaches a root.
\<close>

section \<open>Operations\<close>

text \<open>
  \<^verbatim>\<open>connectedComponentIdentifier(self, node)\<close>: Python indexing of a too large
  \<open>node\<close> raises IndexError; a cycle of parent links makes the recursion unbounded,
  the value \<open>None\<close>. The list is threaded through as the state it mutates.
\<close>

partial_function (option) connectedComponentIdentifier ::
  "nat list \<Rightarrow> nat \<Rightarrow> (nat list \<times> nat) py" where
  "connectedComponentIdentifier forest node =
     py_bind (list_get forest node) (\<lambda>parent.
       if parent \<noteq> node then
         py_bind (connectedComponentIdentifier forest parent) (\<lambda>(forest', r).
           py_bind (list_set forest' node r) (\<lambda>forest''. Return (forest'', r)))
       else Return (forest, node))"

declare connectedComponentIdentifier.simps [code]

text \<open>\<^verbatim>\<open>link(self, nodeA, nodeB)\<close>: two finds, in this order, then the union.\<close>

definition link :: "nat list \<Rightarrow> nat \<Rightarrow> nat \<Rightarrow> nat list py" where
  "link forest nodeA nodeB =
     py_bind (connectedComponentIdentifier forest nodeA) (\<lambda>(forest1, ccA).
       py_bind (connectedComponentIdentifier forest1 nodeB) (\<lambda>(forest2, ccB).
         if ccA \<noteq> ccB then list_set forest2 ccA ccB else Return forest2))"

text \<open>
  \<^verbatim>\<open>simplifyForest(self)\<close>: \<^verbatim>\<open>for i in range(0, len(self.forest))\<close>, the
  right-hand side \<^verbatim>\<open>connectedComponentIdentifier(i)\<close> evaluated (and the forest
  compressed) before the store into \<^verbatim>\<open>forest[i]\<close>.
\<close>

fun simplify_loop :: "nat list \<Rightarrow> nat list \<Rightarrow> nat list py" where
  "simplify_loop forest [] = Return forest"
| "simplify_loop forest (i # is) =
     py_bind (connectedComponentIdentifier forest i) (\<lambda>(forest', r).
       py_bind (list_set forest' i r) (\<lambda>forest''. simplify_loop forest'' is))"

definition simplifyForest :: "nat list \<Rightarrow> nat list py" where
  "simplifyForest forest = simplify_loop forest [0..<length forest]"

section \<open>Representatives\<close>

inductive rep_path :: "nat list \<Rightarrow> nat \<Rightarrow> nat \<Rightarrow> bool" for f :: "nat list" where
  rp_root: "i < length f \<Longrightarrow> f ! i = i \<Longrightarrow> rep_path f i i"
| rp_step: "i < length f \<Longrightarrow> f ! i \<noteq> i \<Longrightarrow> rep_path f (f ! i) r \<Longrightarrow> rep_path f i r"

partial_function (option) rep_opt :: "nat list \<Rightarrow> nat \<Rightarrow> nat option" where
  "rep_opt f i = (if i < length f then if f ! i = i then Some i else rep_opt f (f ! i) else None)"

declare rep_opt.simps [code]

definition uf_invar :: "nat list \<Rightarrow> bool" where
  "uf_invar f \<longleftrightarrow> (\<forall>i<length f. rep_opt f i \<noteq> None)"

definition rep_of :: "nat list \<Rightarrow> nat \<Rightarrow> nat" where
  "rep_of f i = (case rep_opt f i of Some r \<Rightarrow> r | None \<Rightarrow> i)"

definition roots :: "nat list \<Rightarrow> nat set" where
  "roots f = {i. i < length f \<and> f ! i = i}"

text \<open>The number of components: the number of distinct representatives.\<close>

definition countOfComponents :: "nat list \<Rightarrow> nat" where
  "countOfComponents f = card (rep_of f ` {..<length f})"

inductive_cases rep_pathE: "rep_path f i r"

lemma rep_path_bounds:
  "rep_path f i r \<Longrightarrow> i < length f \<and> r < length f \<and> f ! r = r"
  by (induction rule: rep_path.induct) auto

lemma rep_path_det: "rep_path f i r \<Longrightarrow> rep_path f i s \<Longrightarrow> r = s"
proof (induction arbitrary: s rule: rep_path.induct)
  case (rp_root i)
  then show ?case by (auto elim: rep_pathE)
next
  case (rp_step i r)
  from rp_step.prems rp_step.hyps(2) have "rep_path f (f ! i) s"
    by (auto elim: rep_pathE)
  then show ?case by (rule rp_step.IH)
qed

lemma rep_path_root_iff: "rep_path f i i \<longleftrightarrow> i < length f \<and> f ! i = i"
  by (auto dest: rep_path_bounds intro: rp_root)

lemma rep_opt_rep_path:
  assumes ret: "rep_opt f i = Some r"
  shows "rep_path f i r"
proof (rule rep_opt.raw_induct [where P = "\<lambda>f i r. rep_path f i r", OF _ ret])
  fix g f i r
  assume IH: "\<And>f i r. g f i = Some r \<Longrightarrow> rep_path f i r"
    and eq: "(if i < length f then if f ! i = i then Some i else g f (f ! i) else None) = Some r"
  from eq show "rep_path f i r"
    by (auto split: if_splits intro: rep_path.intros IH)
qed

lemma rep_path_rep_opt: "rep_path f i r \<Longrightarrow> rep_opt f i = Some r"
  by (induction rule: rep_path.induct) (simp_all add: rep_opt.simps)

lemma rep_opt_iff: "rep_opt f i = Some r \<longleftrightarrow> rep_path f i r"
  by (blast intro: rep_opt_rep_path rep_path_rep_opt)

lemma uf_invar_iff: "uf_invar f \<longleftrightarrow> (\<forall>i<length f. \<exists>r. rep_path f i r)"
  by (auto simp: uf_invar_def simp flip: rep_opt_iff)

lemma rep_of_eq: "rep_path f i r \<Longrightarrow> rep_of f i = r"
  by (simp add: rep_of_def rep_path_rep_opt)

lemma rep_of_path: "uf_invar f \<Longrightarrow> i < length f \<Longrightarrow> rep_path f i (rep_of f i)"
  by (metis rep_of_eq uf_invar_iff)

lemma uf_invar_same_reps:
  "rep_path g = rep_path f \<Longrightarrow> length g = length f \<Longrightarrow> uf_invar g = uf_invar f"
  by (simp add: uf_invar_iff)

text \<open>Pointing a node straight at its own root changes no representative.\<close>

lemma rep_path_compress:
  assumes ir: "rep_path f i r"
  shows "rep_path (f[i := r]) = rep_path f"
proof (intro ext iffI)
  fix j s
  have rr: "r < length f" "f ! r = r" and il: "i < length f"
    using rep_path_bounds [OF ir] by auto
  show "rep_path f j s" if "rep_path (f[i := r]) j s"
    using that
  proof (induction rule: rep_path.induct)
    case (rp_root j)
    show ?case
    proof (cases "j = i")
      case True
      with rp_root.hyps il have "r = i" by simp
      with ir True show ?thesis by simp
    next
      case False
      with rp_root.hyps show ?thesis by (auto intro: rep_path.rp_root)
    qed
  next
    case (rp_step j s)
    show ?case
    proof (cases "j = i")
      case True
      with rp_step.IH il have "rep_path f r s" by simp
      with rr have "s = r" by (metis rep_path_det rep_path_root_iff)
      with ir True show ?thesis by simp
    next
      case False
      with rp_step show ?thesis by (auto intro: rep_path.rp_step)
    qed
  qed
next
  fix j s
  have rr: "r < length f" "f ! r = r" and il: "i < length f"
    using rep_path_bounds [OF ir] by auto
  show "rep_path (f[i := r]) j s" if "rep_path f j s"
    using that
  proof (induction rule: rep_path.induct)
    case (rp_root j)
    show ?case
    proof (cases "j = i")
      case True
      with rp_root.hyps have "rep_path f i i" by (auto intro: rep_path.rp_root)
      with ir have "r = i" by (rule rep_path_det)
      with True rp_root.hyps show ?thesis by (auto intro: rep_path.rp_root)
    next
      case False
      with rp_root.hyps show ?thesis by (auto intro: rep_path.rp_root)
    qed
  next
    case (rp_step j s)
    show ?case
    proof (cases "j = i")
      case True
      from rp_step.hyps have "rep_path f j s" by (rule rep_path.rp_step)
      with True ir have "s = r" by (simp add: rep_path_det)
      have "r \<noteq> i" using rp_step.hyps(2) True rr by auto
      have "rep_path (f[i := r]) r r"
        using rr \<open>r \<noteq> i\<close> by (auto intro: rep_path.rp_root)
      with True il \<open>s = r\<close> \<open>r \<noteq> i\<close> show ?thesis
        by (auto intro: rep_path.rp_step)
    next
      case False
      with rp_step show ?thesis by (auto intro: rep_path.rp_step)
    qed
  qed
qed

lemma rep_opt_same_reps: "rep_path g = rep_path f \<Longrightarrow> rep_opt g = rep_opt f"
proof
  fix i
  assume eq: "rep_path g = rep_path f"
  show "rep_opt g i = rep_opt f i"
  proof (cases "rep_opt f i")
    case None
    with eq show ?thesis by (metis not_None_eq rep_opt_iff)
  next
    case (Some r)
    with eq show ?thesis by (metis rep_opt_iff)
  qed
qed

lemma rep_of_same_reps:
  assumes "rep_path g = rep_path f"
  shows "rep_of g = rep_of f"
proof -
  from assms have "rep_opt g = rep_opt f" by (rule rep_opt_same_reps)
  then show ?thesis by (intro ext) (simp add: rep_of_def)
qed

lemma roots_rep_path: "roots f = {i. rep_path f i i}"
  by (auto simp: roots_def rep_path_root_iff)

lemma roots_same_reps: "rep_path g = rep_path f \<Longrightarrow> roots g = roots f"
  by (simp add: roots_rep_path)

text \<open>Hanging the root \<open>ra\<close> under the root \<open>rb\<close> renames the representative \<open>ra\<close>.\<close>

lemma rep_path_union:
  assumes ra: "ra < length g" "g ! ra = ra" and rb: "rb < length g" "g ! rb = rb"
    and ne: "ra \<noteq> rb"
  shows "rep_path (g[ra := rb]) x s \<longleftrightarrow> (\<exists>t. rep_path g x t \<and> s = (if t = ra then rb else t))"
proof
  have rb': "rep_path (g[ra := rb]) rb rb"
    using rb ne by (auto intro: rep_path.rp_root)
  assume "rep_path (g[ra := rb]) x s"
  then show "\<exists>t. rep_path g x t \<and> s = (if t = ra then rb else t)"
  proof (induction rule: rep_path.induct)
    case (rp_root j)
    with ra ne have "j \<noteq> ra" by auto
    with rp_root show ?case by (auto intro: rep_path.rp_root)
  next
    case (rp_step j s)
    show ?case
    proof (cases "j = ra")
      case True
      with rp_step.IH ra have "rep_path g rb s \<or> s = rb"
        by auto
      with rb have "s = rb" by (metis rep_path_det rep_path_root_iff)
      with True ra ne show ?thesis by (auto intro: rep_path.rp_root)
    next
      case False
      with rp_step show ?thesis by (auto intro: rep_path.rp_step)
    qed
  qed
next
  have rb': "rep_path (g[ra := rb]) rb rb"
    using rb ne by (auto intro: rep_path.rp_root)
  assume "\<exists>t. rep_path g x t \<and> s = (if t = ra then rb else t)"
  then obtain t where xt: "rep_path g x t" and s: "s = (if t = ra then rb else t)"
    by blast
  from xt s show "rep_path (g[ra := rb]) x s"
  proof (induction arbitrary: s rule: rep_path.induct)
    case (rp_root j)
    show ?case
    proof (cases "j = ra")
      case True
      with rp_root.prems ra ne rb' show ?thesis by (auto intro: rep_path.rp_step)
    next
      case False
      with rp_root show ?thesis by (auto intro: rep_path.rp_root)
    qed
  next
    case (rp_step j t)
    with ra have "j \<noteq> ra" by auto
    with rp_step show ?case by (auto intro: rep_path.rp_step)
  qed
qed

lemma roots_union:
  "ra < length g \<Longrightarrow> rb < length g \<Longrightarrow> g ! rb = rb \<Longrightarrow> ra \<noteq> rb \<Longrightarrow>
   roots (g[ra := rb]) = roots g - {ra}"
  by (auto simp: roots_def nth_list_update)

section \<open>Find\<close>

lemma connectedComponentIdentifier_Raise:
  "length f \<le> i \<Longrightarrow> connectedComponentIdentifier f i = Raise IndexError"
  by (subst connectedComponentIdentifier.simps) simp

text \<open>
  A find from an index that reaches the root \<open>r\<close> returns \<open>r\<close>, keeps the length and
  every representative, and changes an entry only to the representative of its node.
\<close>

lemma connectedComponentIdentifier_rep_path:
  assumes "rep_path f i r"
  shows "\<exists>f'. connectedComponentIdentifier f i = Return (f', r) \<and> length f' = length f \<and>
    rep_path f' = rep_path f \<and> f' ! i = r \<and>
    (\<forall>j<length f. f' ! j = f ! j \<or> rep_path f j (f' ! j))"
  using assms
proof (induction rule: rep_path.induct)
  case (rp_root i)
  then show ?case by (subst connectedComponentIdentifier.simps) simp
next
  case (rp_step i r)
  then obtain f1 where c: "connectedComponentIdentifier f (f ! i) = Return (f1, r)"
    and l: "length f1 = length f" and rp: "rep_path f1 = rep_path f"
    and ch: "\<forall>j<length f. f1 ! j = f ! j \<or> rep_path f j (f1 ! j)"
    by blast
  have ir: "rep_path f i r"
    using rp_step.hyps by (rule rep_path.rp_step)
  with rp have "rep_path (f1[i := r]) = rep_path f"
    by (simp add: rep_path_compress)
  moreover have "connectedComponentIdentifier f i = Return (f1[i := r], r)"
    using rp_step.hyps c l by (subst connectedComponentIdentifier.simps) simp
  moreover have "\<forall>j<length f. f1[i := r] ! j = f ! j \<or> rep_path f j (f1[i := r] ! j)"
  proof (intro allI impI)
    fix j
    assume "j < length f"
    with ch ir l show "f1[i := r] ! j = f ! j \<or> rep_path f j (f1[i := r] ! j)"
      by (cases "j = i") auto
  qed
  ultimately show ?case using l rp_step.hyps(1) by auto
qed

lemma connectedComponentIdentifier_Return:
  assumes "uf_invar f" "i < length f"
  obtains f' where "connectedComponentIdentifier f i = Return (f', rep_of f i)"
    "length f' = length f" "rep_path f' = rep_path f" "f' ! i = rep_of f i"
    "\<forall>j<length f. f' ! j = f ! j \<or> f' ! j = rep_of f j"
  using connectedComponentIdentifier_rep_path [OF rep_of_path [OF assms]]
  by (metis rep_of_eq)

section \<open>Link\<close>

lemma link_Return:
  assumes inv: "uf_invar f" and a: "a < length f" and b: "b < length f"
  obtains f' where "link f a b = Return f'" "length f' = length f"
    "\<forall>x s. rep_path f' x s \<longleftrightarrow> (\<exists>t. rep_path f x t \<and>
       s = (if t = rep_of f a \<and> rep_of f a \<noteq> rep_of f b then rep_of f b else t))"
    "roots f' = (if rep_of f a = rep_of f b then roots f else roots f - {rep_of f a})"
proof -
  obtain f1 where c1: "connectedComponentIdentifier f a = Return (f1, rep_of f a)"
    and l1: "length f1 = length f" and r1: "rep_path f1 = rep_path f"
    using connectedComponentIdentifier_Return [OF inv a] by blast
  have inv1: "uf_invar f1" using inv r1 l1 uf_invar_same_reps by blast
  have rep1: "rep_of f1 = rep_of f" using r1 by (rule rep_of_same_reps)
  obtain f2 where c2: "connectedComponentIdentifier f1 b = Return (f2, rep_of f b)"
    and l2: "length f2 = length f" and r2: "rep_path f2 = rep_path f"
    using connectedComponentIdentifier_Return [OF inv1] b l1 r1 rep1 by metis
  have pa: "rep_path f2 (rep_of f a) (rep_of f a)" and pb: "rep_path f2 (rep_of f b) (rep_of f b)"
    using rep_of_path [OF inv a] rep_of_path [OF inv b] r2 rep_path_bounds rep_path_root_iff
    by metis+
  show ?thesis
  proof (cases "rep_of f a = rep_of f b")
    case True
    with c1 c2 have "link f a b = Return f2" by (simp add: link_def)
    with True l2 r2 roots_same_reps [OF r2] show ?thesis
      using that [of f2] by auto
  next
    case False
    from pa pb have ra: "rep_of f a < length f2" "f2 ! rep_of f a = rep_of f a"
      and rb: "rep_of f b < length f2" "f2 ! rep_of f b = rep_of f b"
      by (simp_all add: rep_path_root_iff)
    with False c1 c2 have "link f a b = Return (f2[rep_of f a := rep_of f b])"
      by (simp add: link_def)
    moreover note rep_path_union [OF ra rb False] roots_union [OF ra(1) rb False]
    ultimately show ?thesis
      using False l2 r2 roots_same_reps [OF r2] that [of "f2[rep_of f a := rep_of f b]"] by auto
  qed
qed

lemma link_rep_of:
  assumes inv: "uf_invar f" and ab: "a < length f" "b < length f" and l: "link f a b = Return f'"
  shows "uf_invar f'" "length f' = length f"
    "\<forall>x<length f. rep_of f' x = (if rep_of f x = rep_of f a then rep_of f b else rep_of f x)"
    "roots f' = (if rep_of f a = rep_of f b then roots f else roots f - {rep_of f a})"
proof -
  obtain g where lg: "link f a b = Return g" and len: "length g = length f"
    and rp: "\<forall>x s. rep_path g x s \<longleftrightarrow> (\<exists>t. rep_path f x t \<and>
       s = (if t = rep_of f a \<and> rep_of f a \<noteq> rep_of f b then rep_of f b else t))"
    and rt: "roots g = (if rep_of f a = rep_of f b then roots f else roots f - {rep_of f a})"
    by (rule link_Return [OF inv ab])
  from l lg have g: "g = f'" by simp
  have new: "rep_path g x (if rep_of f x = rep_of f a then rep_of f b else rep_of f x)"
    if "x < length f" for x
    using rp rep_of_path [OF inv that] by auto
  then show "uf_invar f'" using len g by (auto simp: uf_invar_iff)
  show "\<forall>x<length f. rep_of f' x = (if rep_of f x = rep_of f a then rep_of f b else rep_of f x)"
    using new rep_of_eq g by blast
  show "length f' = length f" "roots f' = (if rep_of f a = rep_of f b then roots f else roots f - {rep_of f a})"
    using len rt g by simp_all
qed

section \<open>Simplify\<close>

lemma simplify_loop_Return:
  assumes "uf_invar f" "rep_path g = rep_path f" "length g = length f"
    "set is \<subseteq> {..<length f}" "D \<subseteq> {..<length f}" "\<forall>j\<in>D. g ! j = rep_of f j"
  shows "\<exists>g'. simplify_loop g is = Return g' \<and> rep_path g' = rep_path f \<and>
    length g' = length f \<and> (\<forall>j\<in>D \<union> set is. g' ! j = rep_of f j)"
  using assms(2-)
proof (induction "is" arbitrary: g D)
  case Nil
  then show ?case by simp
next
  case (Cons i "is")
  have i: "i < length f" using Cons.prems(3) by simp
  have invg: "uf_invar g" using assms(1) Cons.prems(1,2) uf_invar_same_reps by blast
  have repg: "rep_of g = rep_of f" using Cons.prems(1) by (rule rep_of_same_reps)
  obtain g1 where c: "connectedComponentIdentifier g i = Return (g1, rep_of f i)"
    and l1: "length g1 = length f" and r1: "rep_path g1 = rep_path f"
    and ch: "\<forall>j<length f. g1 ! j = g ! j \<or> g1 ! j = rep_of f j"
    using connectedComponentIdentifier_Return [OF invg] i Cons.prems(1,2) repg by metis
  have "rep_path g1 i (rep_of f i)" using rep_of_path [OF assms(1) i] r1 by simp
  then have r2: "rep_path (g1[i := rep_of f i]) = rep_path f"
    using r1 by (simp add: rep_path_compress)
  have D: "\<forall>j\<in>insert i D. g1[i := rep_of f i] ! j = rep_of f j"
  proof
    fix j
    assume "j \<in> insert i D"
    with Cons.prems(1-5) ch l1 i show "g1[i := rep_of f i] ! j = rep_of f j"
      by (cases "j = i") (auto simp: nth_list_update)
  qed
  from Cons.IH [OF r2 _ _ _ D] Cons.prems(3,4) l1 i
  obtain g' where "simplify_loop (g1[i := rep_of f i]) is = Return g'"
    "rep_path g' = rep_path f" "length g' = length f"
    "\<forall>j\<in>insert i D \<union> set is. g' ! j = rep_of f j"
    by auto
  with c l1 i show ?case by auto
qed

lemma simplifyForest_Return:
  assumes "uf_invar f"
  obtains f' where "simplifyForest f = Return f'" "rep_path f' = rep_path f"
    "length f' = length f" "\<forall>j<length f. f' ! j = rep_of f j"
proof -
  have "set [0..<length f] \<subseteq> {..<length f}" by auto
  from simplify_loop_Return [OF assms refl refl this, of "{}"]
  obtain g' where "simplifyForest f = Return g'" "rep_path g' = rep_path f"
    "length g' = length f" "\<forall>j<length f. g' ! j = rep_of f j"
    by (auto simp: simplifyForest_def)
  then show ?thesis by (rule that)
qed

lemma rep_of_root: "uf_invar f \<Longrightarrow> i < length f \<Longrightarrow> rep_of f i \<in> roots f"
  using rep_of_path rep_path_bounds roots_def by fastforce

lemma rep_of_idem: "uf_invar f \<Longrightarrow> i < length f \<Longrightarrow> rep_of f (rep_of f i) = rep_of f i"
  using rep_of_root rep_of_eq rep_path_root_iff roots_def by fastforce

lemma roots_rep_of: "uf_invar f \<Longrightarrow> roots f = rep_of f ` {..<length f}"
proof
  show "roots f \<subseteq> rep_of f ` {..<length f}" if "uf_invar f"
  proof
    fix r
    assume "r \<in> roots f"
    then have "r < length f" "rep_of f r = r"
      by (auto simp: roots_def rep_of_eq rep_path.rp_root)
    then show "r \<in> rep_of f ` {..<length f}" by force
  qed
qed (auto dest: rep_of_root)

section \<open>Properties of the forest operations\<close>

text \<open>
  C3. On a forest in which every index reaches a root, the find
  \<^verbatim>\<open>connectedComponentIdentifier(i)\<close> returns (it does not recurse forever) the
  root of \<open>i\<close>, leaves \<open>forest[i]\<close> pointing at that root, keeps the length, the
  invariant and every node's root; an index past the end raises IndexError.
\<close>

theorem connectedComponentIdentifier_correct:
  assumes "uf_invar f"
  shows "(i < length f \<longrightarrow> (\<exists>f'. connectedComponentIdentifier f i = Return (f', rep_of f i) \<and>
      uf_invar f' \<and> length f' = length f \<and> rep_of f' = rep_of f \<and> f' ! i = rep_of f i)) \<and>
    (length f \<le> i \<longrightarrow> connectedComponentIdentifier f i = Raise IndexError)"
proof (intro conjI impI)
  assume "i < length f"
  with assms obtain f' where "connectedComponentIdentifier f i = Return (f', rep_of f i)"
    "length f' = length f" "rep_path f' = rep_path f" "f' ! i = rep_of f i"
    by (rule connectedComponentIdentifier_Return)
  with assms show "\<exists>f'. connectedComponentIdentifier f i = Return (f', rep_of f i) \<and>
      uf_invar f' \<and> length f' = length f \<and> rep_of f' = rep_of f \<and> f' ! i = rep_of f i"
    by (metis rep_of_same_reps uf_invar_same_reps)
qed (rule connectedComponentIdentifier_Raise)

theorem connectedComponentIdentifier_correct_witness:
  "uf_invar [1, 2, 2] \<and> (\<exists>f'. connectedComponentIdentifier [1, 2, 2] 0 = Return (f', 2) \<and>
     uf_invar f' \<and> f' ! 0 = 2)"
proof -
  have inv: "uf_invar [1, 2, 2]"
    by (simp add: uf_invar_def rep_opt.simps All_less_Suc numeral_eq_Suc)
  have r: "rep_of [1, 2, 2] 0 = 2"
    by (simp add: rep_of_def rep_opt.simps)
  show ?thesis
    using inv connectedComponentIdentifier_correct [OF inv, of 0] r by auto
qed

text \<open>
  C2. \<^verbatim>\<open>link(a, b)\<close> on valid indices returns, keeps the invariant and the length,
  and merges exactly the class of \<open>a\<close> into the class of \<open>b\<close>: a node whose root was
  the root of \<open>a\<close> now has the root of \<open>b\<close>, every other node keeps its root.
\<close>

theorem link_correct:
  assumes "uf_invar f" "a < length f" "b < length f"
  shows "\<exists>f'. link f a b = Return f' \<and> uf_invar f' \<and> length f' = length f \<and>
    (\<forall>x<length f. rep_of f' x = (if rep_of f x = rep_of f a then rep_of f b else rep_of f x))"
proof -
  obtain f' where l: "link f a b = Return f'"
    using link_Return [OF assms] by metis
  with link_rep_of [OF assms l] show ?thesis by blast
qed

theorem link_correct_witness:
  "uf_invar [1, 2, 2, 3] \<and> (\<exists>f'. link [1, 2, 2, 3] 0 3 = Return f' \<and> uf_invar f' \<and>
     rep_of f' 1 = 3 \<and> rep_of f' 3 = 3)"
proof -
  have inv: "uf_invar [1, 2, 2, 3]"
    by (simp add: uf_invar_def rep_opt.simps All_less_Suc numeral_eq_Suc)
  have r: "rep_of [1, 2, 2, 3] 0 = 2" "rep_of [1, 2, 2, 3] 1 = 2" "rep_of [1, 2, 2, 3] 3 = 3"
    by (simp_all add: rep_of_def rep_opt.simps)
  show ?thesis
    using inv link_correct [OF inv, of 0 3] r by auto
qed

text \<open>
  C4. \<^verbatim>\<open>simplifyForest()\<close> returns a forest of the same length that keeps the
  invariant, in which every entry is the root of its node and every entry is itself a
  root, so one lookup gives a node's component.
\<close>

theorem simplifyForest_correct:
  assumes "uf_invar f"
  shows "\<exists>f'. simplifyForest f = Return f' \<and> length f' = length f \<and> uf_invar f' \<and>
    (\<forall>i<length f. f' ! i = rep_of f i \<and> f' ! (f' ! i) = f' ! i)"
proof -
  obtain f' where s: "simplifyForest f = Return f'" and rp: "rep_path f' = rep_path f"
    and len: "length f' = length f" and ent: "\<forall>j<length f. f' ! j = rep_of f j"
    using simplifyForest_Return [OF assms] by metis
  have "f' ! i = rep_of f i \<and> f' ! (f' ! i) = f' ! i" if "i < length f" for i
  proof -
    have "rep_of f i < length f"
      using rep_of_root [OF assms that] by (simp add: roots_def)
    with ent that rep_of_idem [OF assms that] show ?thesis by simp
  qed
  moreover have "uf_invar f'"
    using uf_invar_same_reps [OF rp len] assms by simp
  ultimately show ?thesis
    using s len by blast
qed

theorem simplifyForest_correct_witness:
  "uf_invar [1, 2, 3, 3] \<and> (\<exists>f'. simplifyForest [1, 2, 3, 3] = Return f' \<and> f' ! 0 = 3)"
proof -
  have inv: "uf_invar [1, 2, 3, 3]"
    by (simp add: uf_invar_def rep_opt.simps All_less_Suc numeral_eq_Suc)
  have r: "rep_of [1, 2, 3, 3] 0 = 3"
    by (simp add: rep_of_def rep_opt.simps)
  show ?thesis
    using inv simplifyForest_correct [OF inv] r by auto
qed

text \<open>
  C6. Merge monotonicity: one \<^verbatim>\<open>link(a, b)\<close> leaves the number of components
  unchanged when \<open>a\<close> and \<open>b\<close> are already in one component, and lowers it by
  exactly one otherwise.
\<close>

theorem link_countOfComponents:
  assumes "uf_invar f" "a < length f" "b < length f" "link f a b = Return f'"
  shows "countOfComponents f' =
    (if rep_of f a = rep_of f b then countOfComponents f else countOfComponents f - 1)"
proof -
  note l = link_rep_of [OF assms]
  have fin: "finite (roots f)" by (simp add: roots_def)
  have ra: "rep_of f a \<in> roots f" by (rule rep_of_root [OF assms(1,2)])
  have c: "countOfComponents f = card (roots f)" "countOfComponents f' = card (roots f')"
    using roots_rep_of [OF assms(1)] roots_rep_of [OF l(1)] l(2)
    by (simp_all add: countOfComponents_def)
  show ?thesis
    unfolding c using l(4) fin ra by (simp add: card_Diff_singleton)
qed

theorem link_countOfComponents_witness:
  "uf_invar [0, 1] \<and> link [0, 1] 0 1 = Return [1, 1] \<and>
   countOfComponents [1, 1] = countOfComponents [0, 1] - 1"
proof -
  have inv: "uf_invar [0, 1]"
    by (simp add: uf_invar_def rep_opt.simps All_less_Suc numeral_eq_Suc)
  have l: "link [0, 1] 0 1 = Return [1, 1]"
    by (simp add: link_def connectedComponentIdentifier.simps)
  have r: "rep_of [0, 1] 0 = 0" "rep_of [0, 1] 1 = 1"
    by (simp_all add: rep_of_def rep_opt.simps)
  show ?thesis
    using link_countOfComponents [OF inv _ _ l] inv l r by simp
qed

text \<open>
  C7. \<^verbatim>\<open>simplifyForest()\<close> is idempotent: run again on its own result it
  returns that result unchanged.
\<close>

theorem simplifyForest_idem:
  assumes "uf_invar f" "simplifyForest f = Return f'"
  shows "simplifyForest f' = Return f'"
proof -
  obtain g where s: "simplifyForest f = Return g" and rp: "rep_path g = rep_path f"
    and len: "length g = length f" and ent: "\<forall>j<length f. g ! j = rep_of f j"
    by (rule simplifyForest_Return [OF assms(1)])
  with assms(2) have g: "g = f'" by simp
  have inv': "uf_invar g" using uf_invar_same_reps [OF rp len] assms(1) by simp
  obtain h where s': "simplifyForest g = Return h" and len': "length h = length g"
    and ent': "\<forall>j<length g. h ! j = rep_of g j"
    by (rule simplifyForest_Return [OF inv'])
  have "h = g"
  proof (rule nth_equalityI)
    show "length h = length g" by (rule len')
    fix j
    assume "j < length h"
    with ent ent' len len' rep_of_same_reps [OF rp] show "h ! j = g ! j" by simp
  qed
  with s' g show ?thesis by simp
qed

theorem simplifyForest_idem_witness:
  "uf_invar [1, 2, 3, 3] \<and> simplifyForest [1, 2, 3, 3] = Return [3, 3, 3, 3] \<and>
   simplifyForest [3, 3, 3, 3] = Return [3, 3, 3, 3]"
proof -
  have inv: "uf_invar [1, 2, 3, 3]"
    by (simp add: uf_invar_def rep_opt.simps All_less_Suc numeral_eq_Suc)
  have s: "simplifyForest [1, 2, 3, 3] = Return [3, 3, 3, 3]"
    by (simp add: simplifyForest_def connectedComponentIdentifier.simps upt_rec)
  show ?thesis using simplifyForest_idem [OF inv s] inv s by simp
qed

end
