(* ===== verification/Labeler.thy ===== *)
theory Labeler
  imports Forest
begin

text \<open>
  The class \<^verbatim>\<open>connectedComponentsLabeler\<close> of \<^verbatim>\<open>src/graph.py\<close>. Its
  dictionaries \<^verbatim>\<open>hash2seq\<close> and \<^verbatim>\<open>seq2hash\<close> are class attributes that
  \<^verbatim>\<open>__init__\<close> mutates without rebinding, so they are shared by every instance and
  survive from one labeler to the next: they form the record \<open>labeler_class\<close>, passed
  in and returned. The attributes \<^verbatim>\<open>hashes\<close>, \<^verbatim>\<open>edges\<close>,
  \<^verbatim>\<open>numberOfNodes\<close> and \<^verbatim>\<open>forest\<close> are rebound per instance: the record
  \<open>labeler\<close>. \<^verbatim>\<open>hashes\<close> is the iteration order of the Python set of all
  keys, which the language leaves unspecified; the model takes it as the argument
  \<open>hs\<close>, any list of the distinct keys of the edges.
\<close>

section \<open>State\<close>

record 'k labeler_class =
  hash2seq :: "'k \<rightharpoonup> nat"
  seq2hash :: "nat \<rightharpoonup> 'k"

record 'k labeler =
  edges :: "('k \<times> 'k) list"
  hashes :: "'k list"
  numberOfNodes :: nat
  forest :: "nat list"

definition empty_class :: "'k labeler_class" where
  "empty_class = \<lparr>hash2seq = Map.empty, seq2hash = Map.empty\<rparr>"

definition hashes_of :: "('k \<times> 'k) list \<Rightarrow> 'k list \<Rightarrow> bool" where
  "hashes_of es hs \<longleftrightarrow> distinct hs \<and> set hs = nodes es"

section \<open>Operations\<close>

text \<open>
  \<^verbatim>\<open>for (hash, seq) in zip(self.hashes, range(len(self.hashes))):\<close> the two
  stores into the shared dictionaries.
\<close>

fun register :: "'k labeler_class \<Rightarrow> ('k \<times> nat) list \<Rightarrow> 'k labeler_class" where
  "register c [] = c"
| "register c ((h, s) # ps) =
     register (c\<lparr>hash2seq := (hash2seq c)(h \<mapsto> s), seq2hash := (seq2hash c)(s \<mapsto> h)\<rparr>) ps"

text \<open>
  \<^verbatim>\<open>for row in self.edges.itertuples(): self.link(self.hash2seq[row.a], self.hash2seq[row.b])\<close>:
  the two dictionary lookups (KeyError) in argument order, then the union.
\<close>

fun ingest :: "'k labeler_class \<Rightarrow> nat list \<Rightarrow> ('k \<times> 'k) list \<Rightarrow> nat list py" where
  "ingest c f [] = Return f"
| "ingest c f ((a, b) # es) =
     py_bind (dict_get (hash2seq c) a) (\<lambda>ia.
       py_bind (dict_get (hash2seq c) b) (\<lambda>ib.
         py_bind (link f ia ib) (\<lambda>f'. ingest c f' es)))"

text \<open>\<^verbatim>\<open>__init__(self, edges)\<close>, with \<open>hs\<close> the order of \<^verbatim>\<open>set(a).union(b)\<close>.\<close>

definition labeler_init ::
  "'k labeler_class \<Rightarrow> 'k list \<Rightarrow> ('k \<times> 'k) list \<Rightarrow> ('k labeler_class \<times> 'k labeler) py" where
  "labeler_init c hs es =
     (let c' = register c (zip hs [0..<length hs]);
          n = length hs
      in py_bind (ingest c' [0..<n] es) (\<lambda>f.
           Return (c', \<lparr>edges = es, hashes = hs, numberOfNodes = n, forest = f\<rparr>)))"

text \<open>
  \<^verbatim>\<open>getConnectedCompontents(self)\<close>: \<^verbatim>\<open>simplifyForest()\<close>, then the data
  frame with the columns \<^verbatim>\<open>id\<close> and \<^verbatim>\<open>cc\<close>, as a list of rows; pandas raises
  ValueError when the two columns differ in length.
\<close>

definition getConnectedCompontents :: "'k labeler \<Rightarrow> ('k labeler \<times> ('k \<times> nat) list) py" where
  "getConnectedCompontents l =
     py_bind (simplifyForest (forest l)) (\<lambda>f.
       if length (hashes l) \<noteq> length f then Raise ValueError
       else Return (l\<lparr>forest := f\<rparr>, zip (hashes l) f))"

text \<open>
  \<^verbatim>\<open>connectedComponentsLabeler(edges).getConnectedCompontents()\<close>, the call
  made by \<^verbatim>\<open>Geodatabase.findConnectedComponents\<close>.
\<close>

definition connected_components ::
  "'k labeler_class \<Rightarrow> 'k list \<Rightarrow> ('k \<times> 'k) list \<Rightarrow> ('k labeler_class \<times> ('k \<times> nat) list) py" where
  "connected_components c hs es =
     py_bind (labeler_init c hs es) (\<lambda>(c', l).
       py_bind (getConnectedCompontents l) (\<lambda>(l', out). Return (c', out)))"

section \<open>The identity mapper\<close>

lemma register_Cons:
  "register c ((h, s) # ps) =
   register (c\<lparr>hash2seq := (hash2seq c)(h \<mapsto> s), seq2hash := (seq2hash c)(s \<mapsto> h)\<rparr>) ps"
  by simp

lemma register_hash2seq:
  "distinct (map fst ps) \<Longrightarrow>
   hash2seq (register c ps) k = (case map_of ps k of None \<Rightarrow> hash2seq c k | Some v \<Rightarrow> Some v)"
proof (induction ps arbitrary: c)
  case Nil
  then show ?case by simp
next
  case (Cons p ps)
  obtain h s where p: "p = (h, s)" by fastforce
  have nh: "map_of ps h = None" using Cons.prems p by (simp add: map_of_eq_None_iff)
  have "hash2seq (register c (p # ps)) k =
      (case map_of ps k of None \<Rightarrow> ((hash2seq c)(h \<mapsto> s)) k | Some v \<Rightarrow> Some v)"
    using Cons.IH Cons.prems p by (simp split: option.split)
  also have "\<dots> = (case map_of (p # ps) k of None \<Rightarrow> hash2seq c k | Some v \<Rightarrow> Some v)"
    using nh p by (cases "k = h") (simp_all split: option.split)
  finally show ?case .
qed

lemma register_seq2hash:
  "distinct (map snd ps) \<Longrightarrow>
   seq2hash (register c ps) k = (case map_of (map (\<lambda>(x, y). (y, x)) ps) k of None \<Rightarrow> seq2hash c k | Some v \<Rightarrow> Some v)"
proof (induction ps arbitrary: c)
  case Nil
  then show ?case by simp
next
  case (Cons p ps)
  obtain h s where p: "p = (h, s)" by fastforce
  have ns: "map_of (map (\<lambda>(x, y). (y, x)) ps) s = None"
    using Cons.prems p by (force simp: map_of_eq_None_iff)
  have "seq2hash (register c (p # ps)) k =
      (case map_of (map (\<lambda>(x, y). (y, x)) ps) k of None \<Rightarrow> ((seq2hash c)(s \<mapsto> h)) k | Some v \<Rightarrow> Some v)"
    using Cons.IH Cons.prems p by (simp split: option.split)
  also have "\<dots> = (case map_of (map (\<lambda>(x, y). (y, x)) (p # ps)) k of None \<Rightarrow> seq2hash c k | Some v \<Rightarrow> Some v)"
    using ns p by (cases "k = s") (simp_all split: option.split)
  finally show ?case .
qed

lemma register_zip:
  assumes "distinct hs" "i < length hs"
  shows "hash2seq (register c (zip hs [0..<length hs])) (hs ! i) = Some i"
    "seq2hash (register c (zip hs [0..<length hs])) i = Some (hs ! i)"
proof -
  have d1: "distinct (map fst (zip hs [0..<length hs]))" using assms(1) by simp
  have d2: "distinct (map snd (zip hs [0..<length hs]))" by simp
  have m1: "map_of (zip hs [0..<length hs]) (hs ! i) = Some i"
    using assms map_of_zip_nth [of hs "[0..<length hs]" i] by simp
  show "hash2seq (register c (zip hs [0..<length hs])) (hs ! i) = Some i"
    using register_hash2seq [OF d1, of c "hs ! i"] m1 by simp
  have "map (\<lambda>(x, y). (y, x)) (zip hs [0..<length hs]) = zip [0..<length hs] hs"
    by (rule zip_commute [symmetric])
  moreover have "map_of (zip [0..<length hs] hs) i = Some (hs ! i)"
    using assms map_of_zip_nth [of "[0..<length hs]" hs i] by simp
  ultimately show "seq2hash (register c (zip hs [0..<length hs])) i = Some (hs ! i)"
    using register_seq2hash [OF d2, of c i] by simp
qed

section \<open>Ingestion\<close>

lemma rename_root_eq:
  "((if x = ra then rb else x) = (if y = ra then rb else y)) \<longleftrightarrow>
   x = y \<or> (x = ra \<and> y = rb) \<or> (x = rb \<and> y = ra)"
  by auto

lemma nodes_Cons: "nodes ((a, b) # es) = insert a (insert b (nodes es))"
  by (auto simp: nodes_def)

text \<open>
  The ingestion loop keeps the invariant that two indices share a root exactly when
  their keys are connected by the edges read so far.
\<close>

lemma ingest_Return:
  assumes c: "\<forall>i<length hs. hash2seq c (hs ! i) = Some i"
    and inv: "uf_invar f" "length f = length hs"
    and part: "\<forall>i<length hs. \<forall>j<length hs.
       rep_of f i = rep_of f j \<longleftrightarrow> (hs ! i, hs ! j) \<in> conn D"
    and es: "nodes es \<subseteq> set hs"
  shows "\<exists>f'. ingest c f es = Return f' \<and> uf_invar f' \<and> length f' = length hs \<and>
    (\<forall>i<length hs. \<forall>j<length hs.
       rep_of f' i = rep_of f' j \<longleftrightarrow> (hs ! i, hs ! j) \<in> conn (D \<union> set es))"
  using inv part es
proof (induction es arbitrary: f D)
  case Nil
  then show ?case by simp
next
  case (Cons e es)
  obtain a b where e: "e = (a, b)" by fastforce
  from Cons.prems(4) e obtain ia ib where ia: "ia < length hs" "hs ! ia = a"
    and ib: "ib < length hs" "hs ! ib = b"
    by (auto simp: nodes_Cons in_set_conv_nth)
  have la: "ia < length f" "ib < length f" using ia ib Cons.prems(2) by simp_all
  obtain f1 where l: "link f ia ib = Return f1"
    using link_Return [OF Cons.prems(1) la] by metis
  note f1 = link_rep_of [OF Cons.prems(1) la l]
  have part1: "\<forall>i<length hs. \<forall>j<length hs.
      rep_of f1 i = rep_of f1 j \<longleftrightarrow> (hs ! i, hs ! j) \<in> conn (insert (a, b) D)"
  proof (intro allI impI)
    fix i j
    assume i: "i < length hs" and j: "j < length hs"
    have "rep_of f1 i = rep_of f1 j \<longleftrightarrow>
        (if rep_of f i = rep_of f ia then rep_of f ib else rep_of f i) =
        (if rep_of f j = rep_of f ia then rep_of f ib else rep_of f j)"
      using f1(3) i j Cons.prems(2) by simp
    also have "\<dots> \<longleftrightarrow>
        rep_of f i = rep_of f j \<or> (rep_of f i = rep_of f ia \<and> rep_of f j = rep_of f ib) \<or>
        (rep_of f i = rep_of f ib \<and> rep_of f j = rep_of f ia)"
      by (rule rename_root_eq)
    also have "\<dots> \<longleftrightarrow> (hs ! i, hs ! j) \<in> conn (insert (a, b) D)"
      using Cons.prems(3) i j ia ib by (simp add: conn_insert)
    finally show "rep_of f1 i = rep_of f1 j \<longleftrightarrow> (hs ! i, hs ! j) \<in> conn (insert (a, b) D)" .
  qed
  have "nodes es \<subseteq> set hs" using Cons.prems(4) e by (auto simp: nodes_Cons)
  from Cons.IH [OF f1(1) _ part1 this] f1(2) Cons.prems(2)
  obtain f' where "ingest c f1 es = Return f'" "uf_invar f'" "length f' = length hs"
    "\<forall>i<length hs. \<forall>j<length hs.
       rep_of f' i = rep_of f' j \<longleftrightarrow> (hs ! i, hs ! j) \<in> conn (insert (a, b) D \<union> set es)"
    by auto
  moreover have "hash2seq c a = Some ia" "hash2seq c b = Some ib"
    using c ia ib by auto
  then have "ingest c f (e # es) = ingest c f1 es"
    using e l by simp
  ultimately show ?case using e by auto
qed

lemma uf_invar_upt: "uf_invar [0..<n]"
  unfolding uf_invar_iff
proof (intro allI impI)
  fix i
  assume "i < length [0..<n]"
  then have "rep_path [0..<n] i i" by (auto intro: rep_path.rp_root)
  then show "\<exists>r. rep_path [0..<n] i r" ..
qed

lemma rep_of_upt: "i < n \<Longrightarrow> rep_of [0..<n] i = i"
  by (simp add: rep_of_eq rep_path.rp_root)

lemma conn_empty [simp]: "conn {} = Id"
  by (simp add: conn_def)

lemma labeler_init_Return:
  assumes hs: "hashes_of es hs"
  obtains f where "labeler_init c hs es =
      Return (register c (zip hs [0..<length hs]), \<lparr>edges = es, hashes = hs,
        numberOfNodes = length hs, forest = f\<rparr>)"
    "uf_invar f" "length f = length hs"
    "\<forall>i<length hs. \<forall>j<length hs. rep_of f i = rep_of f j \<longleftrightarrow> (hs ! i, hs ! j) \<in> conn (set es)"
proof -
  have d: "distinct hs" and n: "nodes es \<subseteq> set hs" using hs by (auto simp: hashes_of_def)
  have c: "\<forall>i<length hs. hash2seq (register c (zip hs [0..<length hs])) (hs ! i) = Some i"
    using register_zip [OF d] by blast
  have part: "\<forall>i<length hs. \<forall>j<length hs.
      rep_of [0..<length hs] i = rep_of [0..<length hs] j \<longleftrightarrow> (hs ! i, hs ! j) \<in> conn {}"
    using d by (simp add: rep_of_upt nth_eq_iff_index_eq)
  from ingest_Return [OF c uf_invar_upt _ part n] show ?thesis
    using that by (auto simp: labeler_init_def Let_def)
qed

lemma getConnectedCompontents_Return:
  assumes "uf_invar (forest l)" "length (forest l) = length (hashes l)"
  obtains f' where "getConnectedCompontents l = Return (l\<lparr>forest := f'\<rparr>, zip (hashes l) f')"
    "length f' = length (hashes l)" "\<forall>i<length (hashes l). f' ! i = rep_of (forest l) i"
proof -
  obtain f' where "simplifyForest (forest l) = Return f'" "length f' = length (forest l)"
    "\<forall>j<length (forest l). f' ! j = rep_of (forest l) j"
    using simplifyForest_Return [OF assms(1)] by metis
  with assms(2) show ?thesis
    using that by (simp add: getConnectedCompontents_def)
qed

lemma set_zip_rows:
  "length ys = length xs \<Longrightarrow> (x, l) \<in> set (zip xs ys) \<longleftrightarrow> (\<exists>i<length xs. x = xs ! i \<and> l = ys ! i)"
  by (auto simp: set_zip)

text \<open>
  The whole run: it returns a table with one row per key in the order \<open>hs\<close>,
  whose labels agree exactly on connected keys and name a key of the same component.
\<close>

lemma connected_components_Return:
  assumes "hashes_of es hs"
  obtains out where "connected_components c hs es = Return (register c (zip hs [0..<length hs]), out)"
    "map fst out = hs"
    "\<forall>(x, l)\<in>set out. \<forall>(y, m)\<in>set out. l = m \<longleftrightarrow> (x, y) \<in> conn (set es)"
    "\<forall>(x, l)\<in>set out. l < length hs \<and> (x, hs ! l) \<in> conn (set es)"
proof -
  obtain f where init: "labeler_init c hs es =
      Return (register c (zip hs [0..<length hs]), \<lparr>edges = es, hashes = hs,
        numberOfNodes = length hs, forest = f\<rparr>)"
    and inv: "uf_invar f" and len: "length f = length hs"
    and part: "\<forall>i<length hs. \<forall>j<length hs.
       rep_of f i = rep_of f j \<longleftrightarrow> (hs ! i, hs ! j) \<in> conn (set es)"
    by (rule labeler_init_Return [OF assms])
  let ?l = "\<lparr>edges = es, hashes = hs, numberOfNodes = length hs, forest = f\<rparr>"
  obtain f' where g: "getConnectedCompontents ?l = Return (?l\<lparr>forest := f'\<rparr>, zip hs f')"
    and len': "length f' = length hs" and ent: "\<forall>i<length hs. f' ! i = rep_of f i"
    using getConnectedCompontents_Return [of ?l] inv len by auto
  have run: "connected_components c hs es =
      Return (register c (zip hs [0..<length hs]), zip hs f')"
    using init g by (simp add: connected_components_def)
  have rows: "(x, l) \<in> set (zip hs f') \<longleftrightarrow> (\<exists>i<length hs. x = hs ! i \<and> l = rep_of f i)" for x l
    using set_zip_rows [OF len'] ent by auto
  have same: "\<forall>(x, l)\<in>set (zip hs f'). \<forall>(y, m)\<in>set (zip hs f'). l = m \<longleftrightarrow> (x, y) \<in> conn (set es)"
    using rows part by fastforce
  have named: "l < length hs \<and> (x, hs ! l) \<in> conn (set es)" if "(x, l) \<in> set (zip hs f')" for x l
  proof -
    from that rows obtain i where i: "i < length hs" "x = hs ! i" "l = rep_of f i" by blast
    have "l < length hs" using rep_of_root [OF inv] i len by (simp add: roots_def)
    moreover have "rep_of f l = rep_of f i" using rep_of_idem [OF inv] i len by simp
    ultimately show ?thesis using part i by (auto intro: conn_sym)
  qed
  show ?thesis
  proof (rule that [OF run])
    show "map fst (zip hs f') = hs" using len' by simp
    show "\<forall>(x, l)\<in>set (zip hs f'). \<forall>(y, m)\<in>set (zip hs f'). l = m \<longleftrightarrow> (x, y) \<in> conn (set es)"
      by (rule same)
    show "\<forall>(x, l)\<in>set (zip hs f'). l < length hs \<and> (x, hs ! l) \<in> conn (set es)"
      using named by blast
  qed
qed


section \<open>Properties of the labeler\<close>

text \<open>
  C1. Correctness of \<^verbatim>\<open>connectedComponentsLabeler(edges).getConnectedCompontents()\<close>:
  for every iteration order \<open>hs\<close> of the set of keys, the run returns (no exception,
  no unbounded recursion) a table with one row per key, in the order of \<open>hs\<close>; two
  rows carry the same \<^verbatim>\<open>cc\<close> exactly when their keys are connected by the edges,
  and each \<^verbatim>\<open>cc\<close> is the index of a key of the same component.
\<close>

theorem connected_components_correct:
  assumes "hashes_of es hs"
  shows "\<exists>c' out. connected_components c hs es = Return (c', out) \<and> map fst out = hs \<and>
    (\<forall>(x, l)\<in>set out. \<forall>(y, m)\<in>set out. l = m \<longleftrightarrow> (x, y) \<in> conn (set es)) \<and>
    (\<forall>(x, l)\<in>set out. l < length hs \<and> (x, hs ! l) \<in> conn (set es))"
proof -
  obtain out where "connected_components c hs es = Return (register c (zip hs [0..<length hs]), out)"
    "map fst out = hs"
    "\<forall>(x, l)\<in>set out. \<forall>(y, m)\<in>set out. l = m \<longleftrightarrow> (x, y) \<in> conn (set es)"
    "\<forall>(x, l)\<in>set out. l < length hs \<and> (x, hs ! l) \<in> conn (set es)"
    by (rule connected_components_Return [OF assms])
  then show ?thesis by (intro exI conjI) assumption+
qed

theorem connected_components_correct_witness:
  "hashes_of [(1, 2), (3, 3 :: nat)] [3, 1, 2 :: nat] \<and>
   (\<exists>c' out. connected_components empty_class [3, 1, 2 :: nat] [(1, 2), (3, 3 :: nat)] = Return (c', out) \<and>
     map fst out = [3, 1, 2 :: nat] \<and>
     (\<forall>(x, l)\<in>set out. \<forall>(y, m)\<in>set out. l = m \<longleftrightarrow> (x, y) \<in> conn (set [(1, 2), (3, 3 :: nat)])) \<and>
     (\<forall>(x, l)\<in>set out. l < length [3, 1, 2 :: nat] \<and> (x, [3, 1, 2 :: nat] ! l) \<in> conn (set [(1, 2), (3, 3 :: nat)])))"
proof -
  have h: "hashes_of [(1, 2), (3, 3 :: nat)] [3, 1, 2 :: nat]"
    by (simp add: hashes_of_def nodes_def insert_commute)
  show ?thesis
    by (rule conjI [OF h connected_components_correct [OF h]])
qed
text \<open>
  C5. Order invariance: the partition computed by the labeler depends only on the set of
  proper edges. Two edge lists over the same keys that differ by order, by repeated
  edges or by self-loops give, for the same iteration order of the keys, tables whose
  rows share a label exactly at the same pairs of rows.
\<close>

theorem connected_components_order_invariant:
  assumes "hashes_of es1 hs" "hashes_of es2 hs" "set es1 - Id = set es2 - Id"
  shows "\<exists>c1 out1 c2 out2. connected_components c hs es1 = Return (c1, out1) \<and>
    connected_components c hs es2 = Return (c2, out2) \<and> map fst out1 = map fst out2 \<and>
    (\<forall>i<length hs. \<forall>j<length hs.
       (snd (out1 ! i) = snd (out1 ! j)) = (snd (out2 ! i) = snd (out2 ! j)))"
proof -
  obtain out1 where r1: "connected_components c hs es1 = Return (register c (zip hs [0..<length hs]), out1)"
    and f1: "map fst out1 = hs"
    and p1: "\<forall>(x, l)\<in>set out1. \<forall>(y, m)\<in>set out1. l = m \<longleftrightarrow> (x, y) \<in> conn (set es1)"
    by (rule connected_components_Return [OF assms(1)])
  obtain out2 where r2: "connected_components c hs es2 = Return (register c (zip hs [0..<length hs]), out2)"
    and f2: "map fst out2 = hs"
    and p2: "\<forall>(x, l)\<in>set out2. \<forall>(y, m)\<in>set out2. l = m \<longleftrightarrow> (x, y) \<in> conn (set es2)"
    by (rule connected_components_Return [OF assms(2)])
  have c: "conn (set es1) = conn (set es2)"
    using assms(3) conn_diff_Id by metis
  have rows: "(snd (out ! i) = snd (out ! j)) = ((hs ! i, hs ! j) \<in> conn E)"
    if "map fst out = hs" "\<forall>(x, l)\<in>set out. \<forall>(y, m)\<in>set out. l = m \<longleftrightarrow> (x, y) \<in> conn E"
      "i < length hs" "j < length hs" for out E i j
  proof -
    have "out ! i \<in> set out" "out ! j \<in> set out" "fst (out ! i) = hs ! i" "fst (out ! j) = hs ! j"
      using that(1,3,4) by (auto simp flip: that(1))
    with that(2) show ?thesis by (cases "out ! i", cases "out ! j") fastforce
  qed
  have "\<forall>i<length hs. \<forall>j<length hs.
      (snd (out1 ! i) = snd (out1 ! j)) = (snd (out2 ! i) = snd (out2 ! j))"
    using rows [OF f1 p1] rows [OF f2 p2] c by simp
  with r1 r2 f1 f2 show ?thesis by auto
qed

theorem connected_components_order_invariant_witness:
  "hashes_of [(1, 2), (2, 3 :: nat)] [1, 2, 3] \<and>
   hashes_of [(2, 3), (1, 2), (2, 2), (1, 2 :: nat)] [1, 2, 3] \<and>
   set [(1, 2), (2, 3 :: nat)] - Id = set [(2, 3), (1, 2), (2, 2), (1, 2 :: nat)] - Id"
proof -
  have h1: "hashes_of [(1, 2), (2, 3 :: nat)] [1, 2, 3]"
    by (simp add: hashes_of_def nodes_def insert_commute)
  have h2: "hashes_of [(2, 3), (1, 2), (2, 2), (1, 2 :: nat)] [1, 2, 3]"
    by (simp add: hashes_of_def nodes_def insert_commute)
  have d: "set [(1, 2), (2, 3 :: nat)] - Id = set [(2, 3), (1, 2), (2, 2), (1, 2 :: nat)] - Id"
    by auto
  from connected_components_order_invariant [OF h1 h2 d, of empty_class]
  show ?thesis using h1 h2 d by simp
qed

end
