(* ===== verification/Scenarios.thy ===== *)
theory Scenarios
  imports Labeler
begin

text \<open>
  The scenarios of the specification (section 8) run through the labeler of
  \<^verbatim>\<open>src/graph.py\<close>: the empty edge list, a single self-loop, a repeated edge, and
  the chain \<open>(1,2), (2,3), ..., (n-1,n)\<close>. For the chain the keys are the integers
  \<open>1..n\<close>, which CPython's \<^verbatim>\<open>set\<close> iterates in increasing order, so
  \<open>hs = [1..<n+1]\<close> and key \<open>i\<close> gets index \<open>i - 1\<close>.
\<close>

definition chain :: "nat \<Rightarrow> (nat \<times> nat) list" where
  "chain n = map (\<lambda>i. (i, Suc i)) [1..<n]"

text \<open>The forest after the first \<open>k\<close> edges of the chain: a path \<open>0 \<rightarrow> 1 \<rightarrow> ... \<rightarrow> k\<close>.\<close>

definition path_forest :: "nat \<Rightarrow> nat \<Rightarrow> nat list" where
  "path_forest n k = map (\<lambda>i. if i < k then Suc i else i) [0..<n]"

section \<open>Lemmas\<close>

lemma path_forest_0: "path_forest n 0 = [0..<n]"
  by (simp add: path_forest_def map_idI)

lemma map_of_zip_shift:
  assumes "i \<in> {1..<Suc n}"
  shows "map_of (zip [1..<Suc n] [0..<n]) i = Some (i - 1)"
proof -
  have "map_of (zip [1..<Suc n] [0..<n]) ([1..<Suc n] ! (i - 1)) = Some ([0..<n] ! (i - 1))"
    by (rule map_of_zip_nth) (use assms in auto)
  moreover have "[1..<Suc n] ! (i - 1) = i" by (subst nth_upt) (use assms in auto)
  moreover have "[0..<n] ! (i - 1) = i - 1" by (subst nth_upt) (use assms in auto)
  ultimately show ?thesis by (simp only:)
qed

lemma chain_hash2seq:
  assumes "i \<in> {1..<Suc n}"
  shows "hash2seq (register c (zip [1..<Suc n] [0..<n])) i = Some (i - 1)"
proof -
  have "distinct (map fst (zip [1..<Suc n] [0..<n]))" by simp
  then show ?thesis using map_of_zip_shift [OF assms] by (simp add: register_hash2seq del: upt_Suc)
qed

lemma link_path_forest:
  assumes "Suc k < n"
  shows "link (path_forest n k) k (Suc k) = Return (path_forest n (Suc k))"
proof -
  have r1: "connectedComponentIdentifier (path_forest n k) k = Return (path_forest n k, k)"
    using assms by (subst connectedComponentIdentifier.simps) (simp add: path_forest_def)
  have r2: "connectedComponentIdentifier (path_forest n k) (Suc k) = Return (path_forest n k, Suc k)"
    using assms by (subst connectedComponentIdentifier.simps) (simp add: path_forest_def)
  have "(path_forest n k)[k := Suc k] = path_forest n (Suc k)"
    using assms by (auto simp: path_forest_def list_eq_iff_nth_eq nth_list_update)
  then show ?thesis using r1 r2 assms by (simp add: link_def path_forest_def)
qed

lemma chain_ingest:
  assumes "k < n"
  shows "ingest (register c (zip [1..<Suc n] [0..<n])) (path_forest n k) (map (\<lambda>i. (i, Suc i)) [Suc k..<n]) =
    Return (path_forest n (n - 1))"
  using assms
proof (induction "n - Suc k" arbitrary: k)
  case 0
  then have "n = Suc k" by simp
  then show ?case by simp
next
  case (Suc m)
  then have k: "Suc k < n" by simp
  have ups: "[Suc k..<n] = Suc k # [Suc (Suc k)..<n]" using k by (simp add: upt_conv_Cons)
  have h1: "hash2seq (register c (zip [1..<Suc n] [0..<n])) (Suc k) = Some k"
    using chain_hash2seq [of "Suc k" n c] k by simp
  have h2: "hash2seq (register c (zip [1..<Suc n] [0..<n])) (Suc (Suc k)) = Some (Suc k)"
    using chain_hash2seq [of "Suc (Suc k)" n c] k by simp
  have "m = n - Suc (Suc k)" using Suc.hyps(2) by simp
  then have "ingest (register c (zip [1..<Suc n] [0..<n])) (path_forest n (Suc k))
      (map (\<lambda>i. (i, Suc i)) [Suc (Suc k)..<n]) = Return (path_forest n (n - 1))"
    using Suc.hyps(1) k by blast
  then show ?case using ups h1 h2 link_path_forest [OF k] by simp
qed

lemma funpow_path_forest:
  "k < n \<Longrightarrow> ((\<lambda>i. path_forest n (n - 1) ! i) ^^ k) 0 = k"
  by (induction k) (auto simp: path_forest_def)

lemma two_orders:
  assumes "hashes_of [(a, b)] hs" "a \<noteq> b"
  shows "hs = [a, b] \<or> hs = [b, a]"
proof -
  have d: "distinct hs" and s: "set hs = {a, b}" using assms(1) by (auto simp: hashes_of_def nodes_def)
  then have "length hs = 2" using assms(2) by (metis distinct_card card_2_iff)
  then obtain x y where "hs = [x, y]" by (auto simp: length_Suc_conv numeral_2_eq_2)
  then show ?thesis using d s by auto
qed

section \<open>Properties\<close>

text \<open>
  C22. Scenario 4 of the specification, the chain \<open>(1,2), (2,3), ..., (n-1,n)\<close>: the
  labeler returns from \<^verbatim>\<open>__init__\<close>, and because \<^verbatim>\<open>link\<close> always hangs the
  first root under the second, its forest is then the single path
  \<open>0 \<rightarrow> 1 \<rightarrow> ... \<rightarrow> n-1\<close>: node 0 is \<open>n - 1\<close> parent links below its root, so
  the first call \<^verbatim>\<open>connectedComponentIdentifier(0)\<close> of \<^verbatim>\<open>simplifyForest\<close>
  recurses \<open>n\<close> levels deep before any compression (1000 levels for the
  specification's 1000-key chain, CPython's default recursion limit).
\<close>

theorem chain_forest_depth:
  assumes "1 < n"
  shows "\<exists>c' l. labeler_init c [1..<Suc n] (chain n) = Return (c', l) \<and>
    forest l = path_forest n (n - 1) \<and>
    (\<forall>k<n. ((\<lambda>i. forest l ! i) ^^ k) 0 = k) \<and> forest l ! (n - 1) = n - 1"
proof -
  have "ingest (register c (zip [1..<Suc n] [0..<n])) (path_forest n 0) (map (\<lambda>i. (i, Suc i)) [Suc 0..<n]) =
      Return (path_forest n (n - 1))"
    using chain_ingest [of 0 n c] assms by simp
  then have run: "labeler_init c [1..<Suc n] (chain n) =
      Return (register c (zip [1..<Suc n] [0..<n]),
        \<lparr>edges = chain n, hashes = [1..<Suc n], numberOfNodes = n, forest = path_forest n (n - 1)\<rparr>)"
    by (simp add: labeler_init_def chain_def path_forest_0 del: upt_Suc)
  have "path_forest n (n - 1) ! (n - 1) = n - 1" using assms by (simp add: path_forest_def)
  then show ?thesis using run funpow_path_forest by auto
qed



theorem chain_forest_depth_witness:
  "1 < (1000::nat) \<and>
   (\<exists>c' l. labeler_init (empty_class :: nat labeler_class) [1..<Suc 1000] (chain 1000) = Return (c', l) \<and>
     forest l = path_forest 1000 (1000 - 1) \<and>
     (\<forall>k<1000. ((\<lambda>i. forest l ! i) ^^ k) 0 = k) \<and> forest l ! (1000 - 1) = 1000 - 1)"
proof -
  have h: "1 < (1000::nat)" by simp
  show ?thesis using h chain_forest_depth [OF h, of empty_class] by blast
qed


end
