(* ===== verification/RowQueries.thy ===== *)
theory RowQueries
  imports Transform
begin

text \<open>
  Rowids and the methods that read them: \<^verbatim>\<open>Geodatabase.getTableHead\<close> and
  \<^verbatim>\<open>Geodatabase.pointInPolygon\<close>, with the statements the unit tests send
  through \<^verbatim>\<open>execute\<close> (\<^verbatim>\<open>CREATE TABLE\<close>, \<^verbatim>\<open>INSERT\<close>, a one-column
  \<^verbatim>\<open>SELECT\<close>). A table whose single primary-key column is declared
  \<^verbatim>\<open>INTEGER\<close> stores its rowid in that column; any other table numbers its rows
  1, 2, ... in insertion order. The model keeps the rows of a table in rowid order,
  which holds because the program and its tests insert without explicit keys and
  never delete single rows.
\<close>

section \<open>Rowids\<close>

text \<open>The column that aliases the rowid: the only primary-key column, if its type is \<^verbatim>\<open>INTEGER\<close>.\<close>

definition rowid_alias :: "table \<Rightarrow> nat option" where
  "rowid_alias tb =
     (if length (filter (\<lambda>c. col_pk c \<noteq> 0) (tbl_cols tb)) = 1
      then find (\<lambda>i. col_pk (tbl_cols tb ! i) \<noteq> 0 \<and> map ascii_upper (col_type (tbl_cols tb ! i)) = ''INTEGER'')
             [0..<length (tbl_cols tb)]
      else None)"

definition rowids :: "table \<Rightarrow> sqlval list" where
  "rowids tb = (case rowid_alias tb of
       Some i \<Rightarrow> map (\<lambda>row. row ! i) (tbl_rows tb)
     | None \<Rightarrow> map (\<lambda>k. SqlInt (int k)) [1..<Suc (length (tbl_rows tb))])"

text \<open>
  The name SQLite gives to the result column \<^verbatim>\<open>rowid\<close> of a \<^verbatim>\<open>SELECT\<close>: the name
  of the aliasing column when there is one.
\<close>

definition rowid_label :: "table \<Rightarrow> string" where
  "rowid_label tb = (case rowid_alias tb of Some i \<Rightarrow> col_name (tbl_cols tb ! i) | None \<Rightarrow> ''rowid'')"

text \<open>The rowid of a new row: one more than the largest, 1 in an empty table.\<close>

definition next_rowid :: "table \<Rightarrow> int" where
  "next_rowid tb = (let ns = [n. SqlInt n \<leftarrow> rowids tb] in if ns = [] then 1 else Max (set ns) + 1)"

section \<open>Statements of the tests\<close>

text \<open>\<^verbatim>\<open>CREATE TABLE t (...)\<close>, refused when the name exists in any case.\<close>

definition create_table :: "db \<Rightarrow> string \<Rightarrow> column list \<Rightarrow> db py" where
  "create_table d t cols = add_table d t \<lparr>tbl_kind = ''table'', tbl_cols = cols, tbl_rows = []\<rparr>"

definition update_table :: "db \<Rightarrow> string \<Rightarrow> table \<Rightarrow> db" where
  "update_table d t tb = d\<lparr>db_tables := map (\<lambda>(n, x). if same_name n t then (n, tb) else (n, x)) (db_tables d)\<rparr>"

text \<open>
  The row \<^verbatim>\<open>INSERT INTO t (names) VALUES (vals)\<close> adds: the named columns take
  the values, the rowid alias the next rowid, every other column its default.
\<close>

definition new_row :: "table \<Rightarrow> string list \<Rightarrow> sqlval list \<Rightarrow> sqlval list" where
  "new_row tb names vals =
     map (\<lambda>i. case find (\<lambda>k. same_name (names ! k) (col_name (tbl_cols tb ! i))) [0..<length names] of
                Some k \<Rightarrow> vals ! k
              | None \<Rightarrow> if rowid_alias tb = Some i then SqlInt (next_rowid tb) else col_default (tbl_cols tb ! i))
       [0..<length (tbl_cols tb)]"

definition insert_into :: "db \<Rightarrow> string \<Rightarrow> string list \<Rightarrow> sqlval list \<Rightarrow> db py" where
  "insert_into d t names vals =
     (case lookup_table d t of
        None \<Rightarrow> no_such (''table: '' @ t)
      | Some tb \<Rightarrow>
          if \<not> list_all (\<lambda>n. column_index tb n \<noteq> None) names
          then Raise (OperationalError (''table '' @ t @ '' has no column named''))
          else if length names \<noteq> length vals
          then Raise (OperationalError ''values for columns'')
          else Return (update_table d t (tb\<lparr>tbl_rows := tbl_rows tb @ [new_row tb names vals]\<rparr>)))"

text \<open>\<^verbatim>\<open>SELECT c FROM t\<close>, fetched with \<^verbatim>\<open>fetchall()\<close>.\<close>

definition select_column :: "db \<Rightarrow> string \<Rightarrow> string \<Rightarrow> sqlval list py" where
  "select_column d t c =
     (case lookup_table d t of
        None \<Rightarrow> no_such (''table: '' @ t)
      | Some tb \<Rightarrow> (case column_values tb c of None \<Rightarrow> no_such (''column: '' @ c) | Some vs \<Rightarrow> Return vs))"

section \<open>getTableHead\<close>

text \<open>A pandas frame: its index, its column labels and its rows.\<close>

record frame =
  fr_index :: "sqlval list"
  fr_columns :: "string list"
  fr_rows :: "sqlval list list"

definition drop_nth :: "nat \<Rightarrow> 'a list \<Rightarrow> 'a list" where
  "drop_nth p xs = take p xs @ drop (Suc p) xs"

text \<open>
  \<^verbatim>\<open>pd.read_sql(f'select rowid, * from {table} limit 10', self.database,
  index_col="rowid")\<close>: the first ten rows in rowid order, each preceded by its
  rowid; pandas moves the first column labelled \<^verbatim>\<open>rowid\<close> to the index, and
  \<^verbatim>\<open>set_index\<close> raises KeyError when no column has that label. A failing query is
  re-raised by pandas as \<^verbatim>\<open>DatabaseError\<close>.
\<close>

definition getTableHead :: "db \<Rightarrow> string \<Rightarrow> frame py" where
  "getTableHead d t =
     (case lookup_table d t of
        None \<Rightarrow> Raise (DatabaseError (''no such table: '' @ t))
      | Some tb \<Rightarrow>
          (let header = rowid_label tb # map col_name (tbl_cols tb);
               rows = take 10 (map2 (#) (rowids tb) (tbl_rows tb))
           in case find (\<lambda>p. header ! p = ''rowid'') [0..<length header] of
                None \<Rightarrow> Raise KeyError
              | Some p \<Rightarrow> Return \<lparr>fr_index = map (\<lambda>r. r ! p) rows, fr_columns = drop_nth p header,
                                   fr_rows = map (drop_nth p) rows\<rparr>))"

section \<open>pointInPolygon\<close>

text \<open>
  The SpatiaLite functions the spatial join calls, as an extension of the interface
  \<open>engine\<close>: \<^verbatim>\<open>ST_Within(a, b)\<close> (1, 0, or -1 on invalid input, NULL on NULL) and
  the virtual table \<^verbatim>\<open>spatialIndex\<close>, which returns the rowids the R-tree of the
  table named by \<^verbatim>\<open>f_table_name\<close> finds for a search frame.
\<close>

record spatial_engine = engine +
  st_within :: "sqlval \<Rightarrow> sqlval \<Rightarrow> int option"
  spatial_index_rowids :: "db \<Rightarrow> string \<Rightarrow> sqlval \<Rightarrow> sqlval list"

text \<open>
  The rows of the join: a pair of rowids for each point and polygon with
  \<^verbatim>\<open>st_within(pt.geometry, pg.geometry)\<close> true and the point's rowid among those
  the R-tree returns for the polygon. SQLite's planner picks the order of the rows;
  the theorems speak of the set of rows.
\<close>

definition within_pairs ::
  "spatial_engine \<Rightarrow> db \<Rightarrow> string \<Rightarrow> (sqlval \<times> sqlval) list \<Rightarrow> (sqlval \<times> sqlval) list \<Rightarrow> sqlval list list" where
  "within_pairs e d points pts pgs =
     [[i, j]. (i, p) \<leftarrow> pts, (j, q) \<leftarrow> pgs,
        truthy (st_within e p q) \<and> i \<in> set (spatial_index_rowids e d (''DB='' @ points) q)]"

definition within_table :: "sqlval list list \<Rightarrow> table" where
  "within_table rows = \<lparr>tbl_kind = ''table'',
     tbl_cols = [plain_column ''rowid_point'' ''INT'', plain_column ''rowid_polygon'' ''INT''], tbl_rows = rows\<rparr>"

text \<open>
  \<^verbatim>\<open>pointInPolygon(points, polygons, outputTable)\<close>: one
  \<^verbatim>\<open>CREATE TABLE ... AS SELECT\<close>. SQLite refuses an existing output name first,
  then unknown tables, then an unknown \<^verbatim>\<open>geometry\<close> column.
\<close>

definition pointInPolygon :: "spatial_engine \<Rightarrow> gdb \<Rightarrow> string \<Rightarrow> string \<Rightarrow> string \<Rightarrow> gdb py" where
  "pointInPolygon e g points polygons outputTable =
     (let d = database g in
      if table_exists_sql d outputTable
      then Raise (OperationalError (''table '' @ outputTable @ '' already exists''))
      else case (lookup_table d points, lookup_table d polygons) of
        (Some pt, Some pg) \<Rightarrow>
          (case (column_values pt ''geometry'', column_values pg ''geometry'') of
             (Some ptg, Some pgg) \<Rightarrow>
               Return (g\<lparr>database := d\<lparr>db_tables := db_tables d @ [(outputTable,
                 within_table (within_pairs e d points (zip (rowids pt) ptg) (zip (rowids pg) pgg)))]\<rparr>\<rparr>)
           | _ \<Rightarrow> no_such ''column: geometry'')
      | _ \<Rightarrow> no_such ''table'')"

section \<open>Well-typed tables\<close>

text \<open>Every row of a table has one value per column.\<close>

definition table_typed :: "table \<Rightarrow> bool" where
  "table_typed tb \<longleftrightarrow> list_all (\<lambda>r. length r = length (tbl_cols tb)) (tbl_rows tb)"

definition db_typed :: "db \<Rightarrow> bool" where
  "db_typed d \<longleftrightarrow> list_all (\<lambda>(n, tb). table_typed tb) (db_tables d)"

section \<open>Example data\<close>

text \<open>
  A concrete spatial engine and two small tables for the examples below: points and
  polygons are integers, a point \<open>x\<close> lies within the polygon \<open>x div 10\<close>, and the
  R-tree returns every rowid of the two points.
\<close>

definition demo_spatial_engine :: spatial_engine where
  "demo_spatial_engine = engine.extend inert_engine (spatial_engine.fields
     (\<lambda>p q. case (p, q) of (SqlInt x, SqlInt y) \<Rightarrow> Some (if x div 10 = y then 1 else 0) | _ \<Rightarrow> None)
     (\<lambda>d n q. [SqlInt 1, SqlInt 2]))"

definition demo_points :: table where
  "demo_points = \<lparr>tbl_kind = ''table'', tbl_cols = [plain_column ''geometry'' ''POINT''],
     tbl_rows = [[SqlInt 3], [SqlInt 15]]\<rparr>"

definition demo_polygons :: table where
  "demo_polygons = \<lparr>tbl_kind = ''table'', tbl_cols = [plain_column ''name'' ''TEXT'', plain_column ''geometry'' ''POLYGON''],
     tbl_rows = [[SqlText ''A'', SqlInt 0], [SqlText ''B'', SqlInt 1]]\<rparr>"

definition demo_join_gdb :: gdb where
  "demo_join_gdb = \<lparr>database = \<lparr>db_tables = [(''pts'', demo_points), (''pgs'', demo_polygons)],
     geometry_columns = []\<rparr>, srid = 31370\<rparr>"

section \<open>Lemmas\<close>

lemma lookup_table_mem: "lookup_table d t = Some tb \<Longrightarrow> \<exists>n. (n, tb) \<in> set (db_tables d)"
  by (auto simp: lookup_table_def dest!: find_Some_mem)

lemma table_exists_sql_fresh:
  "\<not> table_exists_sql d t \<Longrightarrow> \<forall>(n, tb)\<in>set (db_tables d). \<not> same_name n t"
  by (auto simp: table_exists_sql_def list_ex_iff)

lemma length_rowids [simp]: "length (rowids tb) = length (tbl_rows tb)"
  by (simp add: rowids_def del: upt_Suc split: option.split)

lemma column_values_length: "column_values tb c = Some vs \<Longrightarrow> length vs = length (tbl_rows tb)"
  by (auto simp: column_values_def split: option.splits)

lemma within_pairs_zip:
  assumes "length is = length ps" "length js = length qs"
  shows "set (within_pairs e d points (zip is ps) (zip js qs)) =
    {[is ! k, js ! l] | k l. k < length ps \<and> l < length qs \<and> truthy (st_within e (ps ! k) (qs ! l)) \<and>
       is ! k \<in> set (spatial_index_rowids e d (''DB='' @ points) (qs ! l))}"
  using assms by (auto simp: within_pairs_def set_zip) blast+

lemma pointInPolygon_Return:
  assumes "pointInPolygon e g points polygons out = Return g'"
  obtains pt pg ptg pgg where "\<not> table_exists_sql (database g) out"
    "lookup_table (database g) points = Some pt" "lookup_table (database g) polygons = Some pg"
    "column_values pt ''geometry'' = Some ptg" "column_values pg ''geometry'' = Some pgg"
    "g' = g\<lparr>database := (database g)\<lparr>db_tables := db_tables (database g) @ [(out,
       within_table (within_pairs e (database g) points (zip (rowids pt) ptg) (zip (rowids pg) pgg)))]\<rparr>\<rparr>"
  using assms
  by (auto simp: pointInPolygon_def no_such_def Let_def split: if_splits option.splits prod.splits intro: that)

lemma pointInPolygon_table:
  assumes "pointInPolygon e g points polygons out = Return g'"
  obtains pt pg ptg pgg where
    "lookup_table (database g) points = Some pt" "lookup_table (database g) polygons = Some pg"
    "column_values pt ''geometry'' = Some ptg" "column_values pg ''geometry'' = Some pgg"
    "lookup_table (database g') out =
       Some (within_table (within_pairs e (database g) points (zip (rowids pt) ptg) (zip (rowids pg) pgg)))"
    "length ptg = length (tbl_rows pt)" "length pgg = length (tbl_rows pg)"
proof -
  obtain pt pg ptg pgg where nt: "\<not> table_exists_sql (database g) out"
    and l1: "lookup_table (database g) points = Some pt" and l2: "lookup_table (database g) polygons = Some pg"
    and c1: "column_values pt ''geometry'' = Some ptg" and c2: "column_values pg ''geometry'' = Some pgg"
    and g': "g' = g\<lparr>database := (database g)\<lparr>db_tables := db_tables (database g) @ [(out,
       within_table (within_pairs e (database g) points (zip (rowids pt) ptg) (zip (rowids pg) pgg)))]\<rparr>\<rparr>"
    by (rule pointInPolygon_Return [OF assms])
  have "lookup_table (database g') out =
       Some (within_table (within_pairs e (database g) points (zip (rowids pt) ptg) (zip (rowids pg) pgg)))"
    unfolding g' using lookup_table_fresh [OF table_exists_sql_fresh [OF nt]] by simp
  then show ?thesis
    using that l1 l2 c1 c2 column_values_length [OF c1] column_values_length [OF c2] by blast
qed

lemma db_typed_append [simp]:
  "db_typed (d\<lparr>db_tables := db_tables d @ [(t, tb)]\<rparr>) \<longleftrightarrow> db_typed d \<and> table_typed tb"
  by (simp add: db_typed_def)

lemma db_typed_lookup: "db_typed d \<Longrightarrow> lookup_table d t = Some tb \<Longrightarrow> table_typed tb"
  by (auto simp: db_typed_def list_all_iff dest!: lookup_table_mem)

lemma db_typed_update: "db_typed d \<Longrightarrow> table_typed tb \<Longrightarrow> db_typed (update_table d t tb)"
  by (auto simp: db_typed_def update_table_def list_all_iff split: if_splits)

lemma create_table_typed: "db_typed d \<Longrightarrow> create_table d t cols = Return d' \<Longrightarrow> db_typed d'"
  by (auto simp: create_table_def add_table_def table_typed_def split: if_splits)

lemma insert_into_typed: "db_typed d \<Longrightarrow> insert_into d t names vals = Return d' \<Longrightarrow> db_typed d'"
  by (auto simp: insert_into_def no_such_def table_typed_def new_row_def
      intro!: db_typed_update dest: db_typed_lookup split: option.splits if_splits)

lemma create_transformed_typed:
  "db_typed d \<Longrightarrow> create_transformed e d out inp l s = Return d' \<Longrightarrow> db_typed d'"
  by (auto simp: create_transformed_def no_such_def table_typed_def list_all_iff
      split: option.splits prod.splits if_splits)

lemma pointInPolygon_typed:
  "db_typed (database g) \<Longrightarrow> pointInPolygon e g points polygons out = Return g' \<Longrightarrow> db_typed (database g')"
  by (erule pointInPolygon_Return) (auto simp: within_table_def within_pairs_def table_typed_def list_all_iff)

lemma map_nth0_map2_Cons: "length xs = length ys \<Longrightarrow> map (\<lambda>r. r ! 0) (map2 (#) xs ys) = xs"
  by (induction xs ys rule: list_induct2) simp_all

lemma map_drop_nth0_map2_Cons: "length xs = length ys \<Longrightarrow> map (drop_nth 0) (map2 (#) xs ys) = ys"
  by (induction xs ys rule: list_induct2) (simp_all add: drop_nth_def)

section \<open>Properties\<close>

text \<open>
  C27. Every row \<^verbatim>\<open>pointInPolygon\<close> writes pairs a point with a polygon that
  contains it: whatever SpatiaLite's R-tree returns, the output table has the columns
  \<^verbatim>\<open>rowid_point\<close>, \<^verbatim>\<open>rowid_polygon\<close>, and each row holds the rowids of a point
  and a polygon for which \<^verbatim>\<open>st_within\<close> is true.
\<close>

theorem pointInPolygon_sound:
  assumes "pointInPolygon e g points polygons out = Return g'"
  shows "\<exists>pt pg ptg pgg tb. lookup_table (database g) points = Some pt \<and>
    lookup_table (database g) polygons = Some pg \<and>
    column_values pt ''geometry'' = Some ptg \<and> column_values pg ''geometry'' = Some pgg \<and>
    lookup_table (database g') out = Some tb \<and>
    map col_name (tbl_cols tb) = [''rowid_point'', ''rowid_polygon''] \<and>
    (\<forall>r\<in>set (tbl_rows tb). \<exists>k l. k < length (tbl_rows pt) \<and> l < length (tbl_rows pg) \<and>
       r = [rowids pt ! k, rowids pg ! l] \<and> truthy (st_within e (ptg ! k) (pgg ! l)))"
proof -
  obtain pt pg ptg pgg where l1: "lookup_table (database g) points = Some pt"
    and l2: "lookup_table (database g) polygons = Some pg"
    and c1: "column_values pt ''geometry'' = Some ptg" and c2: "column_values pg ''geometry'' = Some pgg"
    and lk: "lookup_table (database g') out =
       Some (within_table (within_pairs e (database g) points (zip (rowids pt) ptg) (zip (rowids pg) pgg)))"
    and n1: "length ptg = length (tbl_rows pt)" and n2: "length pgg = length (tbl_rows pg)"
    by (rule pointInPolygon_table [OF assms])
  let ?tb = "within_table (within_pairs e (database g) points (zip (rowids pt) ptg) (zip (rowids pg) pgg))"
  have rows: "set (tbl_rows ?tb) =
    {[rowids pt ! k, rowids pg ! l] | k l. k < length ptg \<and> l < length pgg \<and>
       truthy (st_within e (ptg ! k) (pgg ! l)) \<and>
       rowids pt ! k \<in> set (spatial_index_rowids e (database g) (''DB='' @ points) (pgg ! l))}"
    unfolding within_table_def using n1 n2 by (simp add: within_pairs_zip)
  have all: "\<forall>r\<in>set (tbl_rows ?tb). \<exists>k l. k < length (tbl_rows pt) \<and> l < length (tbl_rows pg) \<and>
       r = [rowids pt ! k, rowids pg ! l] \<and> truthy (st_within e (ptg ! k) (pgg ! l))"
  proof
    fix r assume "r \<in> set (tbl_rows ?tb)"
    then obtain k l where "r = [rowids pt ! k, rowids pg ! l]" "k < length ptg" "l < length pgg"
      "truthy (st_within e (ptg ! k) (pgg ! l))"
      unfolding rows by auto
    then show "\<exists>k l. k < length (tbl_rows pt) \<and> l < length (tbl_rows pg) \<and>
       r = [rowids pt ! k, rowids pg ! l] \<and> truthy (st_within e (ptg ! k) (pgg ! l))"
      using n1 n2 by auto
  qed
  have cols: "map col_name (tbl_cols ?tb) = [''rowid_point'', ''rowid_polygon'']"
    by (simp add: within_table_def plain_column_def)
  show ?thesis
    by (rule exI [where x = pt], rule exI [where x = pg], rule exI [where x = ptg], rule exI [where x = pgg],
        rule exI [where x = ?tb]) (intro conjI l1 l2 c1 c2 lk cols all)
qed



text \<open>
  C30. \<^verbatim>\<open>getTableHead\<close> raises KeyError on every table with an
  \<^verbatim>\<open>INTEGER PRIMARY KEY\<close> column when no column is named \<^verbatim>\<open>rowid\<close>: SQLite
  labels the selected \<^verbatim>\<open>rowid\<close> with the name of its alias column, so
  \<^verbatim>\<open>index_col="rowid"\<close> names no column of the result.
\<close>

theorem getTableHead_integer_pk:
  assumes "lookup_table d t = Some tb" "rowid_alias tb = Some i"
    "''rowid'' \<notin> set (map col_name (tbl_cols tb))"
  shows "getTableHead d t = Raise KeyError"
proof -
  let ?header = "rowid_label tb # map col_name (tbl_cols tb)"
  have "i < length (tbl_cols tb)"
    using assms(2) by (auto simp: rowid_alias_def split: if_splits dest!: find_Some_mem)
  then have "rowid_label tb \<in> set (map col_name (tbl_cols tb))"
    using assms(2) by (simp add: rowid_label_def)
  then have "''rowid'' \<notin> set ?header" using assms(3) by auto
  then have "\<forall>p<length ?header. ?header ! p \<noteq> ''rowid''" by (metis nth_mem)
  then have "find (\<lambda>p. ?header ! p = ''rowid'') [0..<length ?header] = None"
    by (simp add: find_None_iff del: upt_Suc)
  then show ?thesis using assms(1) by (simp add: getTableHead_def Let_def del: upt_Suc)
qed

text \<open>
  C31. On a table without rowid alias and without a column named \<^verbatim>\<open>rowid\<close>,
  \<^verbatim>\<open>getTableHead\<close> returns at most ten rows: the first \<open>min 10 n\<close> rows of the
  table, indexed by the rowids \<open>1 .. min 10 n\<close>, under the table's column names.
\<close>

theorem getTableHead_plain:
  assumes "lookup_table d t = Some tb" "rowid_alias tb = None"
    "''rowid'' \<notin> set (map col_name (tbl_cols tb))"
  shows "getTableHead d t = Return \<lparr>fr_index = map (\<lambda>k. SqlInt (int k)) [1..<Suc (min 10 (length (tbl_rows tb)))],
    fr_columns = map col_name (tbl_cols tb), fr_rows = take 10 (tbl_rows tb)\<rparr>"
proof -
  let ?ids = "map (\<lambda>k. SqlInt (int k)) [1..<Suc (length (tbl_rows tb))]"
  have ids: "rowids tb = ?ids" using assms(2) by (simp add: rowids_def del: upt_Suc)
  have lab: "rowid_label tb = ''rowid''" using assms(2) by (simp add: rowid_label_def)
  have len: "length (take 10 ?ids) = length (take 10 (tbl_rows tb))" by (simp del: upt_Suc)
  have tk: "take 10 (map2 (#) ?ids (tbl_rows tb)) = map2 (#) (take 10 ?ids) (take 10 (tbl_rows tb))"
    by (simp add: take_map take_zip del: upt_Suc)
  have "take 10 ?ids = map (\<lambda>k. SqlInt (int k)) [1..<Suc (min 10 (length (tbl_rows tb)))]"
    by (cases "length (tbl_rows tb) \<le> 10") (simp_all add: take_map take_upt min_def del: upt_Suc)
  then have idx: "map (\<lambda>r. r ! 0) (take 10 (map2 (#) ?ids (tbl_rows tb))) =
      map (\<lambda>k. SqlInt (int k)) [1..<Suc (min 10 (length (tbl_rows tb)))]"
    unfolding tk map_nth0_map2_Cons [OF len] .
  have rows: "map (drop_nth 0) (take 10 (map2 (#) ?ids (tbl_rows tb))) = take 10 (tbl_rows tb)"
    unfolding tk map_drop_nth0_map2_Cons [OF len] ..
  have "find (\<lambda>p. (''rowid'' # map col_name (tbl_cols tb)) ! p = ''rowid'')
      [0..<length (''rowid'' # map col_name (tbl_cols tb))] = Some 0"
    by (simp add: upt_conv_Cons del: upt_Suc)
  then show ?thesis
    using assms(1) ids lab idx rows by (simp add: getTableHead_def drop_nth_def Let_def del: upt_Suc)
qed

theorem pointInPolygon_sound_witness:
  "\<exists>g'. pointInPolygon demo_spatial_engine demo_join_gdb ''pts'' ''pgs'' ''pip'' = Return g' \<and>
    (\<exists>pt pg ptg pgg tb. lookup_table (database demo_join_gdb) ''pts'' = Some pt \<and>
      lookup_table (database demo_join_gdb) ''pgs'' = Some pg \<and>
      column_values pt ''geometry'' = Some ptg \<and> column_values pg ''geometry'' = Some pgg \<and>
      lookup_table (database g') ''pip'' = Some tb \<and>
      map col_name (tbl_cols tb) = [''rowid_point'', ''rowid_polygon''] \<and>
      (\<forall>r\<in>set (tbl_rows tb). \<exists>k l. k < length (tbl_rows pt) \<and> l < length (tbl_rows pg) \<and>
         r = [rowids pt ! k, rowids pg ! l] \<and> truthy (st_within demo_spatial_engine (ptg ! k) (pgg ! l))))"
proof -
  have "case pointInPolygon demo_spatial_engine demo_join_gdb ''pts'' ''pgs'' ''pip'' of
      Some (Inr g') \<Rightarrow> True | _ \<Rightarrow> False"
    by code_simp
  then obtain g' where h: "pointInPolygon demo_spatial_engine demo_join_gdb ''pts'' ''pgs'' ''pip'' = Return g'"
    by (auto split: option.splits sum.splits)
  show ?thesis by (rule exI [where x = g'], rule conjI [OF h pointInPolygon_sound [OF h]])
qed



theorem getTableHead_integer_pk_witness:
  "let tb = \<lparr>tbl_kind = ''table'',
         tbl_cols = [\<lparr>col_name = ''id'', col_type = ''INTEGER'', col_notnull = False, col_default = SqlNull, col_pk = 1\<rparr>,
                     plain_column ''name'' ''TEXT''],
         tbl_rows = [[SqlInt 1, SqlText ''test'']]\<rparr>;
       d = \<lparr>db_tables = [(''test_table'', tb)], geometry_columns = []\<rparr>
   in lookup_table d ''test_table'' = Some tb \<and> rowid_alias tb = Some 0 \<and>
      ''rowid'' \<notin> set (map col_name (tbl_cols tb)) \<and> getTableHead d ''test_table'' = Raise KeyError"
proof -
  let ?tb = "\<lparr>tbl_kind = ''table'',
         tbl_cols = [\<lparr>col_name = ''id'', col_type = ''INTEGER'', col_notnull = False, col_default = SqlNull, col_pk = 1\<rparr>,
                     plain_column ''name'' ''TEXT''],
         tbl_rows = [[SqlInt 1, SqlText ''test'']]\<rparr>"
  let ?d = "\<lparr>db_tables = [(''test_table'', ?tb)], geometry_columns = []\<rparr>"
  have h1: "lookup_table ?d ''test_table'' = Some ?tb" by (simp add: lookup_table_def same_name_def)
  have h2: "rowid_alias ?tb = Some 0"
    by (simp add: rowid_alias_def plain_column_def ascii_upper_def upper_letters_def lower_letters_def upt_rec)
  have h3: "''rowid'' \<notin> set (map col_name (tbl_cols ?tb))" by (simp add: plain_column_def)
  show ?thesis unfolding Let_def using h1 h2 h3 getTableHead_integer_pk [OF h1 h2 h3] by (intro conjI)
qed

theorem getTableHead_plain_witness:
  "let tb = \<lparr>tbl_kind = ''table'', tbl_cols = [plain_column ''a'' ''TEXT''], tbl_rows = replicate 12 [SqlText ''p'']\<rparr>;
       d = \<lparr>db_tables = [(''t4'', tb)], geometry_columns = []\<rparr>
   in lookup_table d ''t4'' = Some tb \<and> rowid_alias tb = None \<and>
      ''rowid'' \<notin> set (map col_name (tbl_cols tb)) \<and>
      getTableHead d ''t4'' = Return \<lparr>fr_index = map (\<lambda>k. SqlInt (int k)) [1..<Suc (min 10 (length (tbl_rows tb)))],
        fr_columns = map col_name (tbl_cols tb), fr_rows = take 10 (tbl_rows tb)\<rparr>"
proof -
  let ?tb = "\<lparr>tbl_kind = ''table'', tbl_cols = [plain_column ''a'' ''TEXT''], tbl_rows = replicate 12 [SqlText ''p'']\<rparr>"
  let ?d = "\<lparr>db_tables = [(''t4'', ?tb)], geometry_columns = []\<rparr>"
  have h1: "lookup_table ?d ''t4'' = Some ?tb" by (simp add: lookup_table_def same_name_def)
  have h2: "rowid_alias ?tb = None" by (simp add: rowid_alias_def plain_column_def)
  have h3: "''rowid'' \<notin> set (map col_name (tbl_cols ?tb))" by (simp add: plain_column_def)
  show ?thesis unfolding Let_def using h1 h2 h3 getTableHead_plain [OF h1 h2 h3] by (intro conjI)
qed

end
