(* ===== verification/FindComponents.thy ===== *)
theory FindComponents
  imports Transform Labeler
begin

text \<open>
  \<^verbatim>\<open>Geodatabase.findConnectedComponents\<close> (\<^verbatim>\<open>src/geodatabase.py\<close>): the edge
  table is read with \<^verbatim>\<open>pd.read_sql\<close>, labelled by the connected-components labeler
  of \<open>Labeler\<close>, and the (id, cc) frame is stored with pandas'
  \<^verbatim>\<open>to_sql(..., if_exists='replace')\<close>. The iteration order of the Python set
  \<^verbatim>\<open>set(edges["a"]).union(edges["b"])\<close> is an argument \<open>order\<close>, a function from the
  keys read to a list of them; \<open>set_order\<close> states that it lists each key once.
  The theory also holds \<^verbatim>\<open>test_findConnectedComponents\<close> of
  \<^verbatim>\<open>src/testGeodatabase.py\<close>, the graph scenario of the specification, and proves
  that it passes for every iteration order and every earlier state of the labeler's
  shared class dictionaries.
\<close>

section \<open>Definitions\<close>

definition set_order :: "('a list \<Rightarrow> 'a list) \<Rightarrow> bool" where
  "set_order order \<longleftrightarrow> (\<forall>xs. distinct (order xs) \<and> set (order xs) = set xs)"

text \<open>
  \<^verbatim>\<open>pd.read_sql(f'select {edgesColumnNames[0]} as a, {edgesColumnNames[1]} as b
  from {inputTable}', ...)\<close>: the pairs of the two columns, row by row.
\<close>

definition read_edges :: "db \<Rightarrow> string \<Rightarrow> string list \<Rightarrow> (sqlval \<times> sqlval) list py" where
  "read_edges d inputTable edgesColumnNames =
     py_bind (list_get edgesColumnNames 0) (\<lambda>a.
     py_bind (list_get edgesColumnNames 1) (\<lambda>b.
       case lookup_table d inputTable of
         None \<Rightarrow> Raise (DatabaseError (''no such table: '' @ inputTable))
       | Some tb \<Rightarrow>
           (case (column_values tb a, column_values tb b) of
              (Some xs, Some ys) \<Rightarrow> Return (zip xs ys)
            | _ \<Rightarrow> Raise (DatabaseError ''no such column''))))"

fun is_int_val :: "sqlval \<Rightarrow> bool" where
  "is_int_val (SqlInt _) = True"
| "is_int_val _ = False"

text \<open>
  The SQL type pandas declares for a frame column: \<^verbatim>\<open>INTEGER\<close> for an integer
  column, \<^verbatim>\<open>TEXT\<close> for an object column.
\<close>

definition frame_sql_type :: "sqlval list \<Rightarrow> string" where
  "frame_sql_type vs = (if list_all is_int_val vs then ''INTEGER'' else ''TEXT'')"

definition frame_table :: "string list \<Rightarrow> sqlval list list \<Rightarrow> table" where
  "frame_table names rows =
     \<lparr>tbl_kind = ''table'',
      tbl_cols = map (\<lambda>i. plain_column (names ! i) (frame_sql_type (map (\<lambda>r. r ! i) rows))) [0..<length names],
      tbl_rows = rows\<rparr>"

text \<open>
  \<^verbatim>\<open>DataFrame.to_sql(name, con, index=False, if_exists='replace')\<close> on an
  \<^verbatim>\<open>sqlite3\<close> connection: pandas looks the name up exactly among the tables and
  views of \<^verbatim>\<open>sqlite_master\<close>, drops it (\<^verbatim>\<open>DROP TABLE\<close>, which refuses a view)
  and creates the table, which fails when another spelling of the name exists.
\<close>

definition pandas_replace :: "db \<Rightarrow> string \<Rightarrow> table \<Rightarrow> db py" where
  "pandas_replace d t tb =
     (case find (\<lambda>(n, tb'). n = t \<and> tbl_kind tb' \<in> {''table'', ''view''}) (db_tables d) of
        None \<Rightarrow> add_table d t tb
      | Some (_, tb') \<Rightarrow>
          if tbl_kind tb' = ''view'' then Raise (OperationalError ''use DROP VIEW to delete view'')
          else add_table (d\<lparr>db_tables := filter (\<lambda>(n, _). \<not> same_name n t) (db_tables d)\<rparr>) t tb)"

text \<open>\<^verbatim>\<open>pd.DataFrame({'id': self.hashes, 'cc': self.forest})\<close> as a table.\<close>

definition cc_table :: "(sqlval \<times> nat) list \<Rightarrow> table" where
  "cc_table out = frame_table [''id'', ''cc''] (map (\<lambda>(k, l). [k, SqlInt (int l)]) out)"

definition findConnectedComponents ::
  "sqlval labeler_class \<Rightarrow> (sqlval list \<Rightarrow> sqlval list) \<Rightarrow> gdb \<Rightarrow> string \<Rightarrow> string list \<Rightarrow> string \<Rightarrow>
   (sqlval labeler_class \<times> gdb \<times> (sqlval \<times> nat) list) py" where
  "findConnectedComponents c order g inputTable edgesColumnNames outputTable =
     py_bind (read_edges (database g) inputTable edgesColumnNames) (\<lambda>es.
     py_bind (connected_components c (order (map fst es @ map snd es)) es) (\<lambda>(c', out).
     py_bind (pandas_replace (database g) outputTable (cc_table out)) (\<lambda>d.
     Return (c', g\<lparr>database := d\<rparr>, out))))"

section \<open>The test of findConnectedComponents\<close>

text \<open>The frame \<^verbatim>\<open>df_edges\<close> of the test.\<close>

definition test_edge_rows :: "sqlval list list" where
  "test_edge_rows = [[SqlText ''A'', SqlText ''B''], [SqlText ''A'', SqlText ''D''],
     [SqlText ''B'', SqlText ''C''], [SqlText ''B'', SqlText ''E''], [SqlText ''F'', SqlText ''G'']]"

definition assert_equal :: "'a \<Rightarrow> 'a \<Rightarrow> unit py" where
  "assert_equal x y = (if x = y then Return () else Raise AssertionError)"

text \<open>
  \<^verbatim>\<open>test_findConnectedComponents\<close>: load the graph, label it, check 7 rows and 2
  distinct labels in \<^verbatim>\<open>t02_cc\<close>, drop both tables. The result is the labeler's class
  state and the database after the test.
\<close>

definition test_findConnectedComponents ::
  "sqlval labeler_class \<Rightarrow> (sqlval list \<Rightarrow> sqlval list) \<Rightarrow> gdb \<Rightarrow> (sqlval labeler_class \<times> gdb) py" where
  "test_findConnectedComponents c order g =
     py_bind (pandas_replace (database g) ''t01_edges'' (frame_table [''a'', ''b''] test_edge_rows)) (\<lambda>d1.
     py_bind (findConnectedComponents c order (g\<lparr>database := d1\<rparr>) ''t01_edges'' [''a'', ''b''] ''t02_cc'')
       (\<lambda>(c', g2, _).
     py_bind (getTableCountOfRows (database g2) ''t02_cc'') (\<lambda>n.
     py_bind (assert_equal n 7) (\<lambda>_.
     py_bind (getColumnCountOfDistinctValues (database g2) ''t02_cc'' ''cc'') (\<lambda>k.
     py_bind (assert_equal k 2) (\<lambda>_.
     Return (c', g2\<lparr>database := dropTable (dropTable (database g2) ''t01_edges'') ''t02_cc''\<rparr>)))))))"

section \<open>Lemmas\<close>

lemma getTableCountOfRows_fresh:
  assumes "\<forall>(n, tb)\<in>set ts. \<not> same_name n t"
  shows "getTableCountOfRows (d\<lparr>db_tables := ts @ [(t, tb)]\<rparr>) t = Return (length (tbl_rows tb))"
proof -
  have "find (\<lambda>(n, _). map ascii_lower n = map ascii_lower t) ts = None"
    using assms by (auto simp: find_None_iff same_name_def)
  then show ?thesis by (simp add: getTableCountOfRows_def find_append_None)
qed

lemma pandas_replace_Return:
  assumes "\<forall>(n, tb)\<in>set (db_tables d). same_name n t \<longrightarrow> n = t \<and> tbl_kind tb = ''table''"
  shows "pandas_replace d t tb =
    Return (d\<lparr>db_tables := filter (\<lambda>(n, _). \<not> same_name n t) (db_tables d) @ [(t, tb)]\<rparr>)"
proof (cases "find (\<lambda>(n, tb'). n = t \<and> tbl_kind tb' \<in> {''table'', ''view''}) (db_tables d)")
  case None
  then have "filter (\<lambda>(n, _). \<not> same_name n t) (db_tables d) = db_tables d"
    using assms by (force simp: find_None_iff filter_id_conv)
  moreover have "\<not> table_exists_sql d t"
    using None assms by (force simp: find_None_iff table_exists_sql_def list_ex_iff)
  ultimately show ?thesis using None by (simp add: pandas_replace_def add_table_def)
next
  case (Some p)
  then obtain n tb' where p: "p = (n, tb')" "(n, tb') \<in> set (db_tables d)" "n = t"
    by (cases p) (auto dest: find_Some_mem)
  then have "tbl_kind tb' = ''table''" using assms by (auto simp: same_name_def)
  moreover have "\<not> table_exists_sql (d\<lparr>db_tables := filter (\<lambda>(n, _). \<not> same_name n t) (db_tables d)\<rparr>) t"
    by (auto simp: table_exists_sql_def list_ex_iff)
  ultimately show ?thesis using Some p by (simp add: pandas_replace_def add_table_def)
qed

lemma pandas_replace_fresh:
  assumes "\<forall>(n, tb)\<in>set (db_tables d). \<not> same_name n t"
  shows "pandas_replace d t tb = Return (d\<lparr>db_tables := db_tables d @ [(t, tb)]\<rparr>)"
proof -
  have "filter (\<lambda>(n, _). \<not> same_name n t) (db_tables d) = db_tables d"
    using assms by (auto simp: filter_id_conv)
  then show ?thesis using pandas_replace_Return [of d t tb] assms by auto
qed

lemma set_order_hashes: "set_order order \<Longrightarrow> hashes_of es (order (map fst es @ map snd es))"
  by (simp add: set_order_def hashes_of_def nodes_def)

lemma findConnectedComponents_Return:
  assumes "set_order order" "read_edges (database g) inp cols = Return es"
    "\<forall>(n, tb)\<in>set (db_tables (database g)). same_name n out \<longrightarrow> n = out \<and> tbl_kind tb = ''table''"
  obtains c' res where
    "findConnectedComponents c order g inp cols out =
       Return (c', g\<lparr>database := (database g)\<lparr>db_tables :=
         filter (\<lambda>(n, _). \<not> same_name n out) (db_tables (database g)) @ [(out, cc_table res)]\<rparr>\<rparr>, res)"
    "map fst res = order (map fst es @ map snd es)"
    "\<forall>(x, l)\<in>set res. \<forall>(y, m)\<in>set res. l = m \<longleftrightarrow> (x, y) \<in> conn (set es)"
proof -
  let ?hs = "order (map fst es @ map snd es)"
  obtain res where cc: "connected_components c ?hs es = Return (register c (zip ?hs [0..<length ?hs]), res)"
    and fst: "map fst res = ?hs"
    and part: "\<forall>(x, l)\<in>set res. \<forall>(y, m)\<in>set res. l = m \<longleftrightarrow> (x, y) \<in> conn (set es)"
    by (rule connected_components_Return [OF set_order_hashes [OF assms(1)]])
  show ?thesis
    using assms(2) cc fst part pandas_replace_Return [OF assms(3)]
    by (intro that) (simp_all add: findConnectedComponents_def)
qed

lemma read_edges_not_None: "read_edges d inp cols \<noteq> None"
  by (auto simp: read_edges_def list_get_def split: option.splits)

lemma pandas_replace_not_None: "pandas_replace d t tb \<noteq> None"
  by (auto simp: pandas_replace_def add_table_def split: option.splits prod.splits)

text \<open>Two classes of keys, each connected to one member, and the members not connected: two labels.\<close>

lemma two_labels:
  assumes P: "\<forall>(x, l)\<in>set out. \<forall>(y, m)\<in>set out. l = m \<longleftrightarrow> (x, y) \<in> conn E"
    and keys: "set (map fst out) = S1 \<union> S2" and a: "a \<in> S1" and b: "b \<in> S2"
    and S1: "\<forall>x\<in>S1. (x, a) \<in> conn E" and S2: "\<forall>x\<in>S2. (x, b) \<in> conn E"
    and ab: "(a, b) \<notin> conn E"
  shows "card (snd ` set out) = 2"
proof -
  have "a \<in> fst ` set out" "b \<in> fst ` set out" using keys a b by auto
  then obtain la lb where la: "(a, la) \<in> set out" and lb: "(b, lb) \<in> set out" by force
  have "snd ` set out = {la, lb}"
  proof
    show "snd ` set out \<subseteq> {la, lb}"
    proof
      fix l assume "l \<in> snd ` set out"
      then obtain x where x: "(x, l) \<in> set out" by auto
      then have "x \<in> S1 \<union> S2" using keys by force
      then show "l \<in> {la, lb}"
        using P x la lb S1 S2 by fastforce
    qed
    show "{la, lb} \<subseteq> snd ` set out" using la lb by force
  qed
  moreover have "la \<noteq> lb" using P la lb ab by fastforce
  ultimately show ?thesis by simp
qed

lemma distinct_labels_count:
  "length (remdups (filter (\<lambda>v. v \<noteq> SqlNull) (map (\<lambda>(k, l). SqlInt (int l)) out))) = card (snd ` set out)"
proof -
  have "set (filter (\<lambda>v. v \<noteq> SqlNull) (map (\<lambda>(k, l). SqlInt (int l)) out)) =
      (\<lambda>l. SqlInt (int l)) ` snd ` set out"
    by force
  moreover have "inj_on (\<lambda>l. SqlInt (int l)) (snd ` set out)" by (rule inj_onI) simp
  ultimately show ?thesis by (simp add: length_remdups_card_conv card_image)
qed

text \<open>The edges of the test, as \<^verbatim>\<open>pd.read_sql\<close> returns them.\<close>

lemma test_read_edges:
  assumes "\<forall>(n, tb)\<in>set (db_tables d). \<not> same_name n ''t01_edges''"
  shows "read_edges (d\<lparr>db_tables := db_tables d @ [(''t01_edges'', frame_table [''a'', ''b''] test_edge_rows)]\<rparr>)
      ''t01_edges'' [''a'', ''b''] =
    Return [(SqlText ''A'', SqlText ''B''), (SqlText ''A'', SqlText ''D''), (SqlText ''B'', SqlText ''C''),
            (SqlText ''B'', SqlText ''E''), (SqlText ''F'', SqlText ''G'')]"
  using lookup_table_fresh [OF assms]
  by (simp add: read_edges_def column_values_def frame_table_def plain_column_def test_edge_rows_def
      same_name_def ascii_lower_def upper_letters_def lower_letters_def upt_rec)

text \<open>Connectivity of the test graph: \<open>{A, B, C, D, E}\<close> and \<open>{F, G}\<close>.\<close>

lemma test_conn:
  fixes E :: "(sqlval \<times> sqlval) set"
  assumes E: "E = set [(SqlText ''A'', SqlText ''B''), (SqlText ''A'', SqlText ''D''),
      (SqlText ''B'', SqlText ''C''), (SqlText ''B'', SqlText ''E''), (SqlText ''F'', SqlText ''G'')]"
  shows "\<forall>x\<in>{SqlText ''A'', SqlText ''B'', SqlText ''C'', SqlText ''D'', SqlText ''E''}. (x, SqlText ''A'') \<in> conn E"
    and "\<forall>x\<in>{SqlText ''F'', SqlText ''G''}. (x, SqlText ''F'') \<in> conn E"
    and "(SqlText ''A'', SqlText ''F'') \<notin> conn E"
proof -
  have e: "(SqlText ''A'', SqlText ''B'') \<in> conn E" "(SqlText ''A'', SqlText ''D'') \<in> conn E"
    "(SqlText ''B'', SqlText ''C'') \<in> conn E" "(SqlText ''B'', SqlText ''E'') \<in> conn E"
    "(SqlText ''F'', SqlText ''G'') \<in> conn E"
    using E by (auto intro: conn_edge)
  show "\<forall>x\<in>{SqlText ''A'', SqlText ''B'', SqlText ''C'', SqlText ''D'', SqlText ''E''}. (x, SqlText ''A'') \<in> conn E"
    using e by (blast intro: conn_sym conn_trans)
  show "\<forall>x\<in>{SqlText ''F'', SqlText ''G''}. (x, SqlText ''F'') \<in> conn E"
    using e by (blast intro: conn_sym)
  have "\<forall>(a, b)\<in>E. a \<in> {SqlText ''A'', SqlText ''B'', SqlText ''C'', SqlText ''D'', SqlText ''E''} \<longleftrightarrow>
      b \<in> {SqlText ''A'', SqlText ''B'', SqlText ''C'', SqlText ''D'', SqlText ''E''}"
    using E by simp
  from conn_closed [OF this] show "(SqlText ''A'', SqlText ''F'') \<notin> conn E" by auto
qed

lemma cc_table_cc: "column_values (cc_table res) ''cc'' = Some (map (\<lambda>(k, l). SqlInt (int l)) res)"
  by (simp add: column_values_def cc_table_def frame_table_def plain_column_def same_name_def
      ascii_lower_def upper_letters_def lower_letters_def upt_rec case_prod_unfold)

section \<open>Properties\<close>


text \<open>
  C19. The repository's \<^verbatim>\<open>test_findConnectedComponents\<close> (the specification's
  scenario 1: edges A-B, A-D, B-C, B-E, F-G) passes: \<^verbatim>\<open>t02_cc\<close> has 7 rows and 2
  distinct labels, for every iteration order of the key set and whatever the shared
  class dictionaries of the labeler hold, on any database without tables named
  \<^verbatim>\<open>t01_edges\<close> or \<^verbatim>\<open>t02_cc\<close> in any case.
\<close>

theorem test_findConnectedComponents_passes:
  assumes "set_order order"
    "\<forall>(n, tb)\<in>set (db_tables (database g)). \<not> same_name n ''t01_edges'' \<and> \<not> same_name n ''t02_cc''"
  shows "\<exists>c' g'. test_findConnectedComponents c order g = Return (c', g')"
proof -
  let ?E = "frame_table [''a'', ''b''] test_edge_rows"
  let ?d1 = "(database g)\<lparr>db_tables := db_tables (database g) @ [(''t01_edges'', ?E)]\<rparr>"
  let ?es = "[(SqlText ''A'', SqlText ''B''), (SqlText ''A'', SqlText ''D''), (SqlText ''B'', SqlText ''C''),
            (SqlText ''B'', SqlText ''E''), (SqlText ''F'', SqlText ''G'')]"
  have f1: "\<forall>(n, tb)\<in>set (db_tables (database g)). \<not> same_name n ''t01_edges''" using assms(2) by auto
  have r1: "pandas_replace (database g) ''t01_edges'' ?E = Return ?d1"
    by (rule pandas_replace_fresh [OF f1])
  have r2: "read_edges (database (g\<lparr>database := ?d1\<rparr>)) ''t01_edges'' [''a'', ''b''] = Return ?es"
    using test_read_edges [OF f1] by simp
  have n12: "\<not> same_name ''t01_edges'' ''t02_cc''"
    by (simp add: same_name_def ascii_lower_def upper_letters_def lower_letters_def)
  have f2: "\<forall>(n, tb)\<in>set (db_tables ?d1). \<not> same_name n ''t02_cc''" using assms(2) n12 by auto
  then have f2': "\<forall>(n, tb)\<in>set (db_tables (database (g\<lparr>database := ?d1\<rparr>))).
      same_name n ''t02_cc'' \<longrightarrow> n = ''t02_cc'' \<and> tbl_kind tb = ''table''" by auto
  let ?g1 = "g\<lparr>database := ?d1\<rparr>"
  obtain c' res where run0: "findConnectedComponents c order ?g1 ''t01_edges'' [''a'', ''b''] ''t02_cc'' =
       Return (c', ?g1\<lparr>database := (database ?g1)\<lparr>db_tables :=
         filter (\<lambda>(n, _). \<not> same_name n ''t02_cc'') (db_tables (database ?g1)) @ [(''t02_cc'', cc_table res)]\<rparr>\<rparr>, res)"
    and keys: "map fst res = order (map fst ?es @ map snd ?es)"
    and part: "\<forall>(x, l)\<in>set res. \<forall>(y, m)\<in>set res. l = m \<longleftrightarrow> (x, y) \<in> conn (set ?es)"
    by (rule findConnectedComponents_Return [OF assms(1) r2 f2'])
  have filt: "filter (\<lambda>(n, _). \<not> same_name n ''t02_cc'') (db_tables ?d1) = db_tables ?d1"
    using f2 by (auto simp: filter_id_conv)
  let ?d2 = "?d1\<lparr>db_tables := db_tables ?d1 @ [(''t02_cc'', cc_table res)]\<rparr>"
  have dg1: "database ?g1 = ?d1" by simp
  have run: "findConnectedComponents c order ?g1 ''t01_edges'' [''a'', ''b''] ''t02_cc'' =
      Return (c', ?g1\<lparr>database := ?d2\<rparr>, res)"
    using run0 unfolding dg1 filt .
  have lk: "lookup_table ?d2 ''t02_cc'' = Some (cc_table res)"
    by (rule lookup_table_fresh [OF f2])
  have set_keys: "set (map fst res) = {SqlText ''A'', SqlText ''B'', SqlText ''C'', SqlText ''D'', SqlText ''E''} \<union>
      {SqlText ''F'', SqlText ''G''}"
    using keys assms(1) by (auto simp: set_order_def)
  have "length res = 7"
  proof -
    have "distinct (map fst res)" using keys assms(1) by (simp add: set_order_def)
    then have "length res = card (set (map fst res))" by (metis distinct_card length_map)
    then show ?thesis using set_keys by simp
  qed
  moreover have cnt0: "getTableCountOfRows ?d2 ''t02_cc'' = Return (length res)"
    using getTableCountOfRows_fresh [OF f2, where d = ?d1 and tb = "cc_table res"] by (simp add: cc_table_def frame_table_def)
  moreover have dist: "getColumnCountOfDistinctValues ?d2 ''t02_cc'' ''cc'' = Return 2"
  proof -
    have "card (snd ` set res) = 2"
      by (rule two_labels [OF part set_keys _ _ test_conn(1,2,3)]) simp_all
    then show ?thesis
      using lk cc_table_cc distinct_labels_count [of res] by (simp add: getColumnCountOfDistinctValues_def)
  qed
  ultimately have cnt: "getTableCountOfRows ?d2 ''t02_cc'' = Return 7" by simp
  let ?d2' = "(database g)\<lparr>db_tables := db_tables (database g) @
      [(''t01_edges'', ?E), (''t02_cc'', cc_table res)]\<rparr>"
  have cnt': "getTableCountOfRows ?d2' ''t02_cc'' = Return 7" using cnt by simp
  have dist': "getColumnCountOfDistinctValues ?d2' ''t02_cc'' ''cc'' = Return 2" using dist by simp
  show ?thesis
    using r1 run cnt' dist' by (simp add: test_findConnectedComponents_def assert_equal_def)
qed

text \<open>
  C26. \<^verbatim>\<open>findConnectedComponents\<close> always terminates: for every iteration order
  of the key set, every state of the shared dictionaries and every database, it
  returns or raises a Python exception; the recursive find of the labeler never
  recurses without bound on the forests \<^verbatim>\<open>__init__\<close> builds.
\<close>

theorem findConnectedComponents_terminates:
  assumes "set_order order"
  shows "findConnectedComponents c order g inp cols out \<noteq> None"
  unfolding findConnectedComponents_def
proof (rule py_bind_not_None [OF read_edges_not_None])
  fix es
  obtain res where "connected_components c (order (map fst es @ map snd es)) es =
      Return (register c (zip (order (map fst es @ map snd es))
        [0..<length (order (map fst es @ map snd es))]), res)"
    by (rule connected_components_Return [OF set_order_hashes [OF assms]])
  then show "py_bind (connected_components c (order (map fst es @ map snd es)) es)
      (\<lambda>(c', rs). py_bind (pandas_replace (database g) out (cc_table rs))
        (\<lambda>d. Return (c', g\<lparr>database := d\<rparr>, rs))) \<noteq> None"
    by (simp add: py_bind_not_None pandas_replace_not_None)
qed


theorem test_findConnectedComponents_passes_witness:
  "let g = \<lparr>database = \<lparr>db_tables = [], geometry_columns = []\<rparr>, srid = 31370\<rparr>;
       c = \<lparr>hash2seq = [SqlText ''Z'' \<mapsto> 5], seq2hash = [5 \<mapsto> SqlText ''Z'']\<rparr>
   in set_order (rev \<circ> remdups :: sqlval list \<Rightarrow> sqlval list) \<and>
      (\<forall>(n, tb)\<in>set (db_tables (database g)). \<not> same_name n ''t01_edges'' \<and> \<not> same_name n ''t02_cc'') \<and>
      (\<exists>c' g'. test_findConnectedComponents c (rev \<circ> remdups) g = Return (c', g'))"
proof -
  let ?g = "\<lparr>database = \<lparr>db_tables = [], geometry_columns = []\<rparr>, srid = 31370\<rparr>"
  have h1: "set_order (rev \<circ> remdups :: sqlval list \<Rightarrow> sqlval list)" by (simp add: set_order_def)
  have h2: "\<forall>(n, tb)\<in>set (db_tables (database ?g)). \<not> same_name n ''t01_edges'' \<and> \<not> same_name n ''t02_cc''"
    by simp
  note c = test_findConnectedComponents_passes [OF h1 h2, of "\<lparr>hash2seq = [SqlText ''Z'' \<mapsto> 5], seq2hash = [5 \<mapsto> SqlText ''Z'']\<rparr>"]
  show ?thesis unfolding Let_def using h1 h2 c by blast
qed
theorem findConnectedComponents_terminates_witness:
  "set_order (remdups :: sqlval list \<Rightarrow> sqlval list) \<and>
   findConnectedComponents \<lparr>hash2seq = Map.empty, seq2hash = Map.empty\<rparr> remdups
     \<lparr>database = \<lparr>db_tables = [], geometry_columns = []\<rparr>, srid = 31370\<rparr> ''edges'' [''a''] ''cc'' \<noteq> None"
proof -
  have h: "set_order (remdups :: sqlval list \<Rightarrow> sqlval list)" by (simp add: set_order_def)
  show ?thesis using h findConnectedComponents_terminates [OF h] by blast
qed


end
