(* ===== verification/UnitTests.thy ===== *)
theory UnitTests
  imports RowQueries FindComponents
begin

text \<open>
  The catalog tests of \<^verbatim>\<open>src/testGeodatabase.py\<close>, each a function from the
  geodatabase \<^verbatim>\<open>setUp\<close> built to the state after the test, or the exception the
  test ends with (\<open>AssertionError\<close> for a failed assertion). The statements the
  tests send through \<^verbatim>\<open>execute\<close> are those of \<open>RowQueries\<close>;
  \<^verbatim>\<open>tearDown\<close>, which closes the connection, is in \<open>SpatialTests\<close>.
\<close>

section \<open>Fixture\<close>

text \<open>
  \<^verbatim>\<open>setUp\<close>: \<^verbatim>\<open>Geodatabase(db=':memory:')\<close>. No file \<^verbatim>\<open>:memory:\<close> exists, so
  the constructor initialises the spatial metadata of an empty database.
\<close>

definition setUp :: "engine \<Rightarrow> gdb" where
  "setUp e = geodatabase_init e empty_db False False 31370"

text \<open>\<^verbatim>\<open>CREATE TABLE test_table (id INTEGER PRIMARY KEY, name TEXT)\<close>.\<close>

definition test_table_cols :: "column list" where
  "test_table_cols = [\<lparr>col_name = ''id'', col_type = ''INTEGER'', col_notnull = False, col_default = SqlNull,
     col_pk = 1\<rparr>, plain_column ''name'' ''TEXT'']"

definition assert_true :: "bool \<Rightarrow> unit py" where
  "assert_true b = (if b then Return () else Raise AssertionError)"

text \<open>\<^verbatim>\<open>INSERT INTO test_table (name) VALUES (v)\<close> for each \<open>v\<close>, in order.\<close>

fun insert_names :: "db \<Rightarrow> string list \<Rightarrow> db py" where
  "insert_names d [] = Return d"
| "insert_names d (v # vs) = py_bind (insert_into d ''test_table'' [''name''] [SqlText v]) (\<lambda>d'. insert_names d' vs)"

section \<open>The tests\<close>

definition test_initialization :: "gdb \<Rightarrow> unit py" where
  "test_initialization g = assert_equal (srid g) 31370"

definition test_execute :: "gdb \<Rightarrow> gdb py" where
  "test_execute g =
     py_bind (create_table (database g) ''test_table'' test_table_cols) (\<lambda>d1.
     py_bind (insert_names d1 [''test'']) (\<lambda>d2.
     py_bind (select_column d2 ''test_table'' ''name'') (\<lambda>r.
     py_bind (assert_equal r [SqlText ''test'']) (\<lambda>_.
     Return (g\<lparr>database := d2\<rparr>)))))"

definition test_getColumnMaxLength :: "gdb \<Rightarrow> gdb py" where
  "test_getColumnMaxLength g =
     py_bind (create_table (database g) ''test_table'' test_table_cols) (\<lambda>d1.
     py_bind (insert_names d1 [''test'', ''longer_test'']) (\<lambda>d2.
     py_bind (getColumnMaxLength d2 ''test_table'' ''name'') (\<lambda>m.
     py_bind (assert_equal m (Some 11)) (\<lambda>_.
     Return (g\<lparr>database := d2\<rparr>)))))"

definition test_getColumnCountOfDistinctValues :: "gdb \<Rightarrow> gdb py" where
  "test_getColumnCountOfDistinctValues g =
     py_bind (create_table (database g) ''test_table'' test_table_cols) (\<lambda>d1.
     py_bind (insert_names d1 [''test'', ''test'', ''other'']) (\<lambda>d2.
     py_bind (getColumnCountOfDistinctValues d2 ''test_table'' ''name'') (\<lambda>k.
     py_bind (assert_equal k 2) (\<lambda>_.
     Return (g\<lparr>database := d2\<rparr>)))))"

text \<open>
  \<^verbatim>\<open>'id' in columns.index\<close>: for a name that is not a listed table
  \<^verbatim>\<open>getListOfColumns\<close> returns the empty tuple, in which nothing is.
\<close>

definition test_getListOfColumns :: "gdb \<Rightarrow> gdb py" where
  "test_getListOfColumns g =
     py_bind (create_table (database g) ''test_table'' test_table_cols) (\<lambda>d1.
     py_bind (getListOfColumns d1 ''test_table'' False False) (\<lambda>r.
     let names = (case r of Columns rs \<Rightarrow> map cr_name rs | NotATable \<Rightarrow> [])
     in py_bind (assert_true (''id'' \<in> set names)) (\<lambda>_.
        py_bind (assert_true (''name'' \<in> set names)) (\<lambda>_.
        Return (g\<lparr>database := dropTable d1 ''test_table''\<rparr>)))))"

text \<open>\<^verbatim>\<open>tables.loc['test_table']['ms_countOf_rows']\<close>: KeyError when the label is absent.\<close>

definition test_getListOfTables :: "gdb \<Rightarrow> gdb py" where
  "test_getListOfTables g =
     py_bind (create_table (database g) ''test_table'' test_table_cols) (\<lambda>d1.
     let tables = getListOfTables d1
     in py_bind (assert_true (''test_table'' \<in> set (map lt_name tables))) (\<lambda>_.
        py_bind (case find (\<lambda>r. lt_name r = ''test_table'') tables of
                   None \<Rightarrow> Raise KeyError
                 | Some r \<Rightarrow> assert_equal (lt_rows r) 0) (\<lambda>_.
        Return (g\<lparr>database := dropTable d1 ''test_table''\<rparr>))))"

definition test_getTableCountOfRows :: "gdb \<Rightarrow> gdb py" where
  "test_getTableCountOfRows g =
     py_bind (create_table (database g) ''test_table'' test_table_cols) (\<lambda>d1.
     py_bind (insert_names d1 [''test'']) (\<lambda>d2.
     py_bind (getTableCountOfRows d2 ''test_table'') (\<lambda>n.
     py_bind (assert_equal n 1) (\<lambda>_.
     Return (g\<lparr>database := d2\<rparr>)))))"

definition test_getTableHead :: "gdb \<Rightarrow> gdb py" where
  "test_getTableHead g =
     py_bind (create_table (database g) ''test_table'' test_table_cols) (\<lambda>d1.
     py_bind (insert_names d1 [''test'']) (\<lambda>d2.
     py_bind (getTableHead d2 ''test_table'') (\<lambda>head.
     py_bind (assert_true (''name'' \<in> set (fr_columns head))) (\<lambda>_.
     Return (g\<lparr>database := d2\<rparr>)))))"

section \<open>Lemmas\<close>

text \<open>\<open>fresh d t\<close>: no table of \<open>d\<close> is named \<open>t\<close> in any case.\<close>

lemma create_table_fresh:
  "\<forall>(n, tb)\<in>set (db_tables d). \<not> same_name n t \<Longrightarrow>
   create_table d t cols = Return (d\<lparr>db_tables := db_tables d @ [(t, \<lparr>tbl_kind = ''table'', tbl_cols = cols, tbl_rows = []\<rparr>)]\<rparr>)"
  by (auto simp: create_table_def add_table_def table_exists_sql_def list_ex_iff)

lemma update_table_fresh:
  "\<forall>(n, tb)\<in>set ts. \<not> same_name n t \<Longrightarrow>
   update_table (d\<lparr>db_tables := ts @ [(t, tb)]\<rparr>) t tb' = d\<lparr>db_tables := ts @ [(t, tb')]\<rparr>"
proof -
  assume fresh: "\<forall>(n, tb)\<in>set ts. \<not> same_name n t"
  have "map (\<lambda>(n, x). if same_name n t then (n, tb') else (n, x)) ts = ts"
    using fresh by (induction ts) auto
  then show ?thesis by (simp add: update_table_def same_name_def)
qed

lemma test_cols_name: "column_index tb ''name'' = Some 1" if "tbl_cols tb = test_table_cols"
  using that by (simp add: column_index_def test_table_cols_def plain_column_def same_name_def ascii_lower_def
      upper_letters_def lower_letters_def upt_rec)

lemma test_cols_values:
  "tbl_cols tb = test_table_cols \<Longrightarrow> column_values tb ''name'' = Some (map (\<lambda>r. r ! 1) (tbl_rows tb))"
  by (simp add: column_values_def test_table_cols_def plain_column_def same_name_def ascii_lower_def
      upper_letters_def lower_letters_def upt_rec)

lemma test_cols_alias: "tbl_cols tb = test_table_cols \<Longrightarrow> rowid_alias tb = Some 0"
  by (simp add: rowid_alias_def test_table_cols_def plain_column_def ascii_upper_def upper_letters_def
      lower_letters_def upt_rec)

lemma test_cols_new_row:
  "tbl_cols tb = test_table_cols \<Longrightarrow> new_row tb [''name''] [v] ! 1 = v \<and> length (new_row tb [''name''] [v]) = 2"
  by (simp add: new_row_def test_table_cols_def plain_column_def same_name_def ascii_lower_def
      upper_letters_def lower_letters_def upt_rec)

lemma insert_names_fresh:
  assumes "\<forall>(n, tb)\<in>set (db_tables d). \<not> same_name n ''test_table''" "tbl_cols tb = test_table_cols"
  shows "\<exists>tb'. insert_names (d\<lparr>db_tables := db_tables d @ [(''test_table'', tb)]\<rparr>) vs =
      Return (d\<lparr>db_tables := db_tables d @ [(''test_table'', tb')]\<rparr>) \<and> tbl_cols tb' = test_table_cols \<and>
      map (\<lambda>r. r ! 1) (tbl_rows tb') = map (\<lambda>r. r ! 1) (tbl_rows tb) @ map SqlText vs \<and>
      length (tbl_rows tb') = length (tbl_rows tb) + length vs"
  using assms(2)
proof (induction vs arbitrary: tb)
  case Nil
  then show ?case by (intro exI [where x = tb]) simp
next
  case (Cons v vs)
  let ?tb1 = "tb\<lparr>tbl_rows := tbl_rows tb @ [new_row tb [''name''] [SqlText v]]\<rparr>"
  have "lookup_table (d\<lparr>db_tables := db_tables d @ [(''test_table'', tb)]\<rparr>) ''test_table'' = Some tb"
    using lookup_table_fresh [OF assms(1)] by simp
  then have "insert_into (d\<lparr>db_tables := db_tables d @ [(''test_table'', tb)]\<rparr>) ''test_table'' [''name''] [SqlText v] =
      Return (d\<lparr>db_tables := db_tables d @ [(''test_table'', ?tb1)]\<rparr>)"
    using test_cols_name [OF Cons.prems] update_table_fresh [OF assms(1)] by (simp add: insert_into_def)
  moreover obtain tb' where "insert_names (d\<lparr>db_tables := db_tables d @ [(''test_table'', ?tb1)]\<rparr>) vs =
      Return (d\<lparr>db_tables := db_tables d @ [(''test_table'', tb')]\<rparr>)" "tbl_cols tb' = test_table_cols"
      "map (\<lambda>r. r ! 1) (tbl_rows tb') = map (\<lambda>r. r ! 1) (tbl_rows ?tb1) @ map SqlText vs"
      "length (tbl_rows tb') = length (tbl_rows ?tb1) + length vs"
    using Cons.IH [of ?tb1] Cons.prems by auto
  ultimately show ?case using test_cols_new_row [OF Cons.prems] by auto
qed

lemma getListOfTables_append:
  "getListOfTables (d\<lparr>db_tables := db_tables d @ [(t, tb)]\<rparr>) =
   getListOfTables d @ getListOfTables \<lparr>db_tables = [(t, tb)], geometry_columns = geometry_columns d\<rparr>"
  by (simp add: getListOfTables_def table_geoms_def)

lemma getListOfTables_single:
  "listed (tbl_kind tb) t \<Longrightarrow> \<exists>r. getListOfTables \<lparr>db_tables = [(t, tb)], geometry_columns = gs\<rparr> = [r] \<and>
     lt_name r = t \<and> lt_rows r = length (tbl_rows tb)"
  by (simp add: getListOfTables_def)

lemma listed_test_table: "listed ''table'' ''test_table''"
  by code_simp

lemma fresh_not_listed:
  "\<forall>(n, tb)\<in>set (db_tables d). \<not> same_name n t \<Longrightarrow> t \<notin> set (map lt_name (getListOfTables d))"
  by (auto simp: getListOfTables_def same_name_def)

text \<open>The state of the tests after \<^verbatim>\<open>CREATE TABLE test_table\<close> and their inserts.\<close>

lemma test_table_inserted:
  assumes fresh: "\<forall>(n, tb)\<in>set (db_tables (database g)). \<not> same_name n ''test_table''"
  obtains tb d2 where
    "create_table (database g) ''test_table'' test_table_cols =
       Return ((database g)\<lparr>db_tables := db_tables (database g) @
         [(''test_table'', \<lparr>tbl_kind = ''table'', tbl_cols = test_table_cols, tbl_rows = []\<rparr>)]\<rparr>)"
    "insert_names ((database g)\<lparr>db_tables := db_tables (database g) @
         [(''test_table'', \<lparr>tbl_kind = ''table'', tbl_cols = test_table_cols, tbl_rows = []\<rparr>)]\<rparr>) vs = Return d2"
    "lookup_table d2 ''test_table'' = Some tb" "tbl_cols tb = test_table_cols"
    "column_values tb ''name'' = Some (map SqlText vs)"
    "getTableCountOfRows d2 ''test_table'' = Return (length vs)"
proof -
  obtain tb where ins: "insert_names ((database g)\<lparr>db_tables := db_tables (database g) @
         [(''test_table'', \<lparr>tbl_kind = ''table'', tbl_cols = test_table_cols, tbl_rows = []\<rparr>)]\<rparr>) vs =
       Return ((database g)\<lparr>db_tables := db_tables (database g) @ [(''test_table'', tb)]\<rparr>)"
    and cols: "tbl_cols tb = test_table_cols" and names: "map (\<lambda>r. r ! 1) (tbl_rows tb) = map SqlText vs"
    and len: "length (tbl_rows tb) = length vs"
    using insert_names_fresh [OF fresh, of "\<lparr>tbl_kind = ''table'', tbl_cols = test_table_cols, tbl_rows = []\<rparr>" vs]
    by auto
  show ?thesis
  proof (rule that [OF create_table_fresh [OF fresh] ins])
    show "lookup_table ((database g)\<lparr>db_tables := db_tables (database g) @ [(''test_table'', tb)]\<rparr>)
        ''test_table'' = Some tb"
      by (rule lookup_table_fresh [OF fresh])
    show "column_values tb ''name'' = Some (map SqlText vs)" using test_cols_values [OF cols] names by simp
    show "getTableCountOfRows ((database g)\<lparr>db_tables := db_tables (database g) @ [(''test_table'', tb)]\<rparr>)
        ''test_table'' = Return (length vs)"
      using getTableCountOfRows_fresh [OF fresh] len by simp
  qed (rule cols)
qed

lemma test_execute_passes:
  "\<forall>(n, tb)\<in>set (db_tables (database g)). \<not> same_name n ''test_table'' \<Longrightarrow> \<exists>g'. test_execute g = Return g'"
  by (erule test_table_inserted [where vs = "[''test'']"])
    (simp add: test_execute_def select_column_def assert_equal_def)

lemma test_getColumnMaxLength_passes:
  "\<forall>(n, tb)\<in>set (db_tables (database g)). \<not> same_name n ''test_table'' \<Longrightarrow>
   \<exists>g'. test_getColumnMaxLength g = Return g'"
  by (erule test_table_inserted [where vs = "[''test'', ''longer_test'']"])
    (simp add: test_getColumnMaxLength_def getColumnMaxLength_def sql_max_def assert_equal_def)

lemma test_getColumnCountOfDistinctValues_passes:
  "\<forall>(n, tb)\<in>set (db_tables (database g)). \<not> same_name n ''test_table'' \<Longrightarrow>
   \<exists>g'. test_getColumnCountOfDistinctValues g = Return g'"
  by (erule test_table_inserted [where vs = "[''test'', ''test'', ''other'']"])
    (simp add: test_getColumnCountOfDistinctValues_def getColumnCountOfDistinctValues_def assert_equal_def)

lemma test_getTableCountOfRows_passes:
  "\<forall>(n, tb)\<in>set (db_tables (database g)). \<not> same_name n ''test_table'' \<Longrightarrow>
   \<exists>g'. test_getTableCountOfRows g = Return g'"
  by (erule test_table_inserted [where vs = "[''test'']"]) (simp add: test_getTableCountOfRows_def assert_equal_def)

lemma test_getListOfColumns_passes:
  assumes fresh: "\<forall>(n, tb)\<in>set (db_tables (database g)). \<not> same_name n ''test_table''"
  shows "\<exists>g'. test_getListOfColumns g = Return g'"
proof -
  let ?d1 = "(database g)\<lparr>db_tables := db_tables (database g) @
         [(''test_table'', \<lparr>tbl_kind = ''table'', tbl_cols = test_table_cols, tbl_rows = []\<rparr>)]\<rparr>"
  have "getListOfColumns ?d1 ''test_table'' False False = Return (Columns (map column_row_of test_table_cols))"
    using listed_test_table lookup_table_fresh [OF fresh]
    by (simp add: getListOfColumns_def getListOfTables_append getListOfTables_def)
  then show ?thesis
    using create_table_fresh [OF fresh]
    by (simp add: test_getListOfColumns_def assert_true_def test_table_cols_def column_row_of_def plain_column_def)
qed

lemma test_getListOfTables_passes:
  assumes fresh: "\<forall>(n, tb)\<in>set (db_tables (database g)). \<not> same_name n ''test_table''"
  shows "\<exists>g'. test_getListOfTables g = Return g'"
proof -
  have "find (\<lambda>r. lt_name r = ''test_table'') (getListOfTables (database g)) = None"
    using fresh_not_listed [OF fresh] by (force simp: find_None_iff)
  moreover obtain r where "getListOfTables \<lparr>db_tables = [(''test_table'',
      \<lparr>tbl_kind = ''table'', tbl_cols = test_table_cols, tbl_rows = []\<rparr>)], geometry_columns = geometry_columns (database g)\<rparr> = [r]"
    "lt_name r = ''test_table''" "lt_rows r = 0"
    using getListOfTables_single [of "\<lparr>tbl_kind = ''table'', tbl_cols = test_table_cols, tbl_rows = []\<rparr>"
        "''test_table''" "geometry_columns (database g)"] listed_test_table by auto
  ultimately show ?thesis
    using create_table_fresh [OF fresh]
    by (simp add: test_getListOfTables_def getListOfTables_append find_append_None assert_true_def assert_equal_def)
qed

section \<open>Properties\<close>


text \<open>
  C33. \<^verbatim>\<open>test_getTableHead\<close> does not pass: on every database without a table
  named \<^verbatim>\<open>test_table\<close>, its \<^verbatim>\<open>getTableHead('test_table')\<close> raises KeyError,
  because \<^verbatim>\<open>test_table\<close> has the \<^verbatim>\<open>INTEGER PRIMARY KEY\<close> column \<^verbatim>\<open>id\<close>, under
  whose name SQLite returns the selected rowid.
\<close>

theorem test_getTableHead_fails:
  assumes "\<forall>(n, tb)\<in>set (db_tables (database g)). \<not> same_name n ''test_table''"
  shows "test_getTableHead g = Raise KeyError"
proof (rule test_table_inserted [OF assms, where vs = "[''test'']"])
  fix tb d2
  assume c: "create_table (database g) ''test_table'' test_table_cols =
       Return ((database g)\<lparr>db_tables := db_tables (database g) @
         [(''test_table'', \<lparr>tbl_kind = ''table'', tbl_cols = test_table_cols, tbl_rows = []\<rparr>)]\<rparr>)"
    and i: "insert_names ((database g)\<lparr>db_tables := db_tables (database g) @
         [(''test_table'', \<lparr>tbl_kind = ''table'', tbl_cols = test_table_cols, tbl_rows = []\<rparr>)]\<rparr>) [''test''] =
       Return d2"
    and lk: "lookup_table d2 ''test_table'' = Some tb" and cols: "tbl_cols tb = test_table_cols"
  have "getTableHead d2 ''test_table'' = Raise KeyError"
    using lk cols test_cols_alias [OF cols]
    by (simp add: getTableHead_def rowid_label_def test_table_cols_def plain_column_def upt_rec)
  then show ?thesis using c i by (simp add: test_getTableHead_def)
qed


theorem test_getTableHead_fails_witness:
  "test_getTableHead (setUp inert_engine) = Raise KeyError"
proof -
  have h: "\<forall>(n, tb)\<in>set (db_tables (database (setUp inert_engine))). \<not> same_name n ''test_table''"
    by (simp add: setUp_def geodatabase_init_def inert_engine_def empty_db_def drop_if_exists_def)
  show ?thesis by (rule test_getTableHead_fails [OF h])
qed

end
