(* ===== verification/Loaders.thy ===== *)
theory Loaders
  imports RowQueries FindComponents Functions Exports
begin

text \<open>
  The loaders of \<^verbatim>\<open>Geodatabase\<close>: \<^verbatim>\<open>loadCsv\<close> and \<^verbatim>\<open>loadEmbeddedCsv\<close> read a
  CSV text with \<^verbatim>\<open>pandas.read_csv\<close> and store the frame with
  \<^verbatim>\<open>DataFrame.to_sql(table, con, if_exists=if_exists, index=False)\<close>;
  \<^verbatim>\<open>loadDataFrame\<close>, \<^verbatim>\<open>loadShpZip\<close> and \<^verbatim>\<open>toSpatialite\<close> are empty. The CSV
  parser of pandas is an interface (\<open>csv_parser\<close>): every theorem holds for every
  parser. \<^verbatim>\<open>to_sql\<close> is modelled as pandas implements it for a \<^verbatim>\<open>sqlite3\<close>
  connection. The tests \<^verbatim>\<open>test_loadCsv\<close> and \<^verbatim>\<open>test_loadEmbeddedCsv\<close> close the
  theory.
\<close>

section \<open>pandas\<close>

text \<open>Keyword arguments, with their values as \<^verbatim>\<open>str()\<close> renders them.\<close>

type_synonym kwargs = "(string \<times> string) list"

text \<open>\<^verbatim>\<open>pd.read_csv\<close> on a text: the frame it reads with the keyword arguments, or the exception it raises.\<close>

type_synonym csv_parser = "string \<Rightarrow> kwargs \<Rightarrow> frame py"

text \<open>\<^verbatim>\<open>pd.read_csv(path, ...)\<close>: the parser on the file's text; a missing file raises FileNotFoundError.\<close>

definition read_csv_path :: "csv_parser \<Rightarrow> fs \<Rightarrow> string \<Rightarrow> kwargs \<Rightarrow> frame py" where
  "read_csv_path parse s path ps =
     (case files s path of None \<Rightarrow> Raise (FileNotFoundError path) | Some content \<Rightarrow> parse content ps)"

text \<open>The rows of a frame appended with \<^verbatim>\<open>INSERT INTO t (columns) VALUES (...)\<close>, in order.\<close>

fun insert_rows :: "db \<Rightarrow> string \<Rightarrow> string list \<Rightarrow> sqlval list list \<Rightarrow> db py" where
  "insert_rows d t cols [] = Return d"
| "insert_rows d t cols (r # rs) = py_bind (insert_into d t cols r) (\<lambda>d'. insert_rows d' t cols rs)"

text \<open>
  \<^verbatim>\<open>to_sql(t, con, if_exists, index=False)\<close>: pandas rejects an unknown
  \<^verbatim>\<open>if_exists\<close>, then looks \<open>t\<close> up exactly among the tables and views. Found,
  \<^verbatim>\<open>'fail'\<close> raises ValueError, \<^verbatim>\<open>'append'\<close> inserts the rows (SQLite refuses to
  modify a view) and \<^verbatim>\<open>'replace'\<close> drops and recreates it; not found, the table is
  created.
\<close>

definition pandas_to_sql :: "db \<Rightarrow> string \<Rightarrow> frame \<Rightarrow> string \<Rightarrow> db py" where
  "pandas_to_sql d t fr if_exists =
     (if if_exists \<notin> {''fail'', ''replace'', ''append''} then Raise ValueError
      else case find (\<lambda>(n, tb'). n = t \<and> tbl_kind tb' \<in> {''table'', ''view''}) (db_tables d) of
        Some (_, tb') \<Rightarrow>
          if if_exists = ''fail'' then Raise ValueError
          else if if_exists = ''append'' then
            (if tbl_kind tb' = ''view'' then Raise (OperationalError (''cannot modify '' @ t @ '' because it is a view''))
             else insert_rows d t (fr_columns fr) (fr_rows fr))
          else pandas_replace d t (frame_table (fr_columns fr) (fr_rows fr))
      | None \<Rightarrow> pandas_replace d t (frame_table (fr_columns fr) (fr_rows fr)))"

section \<open>The loaders\<close>

definition loadCsv :: "csv_parser \<Rightarrow> fs \<Rightarrow> gdb \<Rightarrow> string \<Rightarrow> string \<Rightarrow> string \<Rightarrow> kwargs \<Rightarrow> gdb py" where
  "loadCsv parse s g csvFile table if_exists readParameters =
     py_bind (read_csv_path parse s csvFile readParameters) (\<lambda>fr.
     py_bind (pandas_to_sql (database g) table fr if_exists) (\<lambda>d.
     Return (g\<lparr>database := d\<rparr>)))"

text \<open>\<^verbatim>\<open>loadEmbeddedCsv(file, table, ...)\<close>: the same on \<^verbatim>\<open>StringIO(file)\<close>.\<close>

definition loadEmbeddedCsv :: "csv_parser \<Rightarrow> gdb \<Rightarrow> string \<Rightarrow> string \<Rightarrow> string \<Rightarrow> kwargs \<Rightarrow> gdb py" where
  "loadEmbeddedCsv parse g file table if_exists readParameters =
     py_bind (parse file readParameters) (\<lambda>fr.
     py_bind (pandas_to_sql (database g) table fr if_exists) (\<lambda>d.
     Return (g\<lparr>database := d\<rparr>)))"

text \<open>The methods whose body is \<^verbatim>\<open>pass\<close>: they return \<^verbatim>\<open>None\<close> and change nothing.\<close>

definition loadDataFrame :: "gdb \<Rightarrow> frame \<Rightarrow> string \<Rightarrow> string \<Rightarrow> kwargs \<Rightarrow> gdb py" where
  "loadDataFrame g df table if_exists readParameters = Return g"

definition loadShpZip :: "gdb \<Rightarrow> gdb py" where
  "loadShpZip g = Return g"

definition toSpatialite :: "gdb \<Rightarrow> string \<Rightarrow> string \<Rightarrow> gdb py" where
  "toSpatialite g db table = Return g"

section \<open>The tests of the loaders\<close>

text \<open>The CSV text of both tests: a newline, then three indented lines and an indented empty line.\<close>

definition test_csv_content :: string where
  "test_csv_content = nl @ ''        id,name'' @ nl @ ''        1,test1'' @ nl @ ''        2,test2'' @ nl @ ''        ''"

text \<open>
  \<^verbatim>\<open>test_loadCsv\<close>: write the text to \<^verbatim>\<open>test.csv\<close> in the temporary directory
  \<open>tmp\<close>, load it, count 2 rows, drop the table.
\<close>

definition test_loadCsv :: "csv_parser \<Rightarrow> fs \<Rightarrow> gdb \<Rightarrow> string \<Rightarrow> (fs \<times> gdb) py" where
  "test_loadCsv parse s g tmp =
     (let path = tmp @ ''/test.csv'';
          s' = s\<lparr>files := (files s)(path \<mapsto> test_csv_content)\<rparr>
      in py_bind (loadCsv parse s' g path ''test_csv'' ''replace'' [(''sep'', '','')]) (\<lambda>g1.
         py_bind (getTableCountOfRows (database g1) ''test_csv'') (\<lambda>n.
         py_bind (assert_equal n 2) (\<lambda>_.
         Return (s', g1\<lparr>database := dropTable (database g1) ''test_csv''\<rparr>)))))"

definition test_loadEmbeddedCsv :: "csv_parser \<Rightarrow> gdb \<Rightarrow> gdb py" where
  "test_loadEmbeddedCsv parse g =
     py_bind (loadEmbeddedCsv parse g test_csv_content ''test_embedded_csv'' ''replace'' [(''sep'', '','')]) (\<lambda>g1.
     py_bind (getTableCountOfRows (database g1) ''test_embedded_csv'') (\<lambda>n.
     py_bind (assert_equal n 2) (\<lambda>_.
     Return (g1\<lparr>database := dropTable (database g1) ''test_embedded_csv''\<rparr>))))"

section \<open>Example data\<close>

text \<open>
  The frame pandas reads from \<open>test_csv_content\<close> with \<^verbatim>\<open>sep=','\<close> (the header
  keeps the indentation of its first field), and a parser that returns it.
\<close>

definition demo_frame :: frame where
  "demo_frame = \<lparr>fr_index = [SqlInt 0, SqlInt 1], fr_columns = [''        id'', ''name''],
     fr_rows = [[SqlInt 1, SqlText ''test1''], [SqlInt 2, SqlText ''test2'']]\<rparr>"

definition demo_parser :: csv_parser where
  "demo_parser content ps = Return demo_frame"

section \<open>Lemmas\<close>

lemma getTableCountOfRows_lookup:
  "getTableCountOfRows d t =
     (case lookup_table d t of None \<Rightarrow> Raise (Exception ''no such table'') | Some tb \<Rightarrow> Return (length (tbl_rows tb)))"
  by (simp add: getTableCountOfRows_def lookup_table_def same_name_def case_prod_unfold split: option.split)

lemma find_update_table:
  "find (\<lambda>(n, _). same_name n t) (map (\<lambda>(n, x). if same_name n t then (n, tb') else (n, x)) ts) =
   map_option (\<lambda>(n, _). (n, tb')) (find (\<lambda>(n, _). same_name n t) ts)"
  by (induction ts) auto

lemma lookup_update_table:
  "lookup_table d t \<noteq> None \<Longrightarrow> lookup_table (update_table d t tb') t = Some tb'"
  by (auto simp: lookup_table_def update_table_def find_update_table)

lemma insert_into_lookup:
  assumes "lookup_table d t = Some tb" "list_all (\<lambda>n. column_index tb n \<noteq> None) names" "length names = length vals"
  shows "insert_into d t names vals = Return (update_table d t (tb\<lparr>tbl_rows := tbl_rows tb @ [new_row tb names vals]\<rparr>))"
  using assms by (simp add: insert_into_def)

text \<open>Appending rows into the columns of a table adds exactly that many rows.\<close>

lemma insert_rows_count:
  assumes "lookup_table d t = Some tb" "list_all (\<lambda>n. column_index tb n \<noteq> None) names"
    "\<forall>r\<in>set rs. length r = length names"
  shows "\<exists>d' tb'. insert_rows d t names rs = Return d' \<and> lookup_table d' t = Some tb' \<and>
    tbl_cols tb' = tbl_cols tb \<and> length (tbl_rows tb') = length (tbl_rows tb) + length rs"
  using assms
proof (induction rs arbitrary: d tb)
  case Nil
  then show ?case by simp
next
  case (Cons r rs)
  let ?tb1 = "tb\<lparr>tbl_rows := tbl_rows tb @ [new_row tb names r]\<rparr>"
  have ins: "insert_into d t names r = Return (update_table d t ?tb1)"
    using insert_into_lookup [OF Cons.prems(1,2)] Cons.prems(3) by simp
  have lk: "lookup_table (update_table d t ?tb1) t = Some ?tb1"
    using lookup_update_table Cons.prems(1) by blast
  have "list_all (\<lambda>n. column_index ?tb1 n \<noteq> None) names"
    using Cons.prems(2) by (simp add: column_index_def)
  then obtain d' tb' where "insert_rows (update_table d t ?tb1) t names rs = Return d'"
    "lookup_table d' t = Some tb'" "tbl_cols tb' = tbl_cols ?tb1"
    "length (tbl_rows tb') = length (tbl_rows ?tb1) + length rs"
    using Cons.IH [OF lk] Cons.prems(3) by auto
  then show ?case using ins by simp
qed

lemma pandas_to_sql_replace:
  "pandas_to_sql d t fr ''replace'' = pandas_replace d t (frame_table (fr_columns fr) (fr_rows fr))"
  by (simp add: pandas_to_sql_def split: option.split prod.split)

lemma frame_table_names [simp]: "map col_name (tbl_cols (frame_table names rows)) = names"
  by (rule nth_equalityI) (simp_all add: frame_table_def plain_column_def)

lemma column_values_frame:
  assumes "distinct (map (map ascii_lower) names)" "i < length names"
  shows "column_values (frame_table names rows) (names ! i) = Some (map (\<lambda>r. r ! i) rows)"
proof -
  have same: "same_name (names ! j) (names ! i) \<longleftrightarrow> j = i" if "j < length names" for j
    using assms that nth_eq_iff_index_eq [OF assms(1)] by (simp add: same_name_def)
  have "find (\<lambda>j. same_name (col_name (tbl_cols (frame_table names rows) ! j)) (names ! i))
      [0..<length (tbl_cols (frame_table names rows))] = Some i"
    using assms(2) same by (auto simp: find_Some_iff frame_table_def plain_column_def)
  moreover have "tbl_rows (frame_table names rows) = rows" by (simp add: frame_table_def)
  ultimately show ?thesis by (simp add: column_values_def)
qed

lemma pandas_replace_readback:
  assumes "\<forall>(n, tb)\<in>set (db_tables d). same_name n t \<longrightarrow> n = t \<and> tbl_kind tb = ''table''"
    "distinct (map (map ascii_lower) names)"
  obtains d' tb where "pandas_replace d t (frame_table names rows) = Return d'"
    "lookup_table d' t = Some tb" "map col_name (tbl_cols tb) = names"
    "map (column_values tb) names = map (\<lambda>i. Some (map (\<lambda>r. r ! i) rows)) [0..<length names]"
    "getTableCountOfRows d' t = Return (length rows)"
proof -
  let ?ts = "filter (\<lambda>(n, _). \<not> same_name n t) (db_tables d)"
  have fresh: "\<forall>(n, tb)\<in>set ?ts. \<not> same_name n t" by auto
  have "map (column_values (frame_table names rows)) names =
      map (\<lambda>i. Some (map (\<lambda>r. r ! i) rows)) [0..<length names]"
    by (rule nth_equalityI) (simp_all add: column_values_frame [OF assms(2)])
  then show ?thesis
  proof (rule that [OF pandas_replace_Return [OF assms(1)] lookup_table_fresh [OF fresh] frame_table_names])
    show "getTableCountOfRows (d\<lparr>db_tables := ?ts @ [(t, frame_table names rows)]\<rparr>) t = Return (length rows)"
      using getTableCountOfRows_fresh [OF fresh, where d = d and tb = "frame_table names rows"]
      by (simp add: frame_table_def)
  qed
qed

section \<open>Properties\<close>

text \<open>
  C34. With the default \<^verbatim>\<open>if_exists='replace'\<close>, both loaders store exactly the
  frame pandas reads, and agree: for a file holding the text, \<^verbatim>\<open>loadCsv\<close> on the
  file and \<^verbatim>\<open>loadEmbeddedCsv\<close> on the text return the same database, in which the
  table has the frame's column names, each column reads back as the frame's column,
  and \<^verbatim>\<open>getTableCountOfRows\<close> counts the frame's rows. This holds for every parser,
  when no other table has the name in another case and the frame's column names
  differ in more than case.
\<close>

theorem loaders_roundtrip:
  assumes parse: "parse content ps = Return fr" and fl: "files s path = Some content"
    and names: "\<forall>(n, tb)\<in>set (db_tables (database g)). same_name n t \<longrightarrow> n = t \<and> tbl_kind tb = ''table''"
    and dist: "distinct (map (map ascii_lower) (fr_columns fr))"
  shows "\<exists>g' tb. loadEmbeddedCsv parse g content t ''replace'' ps = Return g' \<and>
    loadCsv parse s g path t ''replace'' ps = Return g' \<and>
    lookup_table (database g') t = Some tb \<and> map col_name (tbl_cols tb) = fr_columns fr \<and>
    map (column_values tb) (fr_columns fr) =
      map (\<lambda>i. Some (map (\<lambda>r. r ! i) (fr_rows fr))) [0..<length (fr_columns fr)] \<and>
    getTableCountOfRows (database g') t = Return (length (fr_rows fr))"
proof -
  obtain d' tb where r: "pandas_replace (database g) t (frame_table (fr_columns fr) (fr_rows fr)) = Return d'"
    and lk: "lookup_table d' t = Some tb" and cn: "map col_name (tbl_cols tb) = fr_columns fr"
    and cv: "map (column_values tb) (fr_columns fr) =
      map (\<lambda>i. Some (map (\<lambda>r. r ! i) (fr_rows fr))) [0..<length (fr_columns fr)]"
    and cnt: "getTableCountOfRows d' t = Return (length (fr_rows fr))"
    by (rule pandas_replace_readback [OF names dist])
  have e: "loadEmbeddedCsv parse g content t ''replace'' ps = Return (g\<lparr>database := d'\<rparr>)"
    using parse r by (simp add: loadEmbeddedCsv_def pandas_to_sql_replace)
  have c: "loadCsv parse s g path t ''replace'' ps = Return (g\<lparr>database := d'\<rparr>)"
    using parse fl r by (simp add: loadCsv_def read_csv_path_def pandas_to_sql_replace)
  show ?thesis
    by (rule exI [where x = "g\<lparr>database := d'\<rparr>"], rule exI [where x = tb]) (simp add: e c lk cn cv cnt)
qed


text \<open>
  C36. The loader tests check the parser, not the loaders: for every parser and every
  database without tables named \<^verbatim>\<open>test_csv\<close> or \<^verbatim>\<open>test_embedded_csv\<close> in any
  case, \<^verbatim>\<open>test_loadCsv\<close> (whatever the temporary directory) and
  \<^verbatim>\<open>test_loadEmbeddedCsv\<close> pass exactly when the parser reads two rows from the
  test's CSV text.
\<close>

theorem loader_tests_iff:
  assumes parse: "parse test_csv_content [(''sep'', '','')] = Return fr"
    and fresh: "\<forall>(n, tb)\<in>set (db_tables (database g)). \<not> same_name n ''test_csv'' \<and> \<not> same_name n ''test_embedded_csv''"
  shows "((\<exists>r. test_loadCsv parse s g tmp = Return r) \<longleftrightarrow> length (fr_rows fr) = 2) \<and>
    ((\<exists>g'. test_loadEmbeddedCsv parse g = Return g') \<longleftrightarrow> length (fr_rows fr) = 2)"
proof -
  have f1: "\<forall>(n, tb)\<in>set (db_tables (database g)). \<not> same_name n ''test_csv''" using fresh by auto
  have f2: "\<forall>(n, tb)\<in>set (db_tables (database g)). \<not> same_name n ''test_embedded_csv''" using fresh by auto
  have rows: "length (tbl_rows (frame_table (fr_columns fr) (fr_rows fr))) = length (fr_rows fr)"
    by (simp add: frame_table_def)
  show ?thesis
    using parse pandas_replace_fresh [OF f1] pandas_replace_fresh [OF f2]
      getTableCountOfRows_fresh [OF f1] getTableCountOfRows_fresh [OF f2] rows
    by (simp add: test_loadCsv_def test_loadEmbeddedCsv_def loadCsv_def loadEmbeddedCsv_def read_csv_path_def
        pandas_to_sql_replace assert_equal_def)
qed

theorem loaders_roundtrip_witness:
  "demo_parser test_csv_content [(''sep'', '','')] = Return demo_frame \<and>
   files \<lparr>files = [''/tmp/test.csv'' \<mapsto> test_csv_content]\<rparr> ''/tmp/test.csv'' = Some test_csv_content \<and>
   distinct (map (map ascii_lower) (fr_columns demo_frame)) \<and>
   (\<exists>g' tb. loadEmbeddedCsv demo_parser demo_join_gdb test_csv_content ''t_csv'' ''replace'' [(''sep'', '','')] = Return g' \<and>
    loadCsv demo_parser \<lparr>files = [''/tmp/test.csv'' \<mapsto> test_csv_content]\<rparr> demo_join_gdb ''/tmp/test.csv'' ''t_csv''
      ''replace'' [(''sep'', '','')] = Return g' \<and>
    lookup_table (database g') ''t_csv'' = Some tb \<and> map col_name (tbl_cols tb) = fr_columns demo_frame \<and>
    map (column_values tb) (fr_columns demo_frame) =
      map (\<lambda>i. Some (map (\<lambda>r. r ! i) (fr_rows demo_frame))) [0..<length (fr_columns demo_frame)] \<and>
    getTableCountOfRows (database g') ''t_csv'' = Return (length (fr_rows demo_frame)))"
proof -
  have h1: "demo_parser test_csv_content [(''sep'', '','')] = Return demo_frame" by (simp add: demo_parser_def)
  have h2: "files \<lparr>files = [''/tmp/test.csv'' \<mapsto> test_csv_content]\<rparr> ''/tmp/test.csv'' = Some test_csv_content"
    by simp
  have h3: "\<forall>(n, tb)\<in>set (db_tables (database demo_join_gdb)). same_name n ''t_csv'' \<longrightarrow> n = ''t_csv'' \<and> tbl_kind tb = ''table''"
    by (simp add: demo_join_gdb_def same_name_def ascii_lower_def upper_letters_def lower_letters_def)
  have h4: "distinct (map (map ascii_lower) (fr_columns demo_frame))"
    by (simp add: demo_frame_def ascii_lower_def upper_letters_def lower_letters_def)
  show ?thesis using h1 h2 h4 loaders_roundtrip [where parse = demo_parser and content = test_csv_content
      and ps = "[(''sep'', '','')]", OF h1 h2 h3 h4] by blast
qed


theorem loader_tests_iff_witness:
  "demo_parser test_csv_content [(''sep'', '','')] = Return demo_frame \<and>
   ((\<exists>r. test_loadCsv demo_parser \<lparr>files = Map.empty\<rparr> demo_join_gdb ''/tmp/x'' = Return r) \<longleftrightarrow>
     length (fr_rows demo_frame) = 2) \<and>
   ((\<exists>g'. test_loadEmbeddedCsv demo_parser demo_join_gdb = Return g') \<longleftrightarrow> length (fr_rows demo_frame) = 2)"
proof -
  have h1: "demo_parser test_csv_content [(''sep'', '','')] = Return demo_frame" by (simp add: demo_parser_def)
  have h2: "\<forall>(n, tb)\<in>set (db_tables (database demo_join_gdb)).
      \<not> same_name n ''test_csv'' \<and> \<not> same_name n ''test_embedded_csv''"
    by (simp add: demo_join_gdb_def same_name_def ascii_lower_def upper_letters_def lower_letters_def)
  show ?thesis using h1 loader_tests_iff [where parse = demo_parser, OF h1 h2, where s = "\<lparr>files = Map.empty\<rparr>" and tmp = "''/tmp/x''"] by blast
qed

end
