(* ===== verification/Execute.thy ===== *)
theory Execute
  imports Loaders
begin

text \<open>
  \<^verbatim>\<open>Geodatabase.execute\<close> and \<^verbatim>\<open>Geodatabase.executeScript\<close>: both pass their
  SQL text through Python's \<^verbatim>\<open>str.format(**queryParameters)\<close> before SQLite
  sees it, and \<^verbatim>\<open>executeScript\<close> reads the text from \<^verbatim>\<open>../sql/{query}.sql\<close>.
  The format scanner is modelled as CPython's: \<^verbatim>\<open>{{\<close> and \<^verbatim>\<open>}}\<close> are literal
  braces, a single \<^verbatim>\<open>}\<close> raises ValueError, a replacement field runs to its
  matching \<^verbatim>\<open>}\<close> and is looked up by keyword. What follows the keyword in a field
  (attribute, index, conversion, format spec) is rendered by an interface,
  \<open>renderer\<close>; the brackets of an index are not scanned specially. The SQL
  statements themselves are interfaces too: every theorem holds for all of them.
\<close>

section \<open>str.format\<close>

text \<open>The text of a value with the rest of its field (after \<^verbatim>\<open>.\<close>, \<^verbatim>\<open>[\<close>, \<^verbatim>\<open>!\<close> or \<^verbatim>\<open>:\<close>).\<close>

type_synonym renderer = "string \<Rightarrow> string \<Rightarrow> kwargs \<Rightarrow> string py"

definition is_digits :: "string \<Rightarrow> bool" where
  "is_digits s \<longleftrightarrow> list_all (\<lambda>c. c \<in> set ''0123456789'') s"

text \<open>
  The replacement of one field: a \<^verbatim>\<open>{\<close> in the field name is a ValueError; an
  empty or numeric name asks for a positional argument, of which there are none
  (IndexError); a keyword that is not given is a KeyError.
\<close>

definition replace_field :: "renderer \<Rightarrow> kwargs \<Rightarrow> string \<Rightarrow> string py" where
  "replace_field r ps field =
     (let fname = takeWhile (\<lambda>c. c \<noteq> CHR '':'' \<and> c \<noteq> CHR ''!'') field;
          arg = takeWhile (\<lambda>c. c \<noteq> CHR ''.'' \<and> c \<noteq> CHR ''['') fname;
          rest = drop (length arg) field
      in if CHR ''{'' \<in> set fname then Raise ValueError
         else if arg = [] \<or> is_digits arg then Raise IndexError
         else case map_of ps arg of
                None \<Rightarrow> Raise KeyError
              | Some v \<Rightarrow> if rest = [] then Return v else r v rest ps)"

definition py_cons :: "char \<Rightarrow> string py \<Rightarrow> string py" where
  "py_cons c m = py_bind m (\<lambda>s. Return (c # s))"

text \<open>
  The scanner: \<open>format_text\<close> reads literal text, \<open>format_field\<close> a replacement
  field at nesting depth \<open>k\<close>, with the characters read so far.
\<close>

fun format_text :: "renderer \<Rightarrow> kwargs \<Rightarrow> string \<Rightarrow> string py"
and format_field :: "renderer \<Rightarrow> kwargs \<Rightarrow> nat \<Rightarrow> string \<Rightarrow> string \<Rightarrow> string py" where
  "format_text r ps [] = Return []"
| "format_text r ps (c # cs) =
     (if c = CHR ''{'' then
        (case cs of
           d # cs' \<Rightarrow> if d = CHR ''{'' then py_cons c (format_text r ps cs') else format_field r ps 0 [] cs
         | [] \<Rightarrow> format_field r ps 0 [] cs)
      else if c = CHR ''}'' then
        (case cs of
           d # cs' \<Rightarrow> if d = CHR ''}'' then py_cons c (format_text r ps cs') else Raise ValueError
         | [] \<Rightarrow> Raise ValueError)
      else py_cons c (format_text r ps cs))"
| "format_field r ps k acc [] = Raise ValueError"
| "format_field r ps k acc (c # cs) =
     (if c = CHR ''}'' \<and> k = 0 then
        py_bind (replace_field r ps acc) (\<lambda>v. py_bind (format_text r ps cs) (\<lambda>s. Return (v @ s)))
      else format_field r ps (if c = CHR ''{'' then Suc k else if c = CHR ''}'' then k - 1 else k) (acc @ [c]) cs)"

text \<open>\<^verbatim>\<open>query.format(**queryParameters)\<close>.\<close>

definition py_format :: "renderer \<Rightarrow> kwargs \<Rightarrow> string \<Rightarrow> string py" where
  "py_format r ps q = format_text r ps q"

text \<open>How a caller writes a text that \<^verbatim>\<open>format\<close> returns unchanged: every brace doubled.\<close>

definition escape_braces :: "string \<Rightarrow> string" where
  "escape_braces s = concat (map (\<lambda>c. if c = CHR ''{'' \<or> c = CHR ''}'' then [c, c] else [c]) s)"

section \<open>execute and executeScript\<close>

text \<open>
  \<^verbatim>\<open>execute(query, **queryParameters)\<close>: \<^verbatim>\<open>self.database.execute(query.format(...))\<close>;
  \<open>run\<close> is what SQLite does with a statement text.
\<close>

definition execute :: "renderer \<Rightarrow> (string \<Rightarrow> db \<Rightarrow> 'a py) \<Rightarrow> gdb \<Rightarrow> string \<Rightarrow> kwargs \<Rightarrow> 'a py" where
  "execute r run g query queryParameters =
     py_bind (py_format r queryParameters query) (\<lambda>q. run q (database g))"

text \<open>
  \<^verbatim>\<open>executeScript(query, **queryParameters)\<close>: open \<^verbatim>\<open>../sql/{query}.sql\<close>
  relative to the working directory, format its text, run it with
  \<^verbatim>\<open>executescript\<close>.
\<close>

definition script_path :: "string \<Rightarrow> string" where
  "script_path query = ''../sql/'' @ query @ ''.sql''"

definition executeScript ::
  "renderer \<Rightarrow> (string \<Rightarrow> db \<Rightarrow> db py) \<Rightarrow> fs \<Rightarrow> gdb \<Rightarrow> string \<Rightarrow> kwargs \<Rightarrow> gdb py" where
  "executeScript r runscript s g query queryParameters =
     (case files s (script_path query) of
        None \<Rightarrow> Raise (FileNotFoundError (script_path query))
      | Some content \<Rightarrow>
          py_bind (py_format r queryParameters content) (\<lambda>q.
          py_bind (runscript q (database g)) (\<lambda>d. Return (g\<lparr>database := d\<rparr>))))"

section \<open>The test of executeScript\<close>

definition test_script_content :: string where
  "test_script_content = nl @
     ''            CREATE TABLE test_table_script (id INTEGER PRIMARY KEY, name TEXT);'' @ nl @
     ''            INSERT INTO test_table_script (name) VALUES ('' @ sq @ ''test1'' @ sq @ '');'' @ nl @
     ''            INSERT INTO test_table_script (name) VALUES ('' @ sq @ ''test2'' @ sq @ '');'' @ nl @
     ''        ''"

text \<open>
  The Python values the test compares: an integer, or a row fetched with
  \<^verbatim>\<open>fetchone()\<close>, a tuple. A tuple is never equal to an integer.
\<close>

datatype pyval = PyInt int | PyTuple "sqlval list"

text \<open>
  \<^verbatim>\<open>test_executeScript\<close>: write the script to \<^verbatim>\<open>test_script.sql\<close> in the
  temporary directory \<open>tmp\<close>, call \<^verbatim>\<open>executeScript('test_script', path=tmp)\<close>,
  fetch the row of \<^verbatim>\<open>SELECT COUNT(*) FROM test_table_script\<close> with
  \<^verbatim>\<open>fetchone()\<close> and compare it with 2, drop the table.
\<close>

definition test_executeScript ::
  "renderer \<Rightarrow> (string \<Rightarrow> db \<Rightarrow> db py) \<Rightarrow> fs \<Rightarrow> gdb \<Rightarrow> string \<Rightarrow> (fs \<times> gdb) py" where
  "test_executeScript r runscript s g tmp =
     (let s' = s\<lparr>files := (files s)(tmp @ ''/test_script.sql'' \<mapsto> test_script_content)\<rparr>
      in py_bind (executeScript r runscript s' g ''test_script'' [(''path'', tmp)]) (\<lambda>g1.
         py_bind (getTableCountOfRows (database g1) ''test_table_script'') (\<lambda>n.
         py_bind (assert_equal (PyTuple [SqlInt (int n)]) (PyInt 2)) (\<lambda>_.
         Return (s', g1\<lparr>database := dropTable (database g1) ''test_table_script''\<rparr>)))))"

section \<open>Lemmas\<close>

lemma format_escape: "format_text r ps (escape_braces s) = Return s"
  by (induction s) (auto simp: escape_braces_def py_cons_def)

lemma escape_braces_id: "CHR ''{'' \<notin> set s \<Longrightarrow> CHR ''}'' \<notin> set s \<Longrightarrow> escape_braces s = s"
  by (induction s) (auto simp: escape_braces_def)

text \<open>Literal text without braces is copied.\<close>

lemma format_text_append:
  "CHR ''{'' \<notin> set a \<Longrightarrow> CHR ''}'' \<notin> set a \<Longrightarrow>
   format_text r ps (a @ rest) = py_bind (format_text r ps rest) (\<lambda>s. Return (a @ s))"
proof (induction a)
  case Nil
  then show ?case by (cases "format_text r ps rest") (auto simp: py_bind_def split: sum.split)
next
  case (Cons c a)
  then show ?case
    by (cases "format_text r ps rest") (auto simp: py_cons_def py_bind_def split: sum.split)
qed

text \<open>A field name without braces is read up to its closing brace.\<close>

lemma format_field_name:
  "CHR ''{'' \<notin> set n \<Longrightarrow> CHR ''}'' \<notin> set n \<Longrightarrow>
   format_field r ps 0 acc (n @ CHR ''}'' # b) =
     py_bind (replace_field r ps (acc @ n)) (\<lambda>v. py_bind (format_text r ps b) (\<lambda>s. Return (v @ s)))"
  by (induction n arbitrary: acc) auto

lemma replace_field_missing:
  assumes "n \<noteq> []" "\<not> is_digits n" "set n \<inter> set ''{}:!.['' = {}" "map_of ps n = None"
  shows "replace_field r ps n = Raise KeyError"
proof -
  have t1: "takeWhile (\<lambda>c. c \<noteq> CHR '':'' \<and> c \<noteq> CHR ''!'') n = n"
    using assms(3) by (auto simp: takeWhile_eq_all_conv)
  have t2: "takeWhile (\<lambda>c. c \<noteq> CHR ''.'' \<and> c \<noteq> CHR ''['') n = n"
    using assms(3) by (auto simp: takeWhile_eq_all_conv)
  have "CHR ''{'' \<notin> set n" using assms(3) by auto
  then show ?thesis using assms(1,2,4) unfolding replace_field_def Let_def t1 t2 by simp
qed

section \<open>Properties\<close>

text \<open>
  C37. What \<^verbatim>\<open>execute\<close> hands to SQLite: a query without braces unchanged,
  whatever the parameters; and every text, when its braces are doubled. The formatting
  is a round trip on escaped text.
\<close>

theorem execute_query_text:
  "execute r run g (escape_braces q) ps = run q (database g) \<and>
   (CHR ''{'' \<notin> set q \<and> CHR ''}'' \<notin> set q \<longrightarrow> execute r run g q ps = run q (database g))"
proof (intro conjI impI)
  show "execute r run g (escape_braces q) ps = run q (database g)"
    by (simp add: execute_def py_format_def format_escape)
next
  assume "CHR ''{'' \<notin> set q \<and> CHR ''}'' \<notin> set q"
  then have "escape_braces q = q" using escape_braces_id [of q] by blast
  then show "execute r run g q ps = run q (database g)"
    using format_escape [of r ps q] by (simp add: execute_def py_format_def)
qed

text \<open>
  C38. \<^verbatim>\<open>execute\<close> cannot send a query that contains a brace-delimited word
  which is not one of its parameters, such as the JSON literal in
  \<^verbatim>\<open>select '{"a":1}'\<close>: \<^verbatim>\<open>str.format\<close> raises KeyError before SQLite runs
  anything.
\<close>

theorem execute_brace_KeyError:
  assumes "CHR ''{'' \<notin> set a" "CHR ''}'' \<notin> set a" "n \<noteq> []" "\<not> is_digits n"
    "set n \<inter> set ''{}:!.['' = {}" "map_of ps n = None"
  shows "execute r run g (a @ CHR ''{'' # n @ CHR ''}'' # b) ps = Raise KeyError"
proof -
  obtain c n' where n: "n = c # n'" using assms(3) by (cases n) auto
  have c: "c \<noteq> CHR ''{''" using assms(5) n by auto
  have nb: "CHR ''{'' \<notin> set n" "CHR ''}'' \<notin> set n" using assms(5) by auto
  have ff: "format_field r ps 0 [] (n @ CHR ''}'' # b) = Raise KeyError"
    using format_field_name [OF nb, of r ps "[]" b] replace_field_missing [OF assms(3-6), of r] by simp
  have "format_text r ps (CHR ''{'' # n @ CHR ''}'' # b) = format_field r ps 0 [] (n @ CHR ''}'' # b)"
    using c by (simp add: n)
  then show ?thesis using ff format_text_append [OF assms(1,2)] by (simp add: execute_def py_format_def)
qed


theorem execute_query_text_witness:
  "execute (\<lambda>v rest ps. Return v) (\<lambda>q d. Return q) demo_join_gdb (escape_braces (''select '' @ sq @ ''{}'' @ sq))
     [(''t'', ''pts'')] = Return (''select '' @ sq @ ''{}'' @ sq) \<and>
   CHR ''{'' \<notin> set ''select count(*) from pts'' \<and> CHR ''}'' \<notin> set ''select count(*) from pts'' \<and>
   execute (\<lambda>v rest ps. Return v) (\<lambda>q d. Return q) demo_join_gdb ''select count(*) from pts'' [(''t'', ''pts'')] =
     Return ''select count(*) from pts''"
proof -
  note c1 = execute_query_text [where r = "\<lambda>v rest ps. Return v" and run = "\<lambda>q d. Return q" and g = demo_join_gdb
      and q = "''select '' @ sq @ ''{}'' @ sq" and ps = "[(''t'', ''pts'')]"]
  note c2 = execute_query_text [where r = "\<lambda>v rest ps. Return v" and run = "\<lambda>q d. Return q" and g = demo_join_gdb
      and q = "''select count(*) from pts''" and ps = "[(''t'', ''pts'')]"]
  have h: "CHR ''{'' \<notin> set ''select count(*) from pts'' \<and> CHR ''}'' \<notin> set ''select count(*) from pts''" by simp
  show ?thesis using c1 c2 h by simp
qed

theorem execute_brace_KeyError_witness:
  "execute (\<lambda>v rest ps. Return v) (\<lambda>q d. Return q) demo_join_gdb
     (''select '' @ sq @ CHR ''{'' # ''\"a\"'' @ CHR ''}'' # '':1'' @ sq) [] = Raise KeyError"
proof -
  have h1: "CHR ''{'' \<notin> set (''select '' @ sq)" and h2: "CHR ''}'' \<notin> set (''select '' @ sq)"
    by (simp_all add: sq_def)
  have h3: "''\"a\"'' \<noteq> []" and h4: "\<not> is_digits ''\"a\"''" and h5: "set ''\"a\"'' \<inter> set ''{}:!.['' = {}"
    and h6: "map_of [] ''\"a\"'' = (None :: string option)"
    by (simp_all add: is_digits_def)
  show ?thesis
    using execute_brace_KeyError [OF h1 h2 h3 h4 h5 h6, where r = "\<lambda>v rest ps. Return v"
        and run = "\<lambda>q d. Return q" and g = demo_join_gdb and b = "'':1'' @ sq"]
    by simp
qed


end
