(* ===== verification/Session.thy ===== *)
theory Session
  imports Execute
begin

text \<open>
  The connection behind a \<^verbatim>\<open>Geodatabase\<close> as Python's \<^verbatim>\<open>sqlite3\<close> drives it, over a
  sequence of method calls: \<^verbatim>\<open>attach\<close>, \<^verbatim>\<open>close\<close>, \<^verbatim>\<open>execute\<close>,
  \<^verbatim>\<open>executeScript\<close> and \<^verbatim>\<open>correctGeometry\<close>. The state \<open>session\<close> pairs what the
  connection reads (\<open>live\<close>) with what is committed to the database file (\<open>disk\<close>).
  With the default \<^verbatim>\<open>isolation_level\<close>, \<^verbatim>\<open>sqlite3\<close> sends \<^verbatim>\<open>BEGIN\<close> before a
  statement whose first keyword is INSERT, UPDATE, DELETE or REPLACE when no transaction
  is open (\<open>is_dml\<close>, CPython 3.11's \<^verbatim>\<open>lstrip_sql\<close>); every other statement
  outside a transaction is committed when it ends; \<^verbatim>\<open>executescript\<close> commits first and
  runs its script in autocommit mode; \<^verbatim>\<open>close()\<close> rolls back an open transaction.
  The class has no method that commits. Statements that control transactions
  themselves (\<^verbatim>\<open>COMMIT\<close>, \<^verbatim>\<open>SAVEPOINT\<close>, ...) are what the statement interface
  does with them, and the theorems below do not send them.
\<close>

section \<open>State\<close>

record session =
  live :: gdb
  disk :: db
  in_txn :: bool
  is_open :: bool
  attached :: "(string \<times> string) list"

text \<open>\<^verbatim>\<open>close\<close> also calls SpatiaLite's \<^verbatim>\<open>UpdateLayerStatistics()\<close>.\<close>

record session_engine = engine +
  update_layer_statistics :: "db \<Rightarrow> db"

definition closed_error :: "'a py" where
  "closed_error = Raise (ProgrammingError ''Cannot operate on a closed database.'')"

section \<open>sqlite3's implicit transactions\<close>

definition sql_space :: string where
  "sql_space = [CHR '' '', CHR 0x09, CHR 0x0C, CHR 0x0A, CHR 0x0D]"

fun comment_end :: "string \<Rightarrow> string option" where
  "comment_end (a # b # r) = (if a = CHR ''*'' \<and> b = CHR ''/'' then Some r else comment_end (b # r))"
| "comment_end _ = None"

lemma comment_end_length: "comment_end r = Some rest \<Longrightarrow> length rest < length r"
  by (induction r rule: comment_end.induct) (auto split: if_splits)

text \<open>\<^verbatim>\<open>lstrip_sql\<close>: skip white space, \<^verbatim>\<open>--\<close> line comments and \<^verbatim>\<open>/* */\<close> comments.\<close>

function lstrip_sql :: "string \<Rightarrow> string" where
  "lstrip_sql [] = []"
| "lstrip_sql (c # cs) =
     (if c \<in> set sql_space then lstrip_sql cs
      else if c = CHR ''-'' \<and> take 1 cs = ''-'' then
        (case dropWhile (\<lambda>x. x \<noteq> CHR 0x0A) (drop 1 cs) of [] \<Rightarrow> [] | _ # rest \<Rightarrow> lstrip_sql rest)
      else if c = CHR ''/'' \<and> take 1 cs = ''*'' then
        (case comment_end (drop 1 cs) of None \<Rightarrow> [] | Some rest \<Rightarrow> lstrip_sql rest)
      else c # cs)"
  by pat_completeness auto
termination
proof (relation "measure length")
  fix c cs x rest
  assume "dropWhile (\<lambda>x. x \<noteq> CHR 0x0A) (drop 1 cs) = x # rest"
  then have "length rest < length (drop 1 cs)" by (rule dropWhile_Cons_length)
  then show "(rest, c # cs) \<in> measure length" by simp
next
  fix c cs rest
  assume "comment_end (drop 1 cs) = Some rest"
  then have "length rest < length (drop 1 cs)" by (rule comment_end_length)
  then show "(rest, c # cs) \<in> measure length" by simp
qed auto

definition is_dml :: "string \<Rightarrow> bool" where
  "is_dml q \<longleftrightarrow>
     (let p = map ascii_lower (lstrip_sql q)
      in take 6 p \<in> {''insert'', ''update'', ''delete''} \<or> take 7 p = ''replace'')"

text \<open>
  One statement that changed the database to \<open>g'\<close>: a DML statement opens a
  transaction if none is open; outside a transaction the change is committed.
\<close>

definition run_statement :: "bool \<Rightarrow> session \<Rightarrow> gdb \<Rightarrow> session" where
  "run_statement dml s g' =
     (let t = (dml \<or> in_txn s)
      in s\<lparr>live := g', in_txn := t, disk := (if t then disk s else database g')\<rparr>)"

section \<open>The methods on a connection\<close>

text \<open>
  \<^verbatim>\<open>Geodatabase(db, srid, recreate)\<close> commits after the metadata and drops
  \<^verbatim>\<open>data_licenses\<close> outside any transaction.
\<close>

definition open_session :: "session_engine \<Rightarrow> db \<Rightarrow> bool \<Rightarrow> bool \<Rightarrow> int \<Rightarrow> session" where
  "open_session e stored dbExists recreate s =
     (let g = geodatabase_init (engine.truncate e) stored dbExists recreate s
      in \<lparr>live = g, disk = database g, in_txn = False, is_open = True, attached = []\<rparr>)"

text \<open>\<^verbatim>\<open>execute\<close>: the text is formatted first, then the connection runs it.\<close>

definition execute_session ::
  "renderer \<Rightarrow> (string \<Rightarrow> db \<Rightarrow> db py) \<Rightarrow> session \<Rightarrow> string \<Rightarrow> kwargs \<Rightarrow> session py" where
  "execute_session r stmt s query queryParameters =
     py_bind (execute r (\<lambda>q d. if is_open s then py_bind (stmt q d) (\<lambda>d'. Return (q, d')) else closed_error)
                (live s) query queryParameters)
       (\<lambda>(q, d'). Return (run_statement (is_dml q) s ((live s)\<lparr>database := d'\<rparr>)))"

definition executeScript_session ::
  "renderer \<Rightarrow> (string \<Rightarrow> db \<Rightarrow> db py) \<Rightarrow> fs \<Rightarrow> session \<Rightarrow> string \<Rightarrow> kwargs \<Rightarrow> session py" where
  "executeScript_session r runscript fls s query queryParameters =
     py_bind (executeScript r (\<lambda>q d. if is_open s then runscript q d else closed_error) fls (live s) query queryParameters)
       (\<lambda>g'. Return (s\<lparr>live := g', disk := database g', in_txn := False\<rparr>))"

text \<open>\<^verbatim>\<open>correctGeometry\<close>: the count is a SELECT; the UPDATE, sent only when it is positive, is DML.\<close>

definition correctGeometry_session :: "session_engine \<Rightarrow> session \<Rightarrow> string \<Rightarrow> string \<Rightarrow> session py" where
  "correctGeometry_session e s table geometry =
     (if \<not> is_open s then closed_error
      else let e' = engine.truncate e
           in Return (run_statement (0 < geometryCountOfErrors e' (live s) table geometry) s
                        (correctGeometry e' (live s) table geometry)))"

text \<open>
  \<^verbatim>\<open>attach(path, alias)\<close> sends \<^verbatim>\<open>attach '{path}' as {alias}\<close>. SQLite reads the
  path as a string literal (a doubled quote is one quote) and the alias as a bare
  identifier; the model reports every other text as a syntax error (SQLite accepts some
  of them, those that inject further SQL, and rejects keywords as aliases, which the
  model does not). At most ten databases are attached; \<^verbatim>\<open>main\<close>, \<^verbatim>\<open>temp\<close> and the
  attached names are in use, in any case.
\<close>

fun sql_literal :: "string \<Rightarrow> string option" where
  "sql_literal [] = Some []"
| "sql_literal (c # cs) =
     (if c = CHR 0x27 then
        (case cs of d # ds \<Rightarrow> if d = CHR 0x27 then map_option (Cons c) (sql_literal ds) else None
                  | [] \<Rightarrow> None)
      else map_option (Cons c) (sql_literal cs))"

definition id_start :: "char \<Rightarrow> bool" where
  "id_start c \<longleftrightarrow> c \<in> set (''_'' @ ''abcdefghijklmnopqrstuvwxyzABCDEFGHIJKLMNOPQRSTUVWXYZ'') \<or> (128::nat) \<le> of_char c"

definition sql_identifier :: "string \<Rightarrow> bool" where
  "sql_identifier a \<longleftrightarrow>
     a \<noteq> [] \<and> id_start (hd a) \<and> list_all (\<lambda>c. id_start c \<or> c \<in> set ''0123456789$'') a"

definition attach_session :: "session \<Rightarrow> string \<Rightarrow> string \<Rightarrow> session py" where
  "attach_session s path alias =
     (if \<not> is_open s then closed_error
      else case sql_literal path of
        None \<Rightarrow> Raise (OperationalError ''syntax error'')
      | Some fname \<Rightarrow>
          if \<not> sql_identifier alias then Raise (OperationalError ''syntax error'')
          else if 10 \<le> length (attached s) then Raise (OperationalError ''too many attached databases - max 10'')
          else if list_ex (same_name alias) (''main'' # ''temp'' # map fst (attached s))
          then Raise (OperationalError (''database '' @ alias @ '' is already in use''))
          else Return (s\<lparr>attached := attached s @ [(alias, fname)]\<rparr>))"

text \<open>
  \<^verbatim>\<open>close()\<close>: \<^verbatim>\<open>select UpdateLayerStatistics();\<close>, a statement that is not DML,
  then \<^verbatim>\<open>Connection.close()\<close>, which rolls back an open transaction.
\<close>

definition close_session :: "session_engine \<Rightarrow> session \<Rightarrow> session py" where
  "close_session e s =
     (if \<not> is_open s then closed_error
      else let s1 = run_statement False s ((live s)\<lparr>database := update_layer_statistics e (database (live s))\<rparr>)
           in Return (s1\<lparr>live := (live s1)\<lparr>database := disk s1\<rparr>, in_txn := False, is_open := False,
                        attached := []\<rparr>))"

section \<open>Sequences of calls\<close>

record session_env =
  env_renderer :: renderer
  env_statement :: "string \<Rightarrow> db \<Rightarrow> db py"
  env_script :: "string \<Rightarrow> db \<Rightarrow> db py"
  env_files :: fs
  env_engine :: session_engine

datatype session_op =
    ExecuteOp string kwargs
  | ExecuteScriptOp string kwargs
  | CorrectGeometryOp string string
  | AttachOp string string
  | CloseOp

fun session_step :: "session_env \<Rightarrow> session \<Rightarrow> session_op \<Rightarrow> session py" where
  "session_step v s (ExecuteOp q ps) = execute_session (env_renderer v) (env_statement v) s q ps"
| "session_step v s (ExecuteScriptOp q ps) =
     executeScript_session (env_renderer v) (env_script v) (env_files v) s q ps"
| "session_step v s (CorrectGeometryOp t c) = correctGeometry_session (env_engine v) s t c"
| "session_step v s (AttachOp p a) = attach_session s p a"
| "session_step v s CloseOp = close_session (env_engine v) s"

fun run_session :: "session_env \<Rightarrow> session \<Rightarrow> session_op list \<Rightarrow> session py" where
  "run_session v s [] = Return s"
| "run_session v s (op # ops) = py_bind (session_step v s op) (\<lambda>s'. run_session v s' ops)"

text \<open>The calls after which a transaction that is open stays open.\<close>

fun keeps_transaction :: "session_op \<Rightarrow> bool" where
  "keeps_transaction (ExecuteOp q ps) \<longleftrightarrow> CHR ''{'' \<notin> set q \<and> CHR ''}'' \<notin> set q \<and> is_dml q"
| "keeps_transaction (CorrectGeometryOp t c) \<longleftrightarrow> True"
| "keeps_transaction (AttachOp p a) \<longleftrightarrow> True"
| "keeps_transaction _ \<longleftrightarrow> False"

text \<open>Committed state and transaction agree: outside a transaction everything is on disk.\<close>

definition session_ok :: "session \<Rightarrow> bool" where
  "session_ok s \<longleftrightarrow>
     (\<not> in_txn s \<longrightarrow> disk s = database (live s)) \<and> (\<not> is_open s \<longrightarrow> \<not> in_txn s) \<and>
     length (attached s) \<le> 10"

text \<open>The states a connection reaches: opened by the constructor, then any call that returns.\<close>

inductive session_reach :: "session_env \<Rightarrow> session \<Rightarrow> bool" for v where
  opened: "session_reach v (open_session (env_engine v) stored dbExists recreate n)"
| step: "session_reach v s \<Longrightarrow> session_step v s op = Return s' \<Longrightarrow> session_reach v s'"

text \<open>
  A SpatiaLite for the examples: the geometry \<open>15\<close> is invalid and
  \<^verbatim>\<open>st_makeValid\<close> makes it \<open>16\<close>.
\<close>

definition demo_make_valid :: "db \<Rightarrow> string \<Rightarrow> string \<Rightarrow> db" where
  "demo_make_valid d t c = d\<lparr>db_tables := map (\<lambda>(n, tb). (n, if n = t
      then tb\<lparr>tbl_rows := map (map (\<lambda>x. if x = SqlInt 15 then SqlInt 16 else x)) (tbl_rows tb)\<rparr> else tb))
      (db_tables d)\<rparr>"

definition demo_session_engine :: session_engine where
  "demo_session_engine = engine.extend
     (inert_engine\<lparr>count_invalid := \<lambda>d t c. (case lookup_table d t of None \<Rightarrow> 0
         | Some tb \<Rightarrow> length (filter (\<lambda>r. SqlInt 15 \<in> set r) (tbl_rows tb))),
       make_valid := demo_make_valid\<rparr>)
     (session_engine.fields (\<lambda>d. d))"

definition demo_session_env :: session_env where
  "demo_session_env = \<lparr>env_renderer = (\<lambda>v rest ps. Return v), env_statement = (\<lambda>q d. Return d),
     env_script = (\<lambda>q d. Return d), env_files = \<lparr>files = Map.empty\<rparr>, env_engine = demo_session_engine\<rparr>"

section \<open>Lemmas\<close>

lemma run_session_append:
  "run_session v s (xs @ ys) = py_bind (run_session v s xs) (\<lambda>s'. run_session v s' ys)"
  by (induction xs arbitrary: s) (auto simp: py_bind_def split: option.splits sum.splits)

lemma run_statement_disk [simp]:
  "dml \<or> in_txn s \<Longrightarrow> disk (run_statement dml s g) = disk s"
  by (auto simp: run_statement_def)

lemma run_statement_fields [simp]:
  "live (run_statement dml s g) = g" "is_open (run_statement dml s g) = is_open s"
  "attached (run_statement dml s g) = attached s"
  "in_txn (run_statement dml s g) = (dml \<or> in_txn s)"
  by (simp_all add: run_statement_def Let_def)

lemma run_statement_ok:
  "is_open s \<Longrightarrow> session_ok s \<Longrightarrow> session_ok (run_statement dml s g)"
  by (auto simp: session_ok_def run_statement_def Let_def)

text \<open>A text without braces is sent as it is.\<close>

lemma execute_plain:
  "CHR ''{'' \<notin> set q \<Longrightarrow> CHR ''}'' \<notin> set q \<Longrightarrow> execute r run g q ps = run q (database g)"
  using format_text_append [where a = q and rest = "[]" and r = r and ps = ps]
  by (simp add: execute_def py_format_def py_bind_def)

text \<open>What each method leaves when it returns.\<close>

lemma execute_session_Return:
  "execute_session r stmt s query ps = Return s' \<Longrightarrow>
   is_open s \<and> (\<exists>q d'. s' = run_statement (is_dml q) s ((live s)\<lparr>database := d'\<rparr>))"
  by (auto simp: execute_session_def execute_def py_bind_def closed_error_def
           split: option.splits sum.splits if_splits)

lemma executeScript_session_Return:
  "executeScript_session r runscript fls s query ps = Return s' \<Longrightarrow>
   is_open s \<and> (\<exists>g'. s' = s\<lparr>live := g', disk := database g', in_txn := False\<rparr>)"
  by (auto simp: executeScript_session_def executeScript_def py_bind_def closed_error_def
           split: option.splits sum.splits if_splits)

lemma correctGeometry_session_Return:
  "correctGeometry_session e s table geometry = Return s' \<Longrightarrow>
   is_open s \<and> s' = run_statement (0 < geometryCountOfErrors (engine.truncate e) (live s) table geometry) s
                      (correctGeometry (engine.truncate e) (live s) table geometry)"
  by (auto simp: correctGeometry_session_def closed_error_def Let_def split: if_splits)

lemma attach_session_Return:
  "attach_session s path alias = Return s' \<Longrightarrow>
   is_open s \<and> length (attached s) < 10 \<and> (\<exists>fname. s' = s\<lparr>attached := attached s @ [(alias, fname)]\<rparr>)"
  by (auto simp: attach_session_def closed_error_def split: option.splits if_splits)

lemma close_session_Return:
  "close_session e s = Return s' \<Longrightarrow>
   is_open s \<and> \<not> is_open s' \<and> \<not> in_txn s' \<and> attached s' = [] \<and>
   disk s' = (if in_txn s then disk s else update_layer_statistics e (database (live s))) \<and>
   database (live s') = disk s'"
  by (auto simp: close_session_def closed_error_def run_statement_def Let_def split: if_splits)

lemmas session_Return =
  execute_session_Return executeScript_session_Return correctGeometry_session_Return
  attach_session_Return close_session_Return

text \<open>Every call keeps the invariant, so every run from an opened geodatabase does.\<close>

lemma open_session_ok: "session_ok (open_session e stored dbExists recreate n)"
  by (simp add: session_ok_def open_session_def Let_def)

lemma session_step_ok:
  assumes "session_ok s" "session_step v s op = Return s'"
  shows "session_ok s'"
  using assms
proof (cases op)
  case (ExecuteOp q ps)
  then show ?thesis using assms by (auto dest!: execute_session_Return intro: run_statement_ok)
next
  case (ExecuteScriptOp q ps)
  then show ?thesis using assms by (auto simp: session_ok_def dest!: executeScript_session_Return)
next
  case (CorrectGeometryOp t c)
  then show ?thesis using assms by (auto dest!: correctGeometry_session_Return intro: run_statement_ok)
next
  case (AttachOp p a)
  then show ?thesis using assms by (auto simp: session_ok_def dest!: attach_session_Return)
next
  case CloseOp
  then show ?thesis using assms by (auto simp: session_ok_def dest!: close_session_Return)
qed

lemma run_session_ok:
  "session_ok s \<Longrightarrow> run_session v s ops = Return s' \<Longrightarrow> session_ok s'"
proof (induction ops arbitrary: s)
  case (Cons op ops)
  then obtain s1 where "session_step v s op = Return s1" "run_session v s1 ops = Return s'"
    by (auto simp: py_bind_def split: option.splits sum.splits)
  then show ?case using Cons session_step_ok by blast
qed simp

text \<open>After \<^verbatim>\<open>close\<close>, no call returns.\<close>

lemma closed_session_step:
  "\<not> is_open s \<Longrightarrow> session_step v s op \<noteq> Return s'"
  by (cases op) (auto dest: session_Return)

text \<open>Every reachable state satisfies the invariant (rule induction).\<close>

lemma session_reach_ok: "session_reach v s \<Longrightarrow> session_ok s"
  by (induction rule: session_reach.induct) (auto intro: open_session_ok session_step_ok)

text \<open>
  From every reachable state a closed connection is reached (by \<^verbatim>\<open>close()\<close> when it
  is open), whose file holds what it reads, and which no call leaves.
\<close>

lemma session_reach_closes:
  assumes "session_reach v s"
  shows "\<exists>ops s'. run_session v s ops = Return s' \<and> \<not> is_open s' \<and> database (live s') = disk s' \<and>
                  (\<forall>op s''. session_step v s' op \<noteq> Return s'')"
proof (cases "is_open s")
  case True
  then obtain s' where c: "close_session (env_engine v) s = Return s'"
    by (simp add: close_session_def Let_def)
  then have "\<not> is_open s'" "database (live s') = disk s'"
    using close_session_Return by blast+
  moreover have "run_session v s [CloseOp] = Return s'"
    using c by (simp add: py_bind_def)
  ultimately show ?thesis using closed_session_step by blast
next
  case False
  with session_reach_ok [OF assms] have "database (live s) = disk s"
    by (simp add: session_ok_def)
  moreover have "run_session v s [] = Return s" by simp
  ultimately show ?thesis using False closed_session_step by blast
qed

text \<open>An open transaction stays open, and the file unchanged, through the calls that keep it.\<close>

lemma keeps_transaction_step:
  assumes "in_txn s" "keeps_transaction op" "session_step v s op = Return s'"
  shows "in_txn s' \<and> is_open s' \<and> disk s' = disk s"
  using assms by (cases op) (auto dest!: session_Return)

lemma keeps_transaction_run:
  "in_txn s \<Longrightarrow> is_open s \<Longrightarrow> list_all keeps_transaction ops \<Longrightarrow> run_session v s ops = Return s' \<Longrightarrow>
   in_txn s' \<and> is_open s' \<and> disk s' = disk s"
proof (induction ops arbitrary: s)
  case (Cons op ops)
  then obtain s1 where "session_step v s op = Return s1" "run_session v s1 ops = Return s'"
    by (auto simp: py_bind_def split: option.splits sum.splits)
  then show ?case using Cons keeps_transaction_step by fastforce
qed simp


section \<open>Properties\<close>

text \<open>
  C40: \<^verbatim>\<open>close()\<close> discards the geometry corrections. On an open geodatabase
  outside a transaction, a \<^verbatim>\<open>correctGeometry\<close> that finds invalid geometries
  opens a transaction with its UPDATE; after further corrections, attachments and DML
  statements, \<^verbatim>\<open>close()\<close> rolls it back: the database file holds exactly the
  database as it was before the correction, and so does the closed connection.
\<close>

theorem close_discards_correction:
  assumes "session_ok s" "is_open s" "\<not> in_txn s"
    "0 < geometryCountOfErrors (engine.truncate (env_engine v)) (live s) table geometry"
    "list_all keeps_transaction ops"
    "run_session v s (CorrectGeometryOp table geometry # ops @ [CloseOp]) = Return s'"
  shows "disk s' = database (live s) \<and> database (live s') = database (live s) \<and> \<not> is_open s'"
proof -
  from assms(6) obtain s1 s2 where 1: "correctGeometry_session (env_engine v) s table geometry = Return s1"
    and 2: "run_session v s1 ops = Return s2" and 3: "close_session (env_engine v) s2 = Return s'"
    by (auto simp: run_session_append py_bind_def split: option.splits sum.splits)
  from 1 assms(4) have "in_txn s1" "is_open s1" "disk s1 = disk s"
    by (auto dest!: correctGeometry_session_Return)
  then have "in_txn s2" "disk s2 = disk s"
    using keeps_transaction_run [OF _ _ assms(5) 2] by simp_all
  with 3 have "disk s' = disk s" "database (live s') = disk s" "\<not> is_open s'"
    by (auto dest!: close_session_Return)
  moreover from assms(1,3) have "disk s = database (live s)"
    by (simp add: session_ok_def)
  ultimately show ?thesis by simp
qed


theorem close_discards_correction_witness:
  "\<exists>s'. run_session demo_session_env (open_session demo_session_engine (database demo_join_gdb) True False 31370)
          (CorrectGeometryOp ''pts'' ''geometry'' #
           [AttachOp ''archive.sqlite'' ''archive'', ExecuteOp ''insert into pts values (4)'' []] @ [CloseOp])
          = Return s' \<and>
        disk s' = database demo_join_gdb \<and>
        database (correctGeometry (engine.truncate demo_session_engine) demo_join_gdb ''pts'' ''geometry'')
          \<noteq> database demo_join_gdb"
proof -
  let ?s = "open_session demo_session_engine (database demo_join_gdb) True False 31370"
  let ?ops = "[AttachOp ''archive.sqlite'' ''archive'', ExecuteOp ''insert into pts values (4)'' []]"
  have live: "live ?s = demo_join_gdb"
    by (simp add: open_session_def geodatabase_init_def drop_if_exists_def demo_join_gdb_def same_name_def)
  have op: "is_open ?s" "\<not> in_txn ?s"
    by (simp_all add: open_session_def Let_def)
  have "0 < geometryCountOfErrors (engine.truncate (env_engine demo_session_env)) demo_join_gdb ''pts'' ''geometry''"
    by code_simp
  then have cnt: "0 < geometryCountOfErrors (engine.truncate (env_engine demo_session_env)) (live ?s) ''pts'' ''geometry''"
    by (simp only: live)
  have ks: "list_all keeps_transaction ?ops"
    by code_simp
  have "\<exists>s'. run_session demo_session_env ?s (CorrectGeometryOp ''pts'' ''geometry'' # ?ops @ [CloseOp]) = Return s'"
    by (rule py_returns) code_simp
  then obtain s' where run: "run_session demo_session_env ?s (CorrectGeometryOp ''pts'' ''geometry'' # ?ops @ [CloseOp]) = Return s'" ..
  have "disk s' = database (live ?s)"
    using close_discards_correction [OF open_session_ok op cnt ks run] by simp
  then have "disk s' = database demo_join_gdb"
    by (simp only: live)
  moreover have "database (correctGeometry (engine.truncate demo_session_engine) demo_join_gdb ''pts'' ''geometry'')
          \<noteq> database demo_join_gdb"
    by code_simp
  ultimately show ?thesis using run by blast
qed

end
