(* ===== verification/SpatialTests.thy ===== *)
theory SpatialTests
  imports UnitTests Session
begin

text \<open>
  The tests of \<^verbatim>\<open>src/testGeodatabase.py\<close> that exercise SpatiaLite and the
  connection: \<^verbatim>\<open>tearDown\<close>, \<^verbatim>\<open>test_attach\<close>, \<^verbatim>\<open>test_checksForTable\<close>,
  \<^verbatim>\<open>test_close\<close>, \<^verbatim>\<open>test_correctGeometry\<close>, \<^verbatim>\<open>test_createSpatialIndex\<close>,
  \<^verbatim>\<open>test_dropTable\<close>, \<^verbatim>\<open>test_geometryCountOfErrors\<close>,
  \<^verbatim>\<open>test_getGeometriesMetadata\<close>, \<^verbatim>\<open>test_inspectGeometry\<close> and
  \<^verbatim>\<open>test_loadShp\<close>. Their statements create tables and insert geometries built by
  SpatiaLite (\<^verbatim>\<open>GeomFromText\<close>), so what SQLite with SpatiaLite does with a
  statement is an interface, \<open>run\<close>, and so is the first value a query returns,
  \<open>fetch\<close> (\<^verbatim>\<open>fetchone()[0]\<close>). The statement texts are the tests' up to white space
  and comments; \<^verbatim>\<open>{self.db.srid}\<close> in an f-string is the decimal SRID. The
  queries on \<^verbatim>\<open>geometry_columns\<close> and \<^verbatim>\<open>sqlite_master\<close> are computed from the
  model's catalog, comparing names with \<^verbatim>\<open>=\<close> (case-sensitive).
\<close>

section \<open>Fixture\<close>

text \<open>\<^verbatim>\<open>setUp\<close> as a connection, and \<^verbatim>\<open>tearDown\<close>: \<^verbatim>\<open>self.db.close()\<close> (the temporary directory is then removed).\<close>

definition setUp_session :: "session_engine \<Rightarrow> session" where
  "setUp_session e = open_session e empty_db False False 31370"

definition tearDown :: "session_engine \<Rightarrow> session \<Rightarrow> session py" where
  "tearDown e s = close_session e s"

section \<open>Queries the tests compute\<close>

text \<open>\<^verbatim>\<open>SELECT name FROM sqlite_master WHERE type='table' AND name=n\<close> has a row.\<close>

definition master_has_table :: "db \<Rightarrow> string \<Rightarrow> bool" where
  "master_has_table d n \<longleftrightarrow> list_ex (\<lambda>(m, tb). m = n \<and> tbl_kind tb = ''table'') (db_tables d)"

text \<open>\<^verbatim>\<open>SELECT count(*) FROM geometry_columns WHERE f_table_name=t\<close>.\<close>

definition gc_count :: "db \<Rightarrow> string \<Rightarrow> nat" where
  "gc_count d t = length (filter (\<lambda>c. gc_table c = t) (geometry_columns d))"

text \<open>
  \<^verbatim>\<open>select spatial_index_enabled from geometry_columns where f_table_name=t\<close>,
  \<^verbatim>\<open>.fetchone()[0]\<close>: TypeError when there is no row.
\<close>

definition gc_index_of :: "db \<Rightarrow> string \<Rightarrow> int py" where
  "gc_index_of d t =
     (case filter (\<lambda>c. gc_table c = t) (geometry_columns d) of
        [] \<Rightarrow> Raise TypeError
      | c # _ \<Rightarrow> Return (gc_index c))"

text \<open>
  \<^verbatim>\<open>with self.assertRaises(Exception):\<close> around a statement and a check: the block
  passes when either raises (every exception of the model is an \<^verbatim>\<open>Exception\<close>);
  the statement's effect stays when the check raises.
\<close>

definition assert_raises :: "(db \<Rightarrow> db py) \<Rightarrow> (db \<Rightarrow> 'a py) \<Rightarrow> db \<Rightarrow> db py" where
  "assert_raises stmt check d =
     (case stmt d of
        None \<Rightarrow> None
      | Some (Inl _) \<Rightarrow> Return d
      | Some (Inr d') \<Rightarrow>
          (case check d' of None \<Rightarrow> None | Some (Inl _) \<Rightarrow> Return d' | Some (Inr _) \<Rightarrow> Raise AssertionError))"

text \<open>\<^verbatim>\<open>self.db.execute(q)\<close> for a statement: the database it leaves.\<close>

definition exec_stmt :: "renderer \<Rightarrow> (string \<Rightarrow> db \<Rightarrow> db py) \<Rightarrow> gdb \<Rightarrow> string \<Rightarrow> gdb py" where
  "exec_stmt r run g q = py_bind (execute r run g q []) (\<lambda>d. Return (g\<lparr>database := d\<rparr>))"

text \<open>\<^verbatim>\<open>self.db.dropTable(t)\<close>.\<close>

abbreviation drop_gdb :: "gdb \<Rightarrow> string \<Rightarrow> gdb" where
  "drop_gdb g t \<equiv> g\<lparr>database := dropTable (database g) t\<rparr>"

section \<open>The tests\<close>

definition test_attach :: "session \<Rightarrow> string \<Rightarrow> session py" where
  "test_attach s temp_dir =
     (let temp_db_path = temp_dir @ ''/temp.sqlite''
      in py_bind (attach_session s temp_db_path ''temp_alias'') (\<lambda>s'.
         py_bind (assert_true (master_has_table (database (live s')) ''geometry_columns'')) (\<lambda>_.
         Return s')))"

definition test_checksForTable :: "engine \<Rightarrow> (string \<Rightarrow> db \<Rightarrow> db py) \<Rightarrow> gdb \<Rightarrow> gdb py" where
  "test_checksForTable e run g =
     py_bind (run ''CREATE TABLE test_table (id INTEGER PRIMARY KEY, name TEXT)'' (database g)) (\<lambda>d1.
     py_bind (checksForTable e (g\<lparr>database := d1\<rparr>) ''test_table'') (\<lambda>b.
     py_bind (assert_true b) (\<lambda>_.
     py_bind (assert_raises (run ''CREATE TABLE test_table_shadowed (rowid INTEGER, name TEXT)'')
                (\<lambda>d. checksForTable e (g\<lparr>database := d\<rparr>) ''test_table_shadowed'') d1) (\<lambda>d2.
     py_bind (assert_raises (run ''CREATE TABLE test_table_without_rowid (id INTEGER, name TEXT) WITHOUT ROWID'')
                (\<lambda>d. checksForTable e (g\<lparr>database := d\<rparr>) ''test_table_without_rowid'') d2) (\<lambda>d3.
     Return (g\<lparr>database := d3\<rparr>))))))"

definition test_close :: "gdb \<Rightarrow> gdb py" where
  "test_close g = Return g"

definition test_correctGeometry ::
  "engine \<Rightarrow> renderer \<Rightarrow> (string \<Rightarrow> db \<Rightarrow> db py) \<Rightarrow> (string \<Rightarrow> db \<Rightarrow> sqlval py) \<Rightarrow> gdb \<Rightarrow> gdb py" where
  "test_correctGeometry e r run fetch g =
     py_bind (exec_stmt r run g ''CREATE TABLE test_geometry (id INTEGER, geometry GEOMETRY)'') (\<lambda>g1.
     py_bind (exec_stmt r run g1 (''INSERT INTO test_geometry(id, geometry) VALUES (1, GeomFromText('' @ sq @
        ''POLYGON((0 0, 1 0, 1 1, 0 1, 0 0))'' @ sq @ '', '' @ int_str (srid g1) @ ''))'')) (\<lambda>g2.
     py_bind (exec_stmt r run g2 (''INSERT INTO test_geometry(id, geometry) VALUES (2, GeomFromText('' @ sq @
        ''POLYGON((0 0, 1 0, 1 1, 0 1))'' @ sq @ '', '' @ int_str (srid g2) @ ''))'')) (\<lambda>g3.
     py_bind (recoverGeometry e g3 ''test_geometry'' ''geometry'') (\<lambda>g4.
     py_bind (assert_equal (geometryCountOfErrors e g4 ''test_geometry'' ''geometry'') 1) (\<lambda>_.
     let g5 = correctGeometry e g4 ''test_geometry'' ''geometry''
     in py_bind (assert_equal (geometryCountOfErrors e g5 ''test_geometry'' ''geometry'') 0) (\<lambda>_.
        py_bind (fetch ''select st_asText(geometry) from test_geometry where id=2'' (database g5)) (\<lambda>v.
        py_bind (assert_equal v (SqlText ''POLYGON((0 0, 1 0, 1 1, 0 1, 0 0))'')) (\<lambda>_.
        Return (drop_gdb g5 ''test_geometry'')))))))))"

definition test_createSpatialIndex ::
  "engine \<Rightarrow> renderer \<Rightarrow> (string \<Rightarrow> db \<Rightarrow> db py) \<Rightarrow> gdb \<Rightarrow> gdb py" where
  "test_createSpatialIndex e r run g =
     py_bind (exec_stmt r run g ''CREATE TABLE test_table (id INTEGER PRIMARY KEY, geometry GEOMETRY)'') (\<lambda>g1.
     py_bind (exec_stmt r run g1 (''INSERT INTO test_table(geometry) VALUES (GeomFromText('' @ sq @
        ''POINT(0 0)'' @ sq @ '', '' @ int_str (srid g1) @ ''))'')) (\<lambda>g2.
     py_bind (recoverGeometry e g2 ''test_table'' ''geometry'') (\<lambda>g3.
     py_bind (createSpatialIndex e g3 ''test_table'' ''geometry'') (\<lambda>g4.
     py_bind (gc_index_of (database g4) ''test_table'') (\<lambda>fl.
     py_bind (assert_equal fl 1) (\<lambda>_.
     Return (drop_gdb g4 ''test_table'')))))))"

definition test_dropTable :: "engine \<Rightarrow> renderer \<Rightarrow> (string \<Rightarrow> db \<Rightarrow> db py) \<Rightarrow> gdb \<Rightarrow> gdb py" where
  "test_dropTable e r run g =
     py_bind (exec_stmt r run g ''CREATE TABLE test_table (id INTEGER PRIMARY KEY, geometry GEOMETRY)'') (\<lambda>g1.
     py_bind (exec_stmt r run g1 (''INSERT INTO test_table(geometry) VALUES (GeomFromText('' @ sq @
        ''POINT(0 0)'' @ sq @ '', '' @ int_str (srid g1) @ ''))'')) (\<lambda>g2.
     py_bind (recoverGeometry e g2 ''test_table'' ''geometry'') (\<lambda>g3.
     py_bind (assert_equal (gc_count (database g3) ''test_table'') 1) (\<lambda>_.
     let g4 = drop_gdb g3 ''test_table''
     in py_bind (assert_equal (gc_count (database g4) ''test_table'') 0) (\<lambda>_.
        Return g4)))))"

definition test_geometryCountOfErrors :: "engine \<Rightarrow> renderer \<Rightarrow> (string \<Rightarrow> db \<Rightarrow> db py) \<Rightarrow> gdb \<Rightarrow> gdb py" where
  "test_geometryCountOfErrors e r run g =
     py_bind (exec_stmt r run g ''CREATE TABLE test_geometry (id INTEGER PRIMARY KEY, geometry BLOB)'') (\<lambda>g1.
     py_bind (exec_stmt r run g1 (''INSERT INTO test_geometry(geometry) VALUES (GeomFromText('' @ sq @
        ''POLYGON((0 0, 1 0, 0 1, 0 0))'' @ sq @ '', '' @ int_str (srid g1) @ ''))'')) (\<lambda>g2.
     py_bind (exec_stmt r run g2 (''INSERT INTO test_geometry(geometry) VALUES (GeomFromText('' @ sq @
        ''POLYGON((0 0, 1 0, 1 1, 0 1))'' @ sq @ '', '' @ int_str (srid g2) @ ''))'')) (\<lambda>g3.
     py_bind (exec_stmt r run g3 (''SELECT RecoverGeometryColumn('' @ sq @ ''test_geometry'' @ sq @ '','' @ sq @
        ''geometry'' @ sq @ '',31370,'' @ sq @ ''POLYGON'' @ sq @ '','' @ sq @ ''XY'' @ sq @ '')'')) (\<lambda>g4.
     py_bind (assert_equal (geometryCountOfErrors e g4 ''test_geometry'' ''geometry'') 1) (\<lambda>_.
     Return g4)))))"

text \<open>
  \<^verbatim>\<open>metadata.loc['test_table', c]\<close> on the frame indexed by \<^verbatim>\<open>f_table_name\<close>: KeyError
  without such a row; with two rows it is a Series, whose comparison in
  \<^verbatim>\<open>assertEqual\<close> raises ValueError. The frame always has the column
  \<^verbatim>\<open>geometry_type\<close> (the query names it), so that assertion is not a step.
\<close>

definition metadata_row ::
  "(string \<times> string \<times> int \<times> int \<times> int \<times> int) list \<Rightarrow> string \<Rightarrow> (string \<times> string \<times> int \<times> int \<times> int \<times> int) py" where
  "metadata_row m t =
     (case filter (\<lambda>x. fst x = t) m of
        [] \<Rightarrow> Raise KeyError
      | [x] \<Rightarrow> Return x
      | _ \<Rightarrow> Raise ValueError)"

definition test_getGeometriesMetadata :: "engine \<Rightarrow> renderer \<Rightarrow> (string \<Rightarrow> db \<Rightarrow> db py) \<Rightarrow> gdb \<Rightarrow> gdb py" where
  "test_getGeometriesMetadata e r run g =
     py_bind (exec_stmt r run g ''CREATE TABLE test_table (id INTEGER PRIMARY KEY, geometry BLOB)'') (\<lambda>g1.
     py_bind (exec_stmt r run g1 (''INSERT INTO test_table(geometry) VALUES (GeomFromText('' @ sq @
        ''POINT(0 0)'' @ sq @ '', '' @ int_str (srid g1) @ ''))'')) (\<lambda>g2.
     py_bind (recoverGeometry e g2 ''test_table'' ''geometry'') (\<lambda>g3.
     py_bind (createSpatialIndex e g3 ''test_table'' ''geometry'') (\<lambda>g4.
     let metadata = getGeometriesMetadata g4
     in py_bind (assert_true (''test_table'' \<in> set (map fst metadata))) (\<lambda>_.
        py_bind (metadata_row metadata ''test_table'') (\<lambda>(_, _, gtype, _, s, idx).
        py_bind (assert_equal gtype 1) (\<lambda>_.
        py_bind (assert_equal s (srid g4)) (\<lambda>_.
        py_bind (assert_equal idx 1) (\<lambda>_.
        Return (drop_gdb g4 ''test_table''))))))))))"

definition test_inspectGeometry :: "engine \<Rightarrow> renderer \<Rightarrow> (string \<Rightarrow> db \<Rightarrow> db py) \<Rightarrow> gdb \<Rightarrow> gdb py" where
  "test_inspectGeometry e r run g =
     py_bind (exec_stmt r run g ''CREATE TABLE test_table (id INTEGER PRIMARY KEY, geometry BLOB)'') (\<lambda>g1.
     py_bind (exec_stmt r run g1 (''INSERT INTO test_table(geometry) VALUES (GeomFromText('' @ sq @
        ''POLYGON((0 0, 1 0, 1 1, 0 1, 0 0))'' @ sq @ '', '' @ int_str (srid g1) @ ''))'')) (\<lambda>g2.
     py_bind (exec_stmt r run g2 (''SELECT RecoverGeometryColumn('' @ sq @ ''test_table'' @ sq @ '','' @ sq @
        ''geometry'' @ sq @ '',31370,'' @ sq @ ''POLYGON'' @ sq @ '','' @ sq @ ''XY'' @ sq @ '')'')) (\<lambda>g3.
     let result = inspectGeometry e g3 ''test_table'' ''geometry''
     in py_bind (assert_equal (length result) 1) (\<lambda>_.
        py_bind (list_get result 0) (\<lambda>(gt, _).
        py_bind (assert_equal gt (Some ''POLYGON'')) (\<lambda>_.
        Return g3))))))"

text \<open>
  \<^verbatim>\<open>test_loadShp\<close> first writes \<^verbatim>\<open>{temp_dir}/test_shp.shp\<close> with geopandas; what
  \<^verbatim>\<open>ImportSHP\<close> reads from it is the engine's \<open>import_shp\<close>.
\<close>

definition test_loadShp :: "engine \<Rightarrow> gdb \<Rightarrow> string \<Rightarrow> gdb py" where
  "test_loadShp e g temp_dir =
     (let g1 = loadShp e g (temp_dir @ ''/test_shp'') ''test_shp'' ''CP1252'' None
      in py_bind (assert_true (tableExists (database g1) ''test_shp'')) (\<lambda>_.
         py_bind (getTableCountOfRows (database g1) ''test_shp'') (\<lambda>count.
         py_bind (assert_equal count 2) (\<lambda>_.
         Return g1))))"

section \<open>Lemmas\<close>

text \<open>
  On the fixture, \<^verbatim>\<open>test_attach\<close> passes exactly when the path is an SQL string
  literal and SpatiaLite's metadata created the table \<^verbatim>\<open>geometry_columns\<close>: the
  alias \<^verbatim>\<open>temp_alias\<close> is an identifier that is not in use (it is not
  \<^verbatim>\<open>temp\<close>).
\<close>

lemma test_attach_setUp:
  "(\<exists>s'. test_attach (setUp_session e) temp_dir = Return s') \<longleftrightarrow>
   sql_literal (temp_dir @ ''/temp.sqlite'') \<noteq> None \<and>
   master_has_table (database (live (setUp_session e))) ''geometry_columns''"
proof -
  have "sql_identifier ''temp_alias''" "\<not> list_ex (same_name ''temp_alias'') [''main'', ''temp'']"
    by (simp_all add: sql_identifier_def id_start_def same_name_def ascii_lower_def upper_letters_def lower_letters_def)
  then show ?thesis
    by (auto simp: test_attach_def attach_session_def setUp_session_def open_session_def Let_def
                   assert_true_def py_bind_def split: option.splits)
qed

text \<open>\<^verbatim>\<open>tearDown\<close> after \<^verbatim>\<open>test_attach\<close> closes the connection.\<close>

lemma test_attach_tearDown:
  "test_attach s temp_dir = Return s' \<Longrightarrow> \<exists>s''. tearDown e s' = Return s'' \<and> \<not> is_open s''"
  by (auto simp: test_attach_def tearDown_def close_session_def py_bind_def assert_true_def Let_def
           split: option.splits sum.splits if_splits dest!: attach_session_Return)

text \<open>\<^verbatim>\<open>dropTable\<close> removes every row of \<^verbatim>\<open>geometry_columns\<close> for the table.\<close>

lemma gc_count_dropTable: "gc_count (dropTable d t) t = 0"
  by (auto simp: gc_count_def dropTable_def same_name_def filter_empty_conv)

text \<open>The last assertion of \<^verbatim>\<open>test_dropTable\<close> cannot fail: the test is its prefix.\<close>

lemma test_dropTable_prefix:
  "test_dropTable e r run g =
     py_bind (exec_stmt r run g ''CREATE TABLE test_table (id INTEGER PRIMARY KEY, geometry GEOMETRY)'') (\<lambda>g1.
     py_bind (exec_stmt r run g1 (''INSERT INTO test_table(geometry) VALUES (GeomFromText('' @ sq @
        ''POINT(0 0)'' @ sq @ '', '' @ int_str (srid g1) @ ''))'')) (\<lambda>g2.
     py_bind (recoverGeometry e g2 ''test_table'' ''geometry'') (\<lambda>g3.
     py_bind (assert_equal (gc_count (database g3) ''test_table'') 1) (\<lambda>_.
     Return (drop_gdb g3 ''test_table'')))))"
  by (simp add: test_dropTable_def gc_count_dropTable assert_equal_def py_bind_def)

end
