(* ===== verification/Logging.thy ===== *)
theory Logging
  imports Functions Catalog
begin

text \<open>
  The two remaining helpers of \<^verbatim>\<open>src/functions.py\<close>. \<^verbatim>\<open>getLogger(logFile)\<close>
  configures Python's root logger: level INFO, a handler on standard output and one
  on the file \<^verbatim>\<open>{logFile}-{date.today().isoformat()}.log\<close>, both with the
  format \<^verbatim>\<open>%(asctime)s|%(levelname)s|%(message)s\<close>. The state \<open>log_state\<close> is
  the root logger (its level and handler list), what was written to standard output
  and standard error, and the file system. \<open>logging_log\<close> is the module-level
  \<^verbatim>\<open>logging.info\<close>/\<^verbatim>\<open>warning\<close>/\<^verbatim>\<open>error\<close>: with no handler it first runs
  \<^verbatim>\<open>basicConfig()\<close>, then every handler whose level the record reaches writes the
  formatted line. \<^verbatim>\<open>unzip(zipped, unzipped)\<close> extracts every member of an archive;
  the archive format is an interface (\<open>zip_reader\<close>) and the member names are
  sanitised as CPython's \<^verbatim>\<open>zipfile\<close> does. The file system knows files only:
  whether a path can be opened for writing is the predicate \<open>writable\<close>, as in
  \<^verbatim>\<open>download\<close>.
\<close>

section \<open>Dates\<close>

record date =
  year :: nat
  month :: nat
  day :: nat

definition zero_pad :: "nat \<Rightarrow> string \<Rightarrow> string" where
  "zero_pad k s = replicate (k - length s) (CHR ''0'') @ s"

text \<open>\<^verbatim>\<open>date.isoformat()\<close>: \<^verbatim>\<open>'%04d-%02d-%02d'\<close>.\<close>

definition isoformat :: "date \<Rightarrow> string" where
  "isoformat dt = zero_pad 4 (nat_str (year dt)) @ ''-'' @ zero_pad 2 (nat_str (month dt)) @ ''-'' @
     zero_pad 2 (nat_str (day dt))"

definition valid_date :: "date \<Rightarrow> bool" where
  "valid_date dt \<longleftrightarrow> 1 \<le> year dt \<and> year dt \<le> 9999 \<and> 1 \<le> month dt \<and> month dt \<le> 12 \<and>
     1 \<le> day dt \<and> day dt \<le> 31"

section \<open>The root logger\<close>

datatype stream = Stdout | Stderr | LogFile string

record handler =
  h_stream :: stream
  h_level :: nat
  h_fmt :: string

record log_state =
  root_level :: nat
  root_handlers :: "handler list"
  stdout_text :: string
  stderr_text :: string
  log_fs :: fs

text \<open>A fresh interpreter: the root logger at WARNING, without handlers.\<close>

definition initial_log_state :: "fs \<Rightarrow> log_state" where
  "initial_log_state s = \<lparr>root_level = 30, root_handlers = [], stdout_text = [], stderr_text = [], log_fs = s\<rparr>"

definition level_name :: "nat \<Rightarrow> string" where
  "level_name l = (if l = 10 then ''DEBUG'' else if l = 20 then ''INFO'' else if l = 30 then ''WARNING''
     else if l = 40 then ''ERROR'' else if l = 50 then ''CRITICAL'' else ''Level '' @ nat_str l)"

text \<open>
  \<^verbatim>\<open>%\<close>-style formatting of a record: each \<^verbatim>\<open>%(key)s\<close> is replaced by the
  record's attribute (the formats of the program name only attributes a record has).
\<close>

function render_fmt :: "(string \<times> string) list \<Rightarrow> string \<Rightarrow> string" where
  "render_fmt m [] = []"
| "render_fmt m (c # cs) =
     (let key = takeWhile (\<lambda>x. x \<noteq> CHR '')'') (drop 1 cs);
          rest = drop (Suc (length key)) (drop 1 cs)
      in if c = CHR ''%'' \<and> take 1 cs = ''('' \<and> take 1 rest = ''s''
         then (case map_of m key of Some v \<Rightarrow> v | None \<Rightarrow> []) @ render_fmt m (drop 1 rest)
         else c # render_fmt m cs)"
  by pat_completeness auto
termination
  by (relation "measure (\<lambda>(m, s). length s)") auto

definition log_record :: "nat \<Rightarrow> string \<Rightarrow> string \<Rightarrow> (string \<times> string) list" where
  "log_record lvl asctime msg =
     [(''asctime'', asctime), (''levelname'', level_name lvl), (''message'', msg), (''name'', ''root'')]"

definition append_file :: "fs \<Rightarrow> string \<Rightarrow> string \<Rightarrow> fs" where
  "append_file s p text = s\<lparr>files := (files s)(p \<mapsto> (case files s p of None \<Rightarrow> [] | Some c \<Rightarrow> c) @ text)\<rparr>"

text \<open>\<^verbatim>\<open>Handler.emit\<close>: the formatted line and the terminator \<^verbatim>\<open>\n\<close>.\<close>

definition emit :: "handler \<Rightarrow> string \<Rightarrow> log_state \<Rightarrow> log_state" where
  "emit h line st =
     (case h_stream h of
        Stdout \<Rightarrow> st\<lparr>stdout_text := stdout_text st @ line @ [CHR 0x0A]\<rparr>
      | Stderr \<Rightarrow> st\<lparr>stderr_text := stderr_text st @ line @ [CHR 0x0A]\<rparr>
      | LogFile p \<Rightarrow> st\<lparr>log_fs := append_file (log_fs st) p (line @ [CHR 0x0A])\<rparr>)"

text \<open>
  \<^verbatim>\<open>logging.basicConfig()\<close> on a root logger without handlers: one handler on
  standard error at level NOTSET with \<^verbatim>\<open>BASIC_FORMAT\<close>; the root level is kept.
\<close>

definition basicConfig :: "log_state \<Rightarrow> log_state" where
  "basicConfig st =
     (if root_handlers st = []
      then st\<lparr>root_handlers := [\<lparr>h_stream = Stderr, h_level = 0, h_fmt = ''%(levelname)s:%(name)s:%(message)s''\<rparr>]\<rparr>
      else st)"

definition logging_log :: "nat \<Rightarrow> string \<Rightarrow> string \<Rightarrow> log_state \<Rightarrow> log_state" where
  "logging_log lvl asctime msg st =
     (let st1 = (if root_handlers st = [] then basicConfig st else st)
      in if lvl < root_level st1 then st1
         else fold (\<lambda>h st'. if lvl < h_level h then st'
                            else emit h (render_fmt (log_record lvl asctime msg) (h_fmt h)) st')
                (root_handlers st1) st1)"

text \<open>
  \<^verbatim>\<open>getLogger(logFile)\<close>: \<^verbatim>\<open>logging.getLogger()\<close> is the root logger, the same
  object at every call; \<^verbatim>\<open>FileHandler\<close> opens its file for appending when it is
  built; \<^verbatim>\<open>addHandler\<close> appends each new handler. The module is returned: the
  result is the state.
\<close>

definition getLogger :: "(string \<Rightarrow> bool) \<Rightarrow> date \<Rightarrow> string \<Rightarrow> log_state \<Rightarrow> log_state py" where
  "getLogger writable today logFile st =
     (let fmt = ''%(asctime)s|%(levelname)s|%(message)s'';
          st1 = st\<lparr>root_level := 20\<rparr>;
          standardOutputHandler = \<lparr>h_stream = Stdout, h_level = 20, h_fmt = fmt\<rparr>;
          path = logFile @ ''-'' @ isoformat today @ ''.log''
      in if \<not> writable path then Raise (FileNotFoundError path)
         else
           (let st2 = st1\<lparr>log_fs := append_file (log_fs st1) path []\<rparr>;
                fileHandler = \<lparr>h_stream = LogFile path, h_level = 20, h_fmt = fmt\<rparr>
            in Return (st2\<lparr>root_handlers := root_handlers st2 @ [standardOutputHandler, fileHandler]\<rparr>)))"

section \<open>unzip\<close>

text \<open>
  \<^verbatim>\<open>ZipFile.extractall\<close> writes each member to \<^verbatim>\<open>os.path.join(unzipped, arcname)\<close>,
  where \<open>arcname\<close> is the member's name without its empty, \<^verbatim>\<open>.\<close> and \<^verbatim>\<open>..\<close>
  components; a name ending in \<^verbatim>\<open>/\<close> is a directory and writes no file. The
  reader returns the members in order, or \<open>None\<close> for a file that is not an archive.
\<close>

type_synonym zip_reader = "string \<Rightarrow> (string \<times> string) list option"

function split_path :: "string \<Rightarrow> string list" where
  "split_path s =
     (case dropWhile (\<lambda>c. c \<noteq> CHR ''/'') s of
        [] \<Rightarrow> [s]
      | _ # rest \<Rightarrow> takeWhile (\<lambda>c. c \<noteq> CHR ''/'') s # split_path rest)"
  by pat_completeness auto
termination
  by (relation "measure length") (auto dest: dropWhile_Cons_length)

fun join_path :: "string list \<Rightarrow> string" where
  "join_path [] = []"
| "join_path [x] = x"
| "join_path (x # xs) = x @ ''/'' @ join_path xs"

definition arcname :: "string \<Rightarrow> string" where
  "arcname n = join_path (filter (\<lambda>x. x \<notin> {[], ''.'', ''..''}) (split_path n))"

text \<open>
  One member: a directory entry creates directories only; a file whose sanitised name
  is empty would be written to the target directory itself, which
  \<^verbatim>\<open>open(..., 'wb')\<close> refuses (IsADirectoryError). The target directory is taken
  as normalised (\<^verbatim>\<open>os.path.normpath\<close> leaves it unchanged).
\<close>

definition extract_member :: "string \<Rightarrow> fs \<Rightarrow> string \<times> string \<Rightarrow> fs py" where
  "extract_member unzipped s m =
     (if fst m \<noteq> [] \<and> last (fst m) = CHR ''/'' then Return s
      else if arcname (fst m) = [] then Raise (Exception (''IsADirectoryError: '' @ unzipped))
      else Return (s\<lparr>files := (files s)(unzipped @ ''/'' @ arcname (fst m) \<mapsto> snd m)\<rparr>))"

fun extractall :: "string \<Rightarrow> fs \<Rightarrow> (string \<times> string) list \<Rightarrow> fs py" where
  "extractall unzipped s [] = Return s"
| "extractall unzipped s (m # ms) = py_bind (extract_member unzipped s m) (\<lambda>s'. extractall unzipped s' ms)"

definition unzip :: "zip_reader \<Rightarrow> fs \<Rightarrow> string \<Rightarrow> string \<Rightarrow> fs py" where
  "unzip reader s zipped unzipped =
     (case files s zipped of
        None \<Rightarrow> Raise (FileNotFoundError zipped)
      | Some content \<Rightarrow>
          (case reader content of
             None \<Rightarrow> Raise (Exception ''File is not a zip file'')
           | Some members \<Rightarrow> extractall unzipped s members))"


section \<open>Lemmas\<close>

declare split_path.simps [simp del]

lemma nat_str_length: "n < 10 ^ k \<Longrightarrow> 0 < k \<Longrightarrow> length (nat_str n) \<le> k"
proof (induction n arbitrary: k rule: nat_str.induct)
  case (1 n)
  show ?case
  proof (cases "n < 10")
    case True
    then show ?thesis using "1.prems" by simp
  next
    case False
    then have "k \<noteq> 1" using "1.prems" by auto
    with "1.prems" obtain j where k: "k = Suc j" "0 < j"
      by (cases k) auto
    have "n div 10 < 10 ^ j" using "1.prems" k
      by (simp add: div_less_iff_less_mult mult.commute)
    then have "length (nat_str (n div 10)) \<le> j" using "1.IH" False k by simp
    then show ?thesis using False k by simp
  qed
qed

lemma zero_pad_length: "length s \<le> k \<Longrightarrow> length (zero_pad k s) = k"
  by (simp add: zero_pad_def)

lemma isoformat_length: "valid_date dt \<Longrightarrow> length (isoformat dt) = 10"
proof -
  assume v: "valid_date dt"
  then have "length (nat_str (year dt)) \<le> 4" "length (nat_str (month dt)) \<le> 2" "length (nat_str (day dt)) \<le> 2"
    by (auto simp: valid_date_def intro!: nat_str_length)
  then show ?thesis by (simp add: isoformat_def zero_pad_length)
qed

lemma pipe_format: "render_fmt (log_record lvl t msg) ''%(asctime)s|%(levelname)s|%(message)s'' = t @ ''|'' @ level_name lvl @ ''|'' @ msg"
  by (simp add: log_record_def)

lemma getLogger_Return:
  "getLogger w today f st = Return st' \<Longrightarrow>
   root_level st' = 20 \<and> stdout_text st' = stdout_text st \<and> stderr_text st' = stderr_text st \<and>
   root_handlers st' = root_handlers st @
     [\<lparr>h_stream = Stdout, h_level = 20, h_fmt = ''%(asctime)s|%(levelname)s|%(message)s''\<rparr>,
      \<lparr>h_stream = LogFile (f @ ''-'' @ isoformat today @ ''.log''), h_level = 20,
        h_fmt = ''%(asctime)s|%(levelname)s|%(message)s''\<rparr>] \<and>
   files (log_fs st') (f @ ''-'' @ isoformat today @ ''.log'') =
     Some (case files (log_fs st) (f @ ''-'' @ isoformat today @ ''.log'') of None \<Rightarrow> [] | Some c \<Rightarrow> c)"
  by (auto simp: getLogger_def Let_def append_file_def split: if_splits)

text \<open>One call from a fresh interpreter: every INFO message goes once to standard output and once to the file.\<close>

lemma getLogger_once:
  assumes "getLogger w today f (initial_log_state s) = Return st1"
  shows "stdout_text (logging_log 20 t msg st1) = t @ ''|INFO|'' @ msg @ [CHR 0x0A] \<and>
         stderr_text (logging_log 20 t msg st1) = [] \<and>
         files (log_fs (logging_log 20 t msg st1)) (f @ ''-'' @ isoformat today @ ''.log'') =
           Some ((case files s (f @ ''-'' @ isoformat today @ ''.log'') of None \<Rightarrow> [] | Some c \<Rightarrow> c) @
                 t @ ''|INFO|'' @ msg @ [CHR 0x0A])"
  using getLogger_Return [OF assms]
  by (simp add: initial_log_state_def logging_log_def emit_def append_file_def log_record_def level_name_def)

text \<open>A second call adds two more handlers: every message is then written twice to each.\<close>

lemma getLogger_twice:
  assumes "root_handlers st = []" "getLogger w today f st = Return st1" "getLogger w today f st1 = Return st2"
  shows "stdout_text (logging_log 20 t msg st2) =
           stdout_text st @ (t @ ''|INFO|'' @ msg @ [CHR 0x0A]) @ (t @ ''|INFO|'' @ msg @ [CHR 0x0A]) \<and>
         files (log_fs (logging_log 20 t msg st2)) (f @ ''-'' @ isoformat today @ ''.log'') =
           Some ((case files (log_fs st) (f @ ''-'' @ isoformat today @ ''.log'') of None \<Rightarrow> [] | Some c \<Rightarrow> c) @
                 (t @ ''|INFO|'' @ msg @ [CHR 0x0A]) @ (t @ ''|INFO|'' @ msg @ [CHR 0x0A]))"
  using getLogger_Return [OF assms(2)] getLogger_Return [OF assms(3)] assms(1)
  by (simp add: logging_log_def emit_def append_file_def log_record_def level_name_def)

lemma split_path_last: "\<forall>c\<in>set s. c \<noteq> CHR ''/'' \<Longrightarrow> split_path s = [s]"
proof -
  assume "\<forall>c\<in>set s. c \<noteq> CHR ''/''"
  then have d: "dropWhile (\<lambda>c. c \<noteq> CHR ''/'') s = []" by (simp add: dropWhile_eq_Nil_conv)
  show ?thesis by (subst split_path.simps) (simp only: d list.case)
qed

lemma split_path_step:
  "dropWhile (\<lambda>c. c \<noteq> CHR ''/'') s = y # rest \<Longrightarrow>
   split_path s = takeWhile (\<lambda>c. c \<noteq> CHR ''/'') s # split_path rest"
  by (subst split_path.simps) (simp only: list.case)

lemma split_path_no_slash: "x \<in> set (split_path s) \<Longrightarrow> CHR ''/'' \<notin> set x"
proof (induction s rule: split_path.induct)
  case (1 s)
  show ?case
  proof (cases "dropWhile (\<lambda>c. c \<noteq> CHR ''/'') s")
    case Nil
    then have "\<forall>c\<in>set s. c \<noteq> CHR ''/''" by (simp add: dropWhile_eq_Nil_conv)
    then show ?thesis using "1.prems" by (auto simp: split_path_last)
  next
    case (Cons y rest)
    then have "x = takeWhile (\<lambda>c. c \<noteq> CHR ''/'') s \<or> x \<in> set (split_path rest)"
      using "1.prems" by (simp add: split_path_step)
    then show ?thesis using "1.IH" [OF Cons] by (auto dest: set_takeWhileD)
  qed
qed

lemma split_path_join: "xs \<noteq> [] \<Longrightarrow> \<forall>x\<in>set xs. CHR ''/'' \<notin> set x \<Longrightarrow> split_path (join_path xs) = xs"
proof (induction xs rule: join_path.induct)
  case (3 x y ys)
  then have x: "\<forall>c\<in>set x. c \<noteq> CHR ''/''" by auto
  then have "dropWhile (\<lambda>c. c \<noteq> CHR ''/'') (x @ CHR ''/'' # join_path (y # ys)) = CHR ''/'' # join_path (y # ys)"
    "takeWhile (\<lambda>c. c \<noteq> CHR ''/'') (x @ CHR ''/'' # join_path (y # ys)) = x"
    by (simp_all add: dropWhile_append3 takeWhile_append2)
  then show ?case using 3 by (simp add: split_path_step)
qed (auto intro: split_path_last)

lemma arcname_safe: "arcname n \<noteq> [] \<Longrightarrow> ''..'' \<notin> set (split_path (arcname n))"
proof -
  assume ne: "arcname n \<noteq> []"
  let ?xs = "filter (\<lambda>x. x \<notin> {[], ''.'', ''..''}) (split_path n)"
  have "?xs \<noteq> []" using ne by (auto simp: arcname_def)
  moreover have "\<forall>x\<in>set ?xs. CHR ''/'' \<notin> set x" by (auto dest: split_path_no_slash)
  ultimately have "split_path (arcname n) = ?xs"
    unfolding arcname_def by (rule split_path_join)
  then show ?thesis by simp
qed

lemma extractall_confined:
  "extractall u s ms = Return s' \<Longrightarrow> files s' p \<noteq> files s p \<Longrightarrow>
   \<exists>a. p = u @ ''/'' @ a \<and> a \<noteq> [] \<and> ''..'' \<notin> set (split_path a)"
proof (induction ms arbitrary: s)
  case (Cons m ms)
  then obtain s1 where 1: "extract_member u s m = Return s1" and 2: "extractall u s1 ms = Return s'"
    by (auto simp: py_bind_def split: option.splits sum.splits)
  show ?case
  proof (cases "files s1 p = files s p")
    case True
    then show ?thesis using Cons.IH [OF 2] Cons.prems(2) by simp
  next
    case False
    have "s1 = s \<or> (arcname (fst m) \<noteq> [] \<and> s1 = s\<lparr>files := (files s)(u @ ''/'' @ arcname (fst m) \<mapsto> snd m)\<rparr>)"
      using 1 by (auto simp: extract_member_def split: if_splits)
    with False have "arcname (fst m) \<noteq> []" "p = u @ ''/'' @ arcname (fst m)"
      by (auto split: if_splits)
    then show ?thesis using arcname_safe by blast
  qed
qed simp

text \<open>\<^verbatim>\<open>unzip\<close> writes only below the target directory, never through a \<^verbatim>\<open>..\<close> component.\<close>

lemma unzip_confined:
  "unzip reader s zipped unzipped = Return s' \<Longrightarrow> files s' p \<noteq> files s p \<Longrightarrow>
   \<exists>a. p = unzipped @ ''/'' @ a \<and> a \<noteq> [] \<and> ''..'' \<notin> set (split_path a)"
  by (auto simp: unzip_def split: option.splits dest: extractall_confined)

end
