(* ===== verification/Spec2Isabelle.thy ===== *)
theory Spec2Isabelle
  imports Exports Functions Scenarios SpatialTests Logging
begin

text \<open>
  \<^bold>\<open>A verification development for mygeodb.\<close>

  The repository is a thin Python layer over SQLite/SpatiaLite
  (\<^verbatim>\<open>src/geodatabase.py\<close>, class \<^verbatim>\<open>Geodatabase\<close>), a few helpers for downloads,
  archives and logging (\<^verbatim>\<open>src/functions.py\<close>), a unittest suite
  (\<^verbatim>\<open>src/testGeodatabase.py\<close>) and its one algorithm, the connected-components
  labeler of \<^verbatim>\<open>src/graph.py\<close> (class \<^verbatim>\<open>connectedComponentsLabeler\<close>), which
  \<^verbatim>\<open>Geodatabase.findConnectedComponents\<close> runs on an edge table read from the
  database and whose result it writes back as a table \<^verbatim>\<open>(id, cc)\<close>.

  \<^bold>\<open>Theories\<close> (each imports the ones above it that it uses).
  \<^item> \<open>Prelude\<close>: the result type \<open>'a py\<close> of a Python computation (\<open>None\<close>:
    unbounded recursion; \<open>Raise e\<close>: an exception of the datatype \<open>pyerr\<close>;
    \<open>Return v\<close>), its sequencing \<open>py_bind\<close> (monotone, so recursive code is a
    \<^theory_text>\<open>partial_function (option)\<close>), dictionary and list subscripts that raise
    KeyError and IndexError, \<^verbatim>\<open>list.remove\<close>, insertion-ordered dictionaries,
    string padding, and the abstract specification of the labeler: undirected
    connectivity \<open>conn\<close> of an edge set.
  \<^item> \<open>Forest\<close>: the disjoint-set forest of \<^verbatim>\<open>graph.py\<close>, the list
    \<^verbatim>\<open>forest\<close> of parent indices and the methods
    \<^verbatim>\<open>connectedComponentIdentifier\<close> (recursive find with path compression),
    \<^verbatim>\<open>link\<close> and \<^verbatim>\<open>simplifyForest\<close>, each a function from the list to the new
    list. The abstraction is the relation \<open>rep_path f i r\<close> (parents lead from
    \<open>i\<close> to the root \<open>r\<close>), executable as \<open>rep_opt\<close>; the invariant
    \<open>uf_invar\<close> says every index reaches a root.
  \<^item> \<open>Labeler\<close>: the class \<^verbatim>\<open>connectedComponentsLabeler\<close>. Its dictionaries
    \<^verbatim>\<open>hash2seq\<close>/\<^verbatim>\<open>seq2hash\<close> are class attributes mutated in place, hence
    shared by all instances: the record \<open>labeler_class\<close> threaded through every run.
    \<^verbatim>\<open>__init__\<close> is \<open>labeler_init\<close> (\<open>register\<close> then \<open>ingest\<close>),
    \<^verbatim>\<open>getConnectedCompontents\<close> is \<open>getConnectedCompontents\<close>, and the call made
    by \<^verbatim>\<open>findConnectedComponents\<close> is \<open>connected_components\<close>. The order in
    which Python iterates the set of keys is an argument \<open>hs\<close>: every theorem holds
    for every order (\<open>hashes_of es hs\<close>).
  \<^item> \<open>Catalog\<close>: the SQLite database as the record \<open>db\<close> (the entries of
    \<^verbatim>\<open>sqlite_master\<close> with their columns and rows, and SpatiaLite's
    \<^verbatim>\<open>geometry_columns\<close>), SQL's \<^verbatim>\<open>LIKE\<close> and case rules, and the catalog
    queries \<^verbatim>\<open>getListOfTables\<close>, \<^verbatim>\<open>getTableCountOfRows\<close>, \<^verbatim>\<open>tableExists\<close>,
    \<^verbatim>\<open>getColumnMaxLength\<close>, \<^verbatim>\<open>getColumnCountOfDistinctValues\<close>,
    \<^verbatim>\<open>getListOfColumns\<close> and \<^verbatim>\<open>dropTable\<close>, each the meaning of its SQL on
    the record.
  \<^item> \<open>GeomOps\<close>: the object \<^verbatim>\<open>Geodatabase\<close> as the record \<open>gdb\<close>
    (\<^verbatim>\<open>self.database\<close>, \<^verbatim>\<open>self.srid\<close>), its constructor
    \<^verbatim>\<open>__init__\<close> (\<open>geodatabase_init\<close>: open or recreate the file, initialise the
    spatial metadata of a new one), \<^verbatim>\<open>loadShp\<close>, \<^verbatim>\<open>getGeometriesMetadata\<close>
    and the geometry maintenance methods \<^verbatim>\<open>checksForTable\<close>,
    \<^verbatim>\<open>correctGeometry\<close>, \<^verbatim>\<open>createSpatialIndex\<close>,
    \<^verbatim>\<open>geometryCountOfErrors\<close>, \<^verbatim>\<open>inspectGeometry\<close>, \<^verbatim>\<open>recoverGeometry\<close>,
    \<^verbatim>\<open>recoverSpatialIndex\<close>. SpatiaLite is the interface record \<open>engine\<close> of
    functions: every theorem holds for every engine; \<open>inert_engine\<close> is one
    concrete engine, used by the witnesses.
  \<^item> \<open>Transform\<close>: \<^verbatim>\<open>reproject\<close> in its three stages (\<open>reproject_clear\<close>:
    the \<^verbatim>\<open>if_exists\<close> policy; \<open>reproject_create\<close>: the column list and the
    \<^verbatim>\<open>CREATE TABLE ... AS SELECT\<close> it sends, \<open>create_transformed\<close>; then
    \<^verbatim>\<open>recoverGeometry\<close> and \<^verbatim>\<open>createSpatialIndex\<close>). Two contracts name what
    the success theorem needs: \<open>wf_catalog\<close> (table names and the column names of
    each table distinct up to case, as SQLite enforces) and \<open>keeps_tables\<close> (the
    SpatiaLite calls leave existing tables as they are).
  \<^item> \<open>Exports\<close>: \<^verbatim>\<open>toCsv\<close> (the file it writes: path, member, separator,
    header, rows) and \<^verbatim>\<open>toSas\<close> (the path and text of the SAS program).
  \<^item> \<open>FindComponents\<close>: \<^verbatim>\<open>findConnectedComponents\<close> (read the edges, run the
    labeler, store the frame with pandas' \<^verbatim>\<open>to_sql\<close> replace) and the repository
    test \<^verbatim>\<open>test_findConnectedComponents\<close>.
  \<^item> \<open>Functions\<close>: \<^verbatim>\<open>download\<close> of \<^verbatim>\<open>functions.py\<close>, with the file system
    as a map from paths to contents and \<^verbatim>\<open>requests.get\<close> as a function.
  \<^item> \<open>Scenarios\<close>: the scenarios of the specification run through the labeler
    (empty input, a self-loop, a repeated edge, the chain of \<open>n\<close> keys).
  \<^item> \<open>RowQueries\<close>: SQLite rowids (the \<^verbatim>\<open>INTEGER PRIMARY KEY\<close> column that
    aliases them, or the insertion number), the statements the tests send through
    \<^verbatim>\<open>execute\<close> (\<open>create_table\<close>, \<open>insert_into\<close>, \<open>select_column\<close>),
    \<^verbatim>\<open>getTableHead\<close> (the query and pandas' \<^verbatim>\<open>index_col\<close> lookup) and
    \<^verbatim>\<open>pointInPolygon\<close> (\<open>within_pairs\<close>: the join on \<^verbatim>\<open>st_within\<close> filtered by
    the \<^verbatim>\<open>spatialIndex\<close> virtual table). The two SpatiaLite functions it calls
    extend the interface: the record \<open>spatial_engine = engine + ...\<close>. The invariant
    \<open>db_typed\<close> says every row is as wide as its table.
  \<^item> \<open>UnitTests\<close>: \<^verbatim>\<open>setUp\<close> and the catalog tests of
    \<^verbatim>\<open>testGeodatabase.py\<close>, each a function from the fixture to the state after
    the test or to the exception it ends with.
  \<^item> \<open>Loaders\<close>: \<^verbatim>\<open>loadCsv\<close>, \<^verbatim>\<open>loadEmbeddedCsv\<close> (the CSV parser of pandas
    is an interface, \<open>csv_parser\<close>; \<^verbatim>\<open>to_sql\<close> with fail/replace/append is
    \<open>pandas_to_sql\<close>), the empty \<^verbatim>\<open>loadDataFrame\<close>, \<^verbatim>\<open>loadShpZip\<close> and
    \<^verbatim>\<open>toSpatialite\<close>, and the tests \<^verbatim>\<open>test_loadCsv\<close> and
    \<^verbatim>\<open>test_loadEmbeddedCsv\<close>.
  \<^item> \<open>Execute\<close>: \<^verbatim>\<open>execute\<close> and \<^verbatim>\<open>executeScript\<close>, which format their SQL
    with Python's \<^verbatim>\<open>str.format\<close> (\<open>py_format\<close>: CPython's scanner, with a
    \<open>renderer\<close> interface for attributes, conversions and format specs), and the test
    \<^verbatim>\<open>test_executeScript\<close>.
  \<^item> \<open>Session\<close>: the \<^verbatim>\<open>sqlite3\<close> connection over a sequence of calls
    (\<open>session_op\<close>, \<open>session_step\<close>, \<open>run_session\<close>). The record \<open>session\<close>
    holds what the connection reads and what is committed to the file, whether a
    transaction is open, whether the connection is open, and the attached databases.
    Python's implicit transactions are \<open>run_statement\<close> and \<open>is_dml\<close>;
    \<^verbatim>\<open>attach\<close>, \<^verbatim>\<open>close\<close>, \<^verbatim>\<open>execute\<close>, \<^verbatim>\<open>executeScript\<close> and
    \<^verbatim>\<open>correctGeometry\<close> are \<open>attach_session\<close>, \<open>close_session\<close>,
    \<open>execute_session\<close> (built on \<open>execute\<close>), \<open>executeScript_session\<close> (built
    on \<open>executeScript\<close>) and \<open>correctGeometry_session\<close> (built on
    \<open>correctGeometry\<close>). Every call keeps the invariant \<open>session_ok\<close>
    (\<open>run_session_ok\<close>), and so does every state of \<open>session_reach\<close>, the
    reachable states (rule induction); from each of them a closed connection is
    reached, which no call leaves (\<open>session_reach_closes\<close>).
  \<^item> \<open>SpatialTests\<close>: the remaining tests of \<^verbatim>\<open>testGeodatabase.py\<close>
    (\<^verbatim>\<open>tearDown\<close>, \<^verbatim>\<open>test_attach\<close>, \<^verbatim>\<open>test_checksForTable\<close>,
    \<^verbatim>\<open>test_close\<close>, \<^verbatim>\<open>test_correctGeometry\<close>, \<^verbatim>\<open>test_createSpatialIndex\<close>,
    \<^verbatim>\<open>test_dropTable\<close>, \<^verbatim>\<open>test_geometryCountOfErrors\<close>,
    \<^verbatim>\<open>test_getGeometriesMetadata\<close>, \<^verbatim>\<open>test_inspectGeometry\<close>,
    \<^verbatim>\<open>test_loadShp\<close>), with the SpatiaLite statements they send as interfaces.
    \<open>test_attach_setUp\<close> says when \<^verbatim>\<open>test_attach\<close> passes on the fixture;
    \<open>test_dropTable_prefix\<close> that its last assertion cannot fail.
  \<^item> \<open>Logging\<close>: \<^verbatim>\<open>getLogger\<close> and \<^verbatim>\<open>unzip\<close> of
    \<^verbatim>\<open>functions.py\<close>. Python's root logger is the record \<open>log_state\<close>
    (level, handlers, standard output and error, files); \<open>logging_log\<close> is the
    module-level \<^verbatim>\<open>logging.info\<close> and its kin. \<open>getLogger_once\<close> shows the intended
    behaviour (each message once on standard output and once in
    \<^verbatim>\<open>{logFile}-{isoformat}.log\<close>), \<open>getLogger_twice\<close> that a second call doubles
    every message, \<open>isoformat_length\<close> that the date part has ten characters.
    \<^verbatim>\<open>unzip\<close> reads the archive through an interface and extracts members as
    \<^verbatim>\<open>zipfile\<close> does; \<open>unzip_confined\<close> shows it writes only below the target
    directory and never through \<^verbatim>\<open>..\<close>.

  \<^bold>\<open>What is proved.\<close>
  \<^item> Labeler end to end (C1): it returns, one row per key, two rows share a label
    exactly when their keys are connected, each label names a member of the component.
    Order invariance (C5). Forest (C2, C3, C4, C6, C7): find returns the root and
    keeps every representative, link merges exactly two classes and lowers the number
    of components by at most one, simplifyForest flattens the forest and is idempotent.
  \<^item> Catalog (C8 to C11): what \<^verbatim>\<open>getListOfTables\<close> lists; the \<^verbatim>\<open>LIKE\<close>
    wildcards hide user tables named \<open>idx...\<close> or \<open>sqlite...\<close>;
    \<^verbatim>\<open>tableExists\<close> is case-sensitive where SQLite is not; an empty table makes
    \<^verbatim>\<open>getListOfColumns(withLengths=True)\<close> raise ValueError.
  \<^item> Geometry (C12, C13): the contract of \<^verbatim>\<open>recoverGeometry\<close> with SpatiaLite,
    and IndexError on a column without geometry.
  \<^item> Transform (C14, C15, C25): an in-place \<^verbatim>\<open>reproject\<close> with
    \<^verbatim>\<open>'replace'\<close> drops its input; \<^verbatim>\<open>'replace'\<close> fails for an output name
    existing in another case; a successful \<^verbatim>\<open>reproject\<close> leaves the output table
    with the input's columns, \<^verbatim>\<open>geometry\<close> last and transformed, row by row.
  \<^item> Exports (C16, C17): the SAS program of \<^verbatim>\<open>toSas\<close> reads exactly the CSV
    that \<^verbatim>\<open>toCsv\<close> writes; unlisted declared types give the SAS length
    \<^verbatim>\<open>Unknown\<close>.
  \<^item> FindComponents (C18, C19): \<^verbatim>\<open>findConnectedComponents\<close> refines the
    specified interface, and the repository's graph test passes for every set order
    and every earlier state of the shared dictionaries.
  \<^item> Functions (C20, C21): \<^verbatim>\<open>download\<close> writes only its destination and reports
    success exactly on status 200; a failed download empties an existing file.
  \<^item> Scenarios (C22 to C24): the chain of \<open>n\<close> keys leaves a single path of
    depth \<open>n - 1\<close> below its root, which the first recursive find of
    \<^verbatim>\<open>simplifyForest\<close> walks before any compression; empty input and a
    self-loop give the expected rows; a repeated edge changes nothing.
  \<^item> Termination (C26): \<^verbatim>\<open>findConnectedComponents\<close> returns or raises, never
    recurses without bound, for every database and set order.
  \<^item> Row queries (C27 to C31): every row \<^verbatim>\<open>pointInPolygon\<close> writes pairs a point
    with a polygon containing it; with a complete R-tree its output is exactly the
    spatial join; the table-creating statements keep every table well typed;
    \<^verbatim>\<open>getTableHead\<close> raises KeyError on every table with an
    \<^verbatim>\<open>INTEGER PRIMARY KEY\<close>, and otherwise returns at most ten rows indexed by rowid.
  \<^item> Tests (C32, C33): the catalog tests pass on every database without a
    \<^verbatim>\<open>test_table\<close>; \<^verbatim>\<open>test_getTableHead\<close> raises KeyError.
  \<^item> Loaders (C34 to C36): with \<^verbatim>\<open>'replace'\<close> both loaders store exactly the
    frame read and agree with each other; \<^verbatim>\<open>'append'\<close> adds exactly the frame's
    rows; the loader tests pass exactly when the parser reads two rows.
  \<^item> Execute (C37 to C39): \<^verbatim>\<open>execute\<close> sends brace-free queries unchanged and
    doubled braces as single ones; a brace-delimited word that is not a parameter is a
    KeyError; \<^verbatim>\<open>test_executeScript\<close> can never pass.
  \<^item> Session (C40): \<^verbatim>\<open>close()\<close> rolls back the transaction that
    \<^verbatim>\<open>correctGeometry\<close>'s UPDATE opened: after any further corrections,
    attachments and DML statements, the file holds the database as it was before the
    correction.

  \<^bold>\<open>Bounds and fuel.\<close> No fuel is used: the recursive find is a
  \<^theory_text>\<open>partial_function (option)\<close> whose \<open>None\<close> is unbounded recursion, and every
  theorem that says it returns proves \<open>Return\<close> outright from the invariant.
  Python's recursion limit is not part of the model; C22 states the recursion depth
  the chain reaches instead (1000 levels for the specification's 1000-key chain, at
  CPython's default limit). SQL integers are unbounded \<open>int\<close>, as Python's are.

  \<^bold>\<open>Modelling choices.\<close> SpatiaLite, \<^verbatim>\<open>requests.get\<close>, pandas' CSV parser and
  the rendering of format specs are interfaces (records or function arguments), so
  every theorem holds for all of them; the witnesses use small concrete instances
  (\<open>inert_engine\<close>, \<open>demo_spatial_engine\<close>, \<open>demo_parser\<close>,
  \<open>demo_session_engine\<close>). Python's \<^verbatim>\<open>sqlite3\<close> is modelled as CPython 3.11
  drives it (which statements open a transaction, what \<^verbatim>\<open>close\<close> does with one). SQLite's own
  behaviour (case-insensitive names, \<^verbatim>\<open>LIKE\<close>, declared types of
  \<^verbatim>\<open>CREATE TABLE ... AS\<close>, rowid naming, the order of its errors) is modelled as
  SQLite 3.46 does it. A table's rows are kept in rowid order: the program never
  deletes single rows.

  \<^bold>\<open>Not modelled.\<close> pandas' rendering of values in CSV; transaction-control
  statements (\<^verbatim>\<open>BEGIN\<close>, \<^verbatim>\<open>COMMIT\<close>, \<^verbatim>\<open>SAVEPOINT\<close>, ...) sent through
  \<^verbatim>\<open>execute\<close>, which the session model leaves to the statement interface;
  SQL keywords used as an \<^verbatim>\<open>attach\<close> alias; directories of the file system (\<^verbatim>\<open>os.makedirs\<close> in
  \<^verbatim>\<open>unzip\<close>, a missing directory is a path that is not writable); the log lines
  the other methods write; what SpatiaLite computes from geometries (the
  engine and statement interfaces stand for it), so the SpatiaLite tests are modelled
  up to those answers; the removal of the temporary directory in
  \<^verbatim>\<open>tearDown\<close> and the shapefile that \<^verbatim>\<open>test_loadShp\<close> writes with geopandas.
\<close>

end
